(* ===== verification/Prelude.thy ===== *)
theory Prelude
  imports Complex_Main "HOL-Library.Sublist" "HOL-Library.Char_ord" "HOL-Library.List_Lexorder"
begin

text \<open>
  Shared vocabulary of the development: the state-and-exception monad in which the
  Python handler runs (a Python function that may raise, reading and writing the
  state of the runtime and of the remote service), string helpers used by several
  components (joining, substring test, decimal digits), and the collection
  \<open>run_simps\<close> of equations that execute the model's monadic code on concrete
  states.
\<close>

named_theorems run_simps "equations that evaluate the monadic model on concrete states"

section \<open>Computations that may raise\<close>

text \<open>
  A Python statement that may raise is a function from the state to a result and the
  new state; the result is \<open>Inl e\<close> when exception \<open>e\<close> propagates and \<open>Inr v\<close>
  when the statement completes with value \<open>v\<close>. Effects made before an exception are
  kept in the returned state, as in Python.
\<close>

type_synonym ('e, 's, 'a) exc_st = "'s \<Rightarrow> ('e + 'a) \<times> 's"

definition returnE :: "'a \<Rightarrow> ('e, 's, 'a) exc_st" where
  "returnE a = (\<lambda>s. (Inr a, s))"

definition raiseE :: "'e \<Rightarrow> ('e, 's, 'a) exc_st" where
  "raiseE e = (\<lambda>s. (Inl e, s))"

text \<open>A pure computation that may raise (no state effect).\<close>

definition liftE :: "'e + 'a \<Rightarrow> ('e, 's, 'a) exc_st" where
  "liftE r = (\<lambda>s. (r, s))"

definition bindE :: "('e, 's, 'a) exc_st \<Rightarrow> ('a \<Rightarrow> ('e, 's, 'b) exc_st) \<Rightarrow> ('e, 's, 'b) exc_st" where
  "bindE m f = (\<lambda>s. case m s of (Inl e, s') \<Rightarrow> (Inl e, s') | (Inr a, s') \<Rightarrow> f a s')"

text \<open>Bind for pure results of type \<open>'e + 'a\<close>.\<close>

definition bindS :: "'e + 'a \<Rightarrow> ('a \<Rightarrow> 'e + 'b) \<Rightarrow> 'e + 'b" where
  "bindS r f = (case r of Inl e \<Rightarrow> Inl e | Inr a \<Rightarrow> f a)"

section \<open>String helpers\<close>

text \<open>Python's \<open>sep.join(xs)\<close>.\<close>

fun join_str :: "string \<Rightarrow> string list \<Rightarrow> string" where
  "join_str sep [] = []"
| "join_str sep [x] = x"
| "join_str sep (x # y # zs) = x @ sep @ join_str sep (y # zs)"

text \<open>
  Python's \<open>t in s\<close> on two strings: \<open>t\<close> occurs as a contiguous substring of
  \<open>s\<close>. Executable by scanning the suffixes of \<open>s\<close>; shown below to be the
  library's \<open>sublist\<close>.
\<close>

fun str_contains :: "string \<Rightarrow> string \<Rightarrow> bool" where
  "str_contains s t = (prefix t s \<or> (case s of [] \<Rightarrow> False | _ # s' \<Rightarrow> str_contains s' t))"

text \<open>Decimal digits of a natural number, most significant first.\<close>

definition digit_char :: "nat \<Rightarrow> char" where
  "digit_char d = char_of (48 + d)"

fun dec_nat :: "nat \<Rightarrow> string" where
  "dec_nat n = (if n < 10 then [digit_char n] else dec_nat (n div 10) @ [digit_char (n mod 10)])"

declare dec_nat.simps [simp del]

section \<open>Lemmas on the monad\<close>

lemma returnE_apply [run_simps, simp]: "returnE a s = (Inr a, s)"
  by (simp add: returnE_def)

lemma raiseE_apply [run_simps, simp]: "raiseE e s = (Inl e, s)"
  by (simp add: raiseE_def)

lemma liftE_apply [run_simps, simp]: "liftE r s = (r, s)"
  by (simp add: liftE_def)

lemma bindE_apply [run_simps]:
  "bindE m f s = (case m s of (Inl e, s') \<Rightarrow> (Inl e, s') | (Inr a, s') \<Rightarrow> f a s')"
  by (simp add: bindE_def)

lemma bindE_Inl [simp]: "m s = (Inl e, s') \<Longrightarrow> bindE m f s = (Inl e, s')"
  by (simp add: bindE_def)

lemma bindE_Inr [simp]: "m s = (Inr a, s') \<Longrightarrow> bindE m f s = f a s'"
  by (simp add: bindE_def)

lemma bindE_returnE [simp]: "bindE (returnE a) f = f a"
  by (simp add: bindE_def returnE_def)

lemma bindE_raiseE [simp]: "bindE (raiseE e) f = raiseE e"
  by (simp add: bindE_def raiseE_def)

lemma bindE_liftE_Inl [simp]: "bindE (liftE (Inl e)) f = raiseE e"
  by (simp add: bindE_def liftE_def raiseE_def)

lemma bindE_liftE_Inr [simp]: "bindE (liftE (Inr a)) f = f a"
  by (simp add: bindE_def liftE_def)

lemma bindE_assoc: "bindE (bindE m f) g = bindE m (\<lambda>a. bindE (f a) g)"
  by (rule ext) (simp add: bindE_def split: prod.splits sum.splits)

lemma bindS_simps [simp]: "bindS (Inl e) f = Inl e" "bindS (Inr a) f = f a"
  by (simp_all add: bindS_def)

lemma bindS_eq_Inr [simp]: "bindS r f = Inr b \<longleftrightarrow> (\<exists>a. r = Inr a \<and> f a = Inr b)"
  by (cases r) auto

text \<open>A property of the value a computation returns, when it returns one: it holds
  for \<open>bindE m f\<close> when it holds for every continuation.\<close>

lemma bindE_result:
  assumes "\<And>a s'. case fst (f a s') of Inl e \<Rightarrow> True | Inr v \<Rightarrow> P v"
  shows "case fst (bindE m f s) of Inl e \<Rightarrow> True | Inr v \<Rightarrow> P v"
proof -
  obtain r s1 where ms: "m s = (r, s1)" by fastforce
  show ?thesis using assms [of _ s1] ms by (cases r) (auto simp: bindE_def)
qed

section \<open>Lemmas on lists\<close>

text \<open>What a scanner that drops a prefix leaves behind: the facts about the length of
  the rest that the parser's fuel bound is built on.\<close>

lemma dropWhile_Cons_length: "dropWhile P xs = y # ys \<Longrightarrow> length ys < length xs"
  by (metis length_Cons length_dropWhile_le less_eq_Suc_le)

lemma length_dropWhile_eq: "length (dropWhile P xs) = length xs - length (takeWhile P xs)"
  by (metis add_diff_cancel_left' length_append takeWhile_dropWhile_id)

section \<open>Lemmas on the string helpers\<close>

lemma str_contains_sublist: "str_contains s t \<longleftrightarrow> sublist t s"
proof (induction s)
  case Nil
  then show ?case by (auto simp: sublist_Nil_right)
next
  case (Cons c s)
  then show ?case by (auto simp: sublist_Cons_right)
qed

lemma digit_char_of_nat: "d < 10 \<Longrightarrow> of_char (digit_char d) = 48 + d"
  by (simp add: digit_char_def)

lemma digit_char_inj: "d < 10 \<Longrightarrow> e < 10 \<Longrightarrow> digit_char d = digit_char e \<longleftrightarrow> d = e"
  by (metis digit_char_of_nat add_left_cancel)

lemma digit_char_0: "digit_char 0 = CHR ''0''"
  by code_simp

lemma dec_nat_nonempty [simp]: "dec_nat n \<noteq> []"
  by (subst dec_nat.simps) simp

end
