(* ===== verification/PyValue.thy ===== *)
theory PyValue
  imports Prelude
begin

text \<open>
  The Python values the handler manipulates: the values \<open>json.loads\<close> produces, the
  Lambda event (a dict decoded from JSON by the runtime) and the boto3 responses
  (dicts). Strings are modelled as \<open>string\<close>, code points up to U+00FF. This theory
  holds the builtins the source applies to them: \<open>str\<close> (with \<open>repr\<close> for the
  elements of containers), truth value, \<open>len\<close>, iteration, subscription \<open>v[k]\<close>,
  the \<open>in\<close> operator and \<open>==\<close>, each with Python's exceptions as \<open>Inl\<close> values.
\<close>

section \<open>Values and exceptions\<close>

text \<open>
  A float is kept as the exact decimal it was written as: \<open>FNum neg m e\<close> is
  \<open>(-1)^neg * m * 10^e\<close>; \<open>FInf\<close> and \<open>FNaN\<close> are JSON's \<open>Infinity\<close> and
  \<open>NaN\<close>. Dicts have string keys (JSON objects, the event, boto3 responses), kept in
  insertion order as Python 3.7+ does.
\<close>

datatype float_val = FNum bool nat int | FInf bool | FNaN

datatype pyval =
    PyNone
  | PyBool bool
  | PyInt int
  | PyFloat float_val
  | PyStr string
  | PyList "pyval list"
  | PyDict "(string \<times> pyval) list"

datatype py_exc =
    KeyError pyval
  | IndexError string
  | TypeError string
  | JSONDecodeError string nat
  | ClientError string string
  | Unmodelled string

text \<open>\<open>Unmodelled\<close> is not a Python exception: it marks an input whose Python result
  lies outside the model (a string with a code point above U+00FF).\<close>

fun type_name :: "pyval \<Rightarrow> string" where
  "type_name PyNone = ''NoneType''"
| "type_name (PyBool _) = ''bool''"
| "type_name (PyInt _) = ''int''"
| "type_name (PyFloat _) = ''float''"
| "type_name (PyStr _) = ''str''"
| "type_name (PyList _) = ''list''"
| "type_name (PyDict _) = ''dict''"

definition quoted :: "string \<Rightarrow> string" where
  "quoted s = CHR 0x27 # s @ [CHR 0x27]"

section \<open>str and repr\<close>

definition dec_int :: "int \<Rightarrow> string" where
  "dec_int i = (if i < 0 then CHR ''-'' # dec_nat (nat (- i)) else dec_nat (nat i))"

definition hex_digit :: "nat \<Rightarrow> char" where
  "hex_digit d = (if d < 10 then digit_char d else char_of (87 + d))"

definition hex2 :: "char \<Rightarrow> string" where
  "hex2 c = [hex_digit (of_char c div 16), hex_digit (of_char c mod 16)]"

text \<open>\<open>str.isprintable\<close> on code points up to U+00FF: ASCII graphic characters and
  space, and U+00A1 to U+00FF except the soft hyphen U+00AD.\<close>

definition latin1_printable :: "char \<Rightarrow> bool" where
  "latin1_printable c =
     (let n = (of_char c :: nat) in (32 \<le> n \<and> n < 127) \<or> (161 \<le> n \<and> n \<noteq> 173))"

text \<open>One character of \<open>repr(s)\<close> with quote character \<open>q\<close> (CPython
  \<open>unicode_repr\<close>).\<close>

definition repr_char :: "char \<Rightarrow> char \<Rightarrow> string" where
  "repr_char q c =
     (if c = q \<or> c = CHR 0x5C then [CHR 0x5C, c]
      else if c = CHR 0x09 then [CHR 0x5C, CHR ''t'']
      else if c = CHR 0x0A then [CHR 0x5C, CHR ''n'']
      else if c = CHR 0x0D then [CHR 0x5C, CHR ''r'']
      else if latin1_printable c then [c]
      else [CHR 0x5C, CHR ''x''] @ hex2 c)"

definition repr_str :: "string \<Rightarrow> string" where
  "repr_str s =
     (let q = (if CHR 0x27 \<in> set s \<and> CHR 0x22 \<notin> set s then CHR 0x22 else CHR 0x27)
      in q # concat (map (repr_char q) s) @ [q])"

text \<open>\<open>repr(float)\<close>: the shortest digits, fixed notation when the decimal point
  position \<open>decpt\<close> satisfies \<open>-4 < decpt \<le> 16\<close>, otherwise scientific notation
  with a signed exponent of at least two digits (CPython \<open>format_float_short\<close>).\<close>

function strip_zeros :: "nat \<Rightarrow> int \<Rightarrow> nat \<times> int" where
  "strip_zeros m e = (if m \<noteq> 0 \<and> m mod 10 = 0 then strip_zeros (m div 10) (e + 1) else (m, e))"
  by pat_completeness auto
termination
  by (relation "measure (\<lambda>(m, e). m)") auto

declare strip_zeros.simps [simp del]

definition exp_str :: "int \<Rightarrow> string" where
  "exp_str x =
     (if x < 0 then CHR ''-'' else CHR ''+'') #
     (let d = dec_nat (nat \<bar>x\<bar>) in if length d < 2 then CHR ''0'' # d else d)"

definition float_repr :: "float_val \<Rightarrow> string" where
  "float_repr f = (case f of
      FNaN \<Rightarrow> ''nan''
    | FInf neg \<Rightarrow> (if neg then ''-inf'' else ''inf'')
    | FNum neg m e \<Rightarrow> (if neg then ''-'' else []) @
        (if m = 0 then ''0.0'' else
          (case strip_zeros m e of (m', e') \<Rightarrow>
            (let d = dec_nat m'; n = int (length d); decpt = n + e' in
             if -4 < decpt \<and> decpt \<le> 16 then
               (if decpt \<le> 0 then ''0.'' @ replicate (nat (- decpt)) CHR ''0'' @ d
                else if n \<le> decpt then d @ replicate (nat (decpt - n)) CHR ''0'' @ ''.0''
                else take (nat decpt) d @ ''.'' @ drop (nat decpt) d)
             else take 1 d @ (if 1 < n then ''.'' @ drop 1 d else []) @ ''e'' @ exp_str (decpt - 1)))))"

fun py_repr :: "pyval \<Rightarrow> string" where
  "py_repr PyNone = ''None''"
| "py_repr (PyBool b) = (if b then ''True'' else ''False'')"
| "py_repr (PyInt i) = dec_int i"
| "py_repr (PyFloat f) = float_repr f"
| "py_repr (PyStr s) = repr_str s"
| "py_repr (PyList xs) = CHR ''['' # join_str '', '' (map py_repr xs) @ '']''"
| "py_repr (PyDict kvs) =
     CHR ''{'' # join_str '', '' (map (\<lambda>(k, v). repr_str k @ '': '' @ py_repr v) kvs) @ ''}''"

text \<open>\<open>str(v)\<close>: a string is itself, everything else is its \<open>repr\<close>.\<close>

fun py_str :: "pyval \<Rightarrow> string" where
  "py_str (PyStr s) = s"
| "py_str v = py_repr v"

section \<open>Truth value, len, iteration\<close>

fun py_truthy :: "pyval \<Rightarrow> bool" where
  "py_truthy PyNone = False"
| "py_truthy (PyBool b) = b"
| "py_truthy (PyInt i) = (i \<noteq> 0)"
| "py_truthy (PyFloat (FNum _ m _)) = (m \<noteq> 0)"
| "py_truthy (PyFloat _) = True"
| "py_truthy (PyStr s) = (s \<noteq> [])"
| "py_truthy (PyList xs) = (xs \<noteq> [])"
| "py_truthy (PyDict kvs) = (kvs \<noteq> [])"

fun py_len :: "pyval \<Rightarrow> py_exc + nat" where
  "py_len (PyStr s) = Inr (length s)"
| "py_len (PyList xs) = Inr (length xs)"
| "py_len (PyDict kvs) = Inr (length kvs)"
| "py_len v = Inl (TypeError (''object of type '' @ quoted (type_name v) @ '' has no len()''))"

text \<open>\<open>for x in v\<close>: the characters of a string, the elements of a list, the keys
  of a dict.\<close>

fun py_iter :: "pyval \<Rightarrow> py_exc + pyval list" where
  "py_iter (PyStr s) = Inr (map (\<lambda>c. PyStr [c]) s)"
| "py_iter (PyList xs) = Inr xs"
| "py_iter (PyDict kvs) = Inr (map (\<lambda>(k, v). PyStr k) kvs)"
| "py_iter v = Inl (TypeError (quoted (type_name v) @ '' object is not iterable''))"

section \<open>Subscription, membership, equality\<close>

fun int_index :: "pyval \<Rightarrow> int option" where
  "int_index (PyInt i) = Some i"
| "int_index (PyBool b) = Some (of_bool b)"
| "int_index _ = None"

text \<open>Python sequence indexing: a negative index counts from the end.\<close>

definition py_nth :: "'a list \<Rightarrow> int \<Rightarrow> 'a option" where
  "py_nth xs i =
     (let n = int (length xs); j = (if i < 0 then n + i else i)
      in if 0 \<le> j \<and> j < n then Some (xs ! nat j) else None)"

fun py_getitem :: "pyval \<Rightarrow> pyval \<Rightarrow> py_exc + pyval" where
  "py_getitem (PyDict kvs) k = (case k of
      PyStr s \<Rightarrow> (case map_of kvs s of Some v \<Rightarrow> Inr v | None \<Rightarrow> Inl (KeyError k))
    | PyList _ \<Rightarrow> Inl (TypeError (''unhashable type: '' @ quoted ''list''))
    | PyDict _ \<Rightarrow> Inl (TypeError (''unhashable type: '' @ quoted ''dict''))
    | _ \<Rightarrow> Inl (KeyError k))"
| "py_getitem (PyList xs) k = (case int_index k of
      None \<Rightarrow> Inl (TypeError (''list indices must be integers or slices, not '' @ type_name k))
    | Some i \<Rightarrow> (case py_nth xs i of
        None \<Rightarrow> Inl (IndexError ''list index out of range'')
      | Some v \<Rightarrow> Inr v))"
| "py_getitem (PyStr s) k = (case int_index k of
      None \<Rightarrow> Inl (TypeError (''string indices must be integers, not '' @ quoted (type_name k)))
    | Some i \<Rightarrow> (case py_nth s i of
        None \<Rightarrow> Inl (IndexError ''string index out of range'')
      | Some c \<Rightarrow> Inr (PyStr [c])))"
| "py_getitem v k = Inl (TypeError (quoted (type_name v) @ '' object is not subscriptable''))"

text \<open>Numeric value of \<open>bool\<close>, \<open>int\<close> and \<open>float\<close>, for \<open>==\<close> across them.\<close>

datatype numv = NFin rat | NInf bool | NNaN

fun num_of :: "pyval \<Rightarrow> numv option" where
  "num_of (PyBool b) = Some (NFin (of_bool b))"
| "num_of (PyInt i) = Some (NFin (of_int i))"
| "num_of (PyFloat (FNum neg m e)) =
     Some (NFin ((if neg then -1 else 1) * of_nat m *
                 (if 0 \<le> e then 10 ^ nat e else 1 / 10 ^ nat (- e))))"
| "num_of (PyFloat (FInf neg)) = Some (NInf neg)"
| "num_of (PyFloat FNaN) = Some NNaN"
| "num_of _ = None"

fun numv_eq :: "numv \<Rightarrow> numv \<Rightarrow> bool" where
  "numv_eq (NFin a) (NFin b) = (a = b)"
| "numv_eq (NInf a) (NInf b) = (a = b)"
| "numv_eq _ _ = False"

text \<open>\<open>x == y\<close>: lists elementwise, dicts as key-value sets, numbers by value
  (\<open>True == 1\<close>, NaN equal to nothing).\<close>

fun py_eq :: "pyval \<Rightarrow> pyval \<Rightarrow> bool"
  and py_eq_list :: "pyval list \<Rightarrow> pyval list \<Rightarrow> bool"
  and py_eq_dict :: "(string \<times> pyval) list \<Rightarrow> (string \<times> pyval) list \<Rightarrow> bool" where
  "py_eq PyNone y = (y = PyNone)"
| "py_eq (PyStr s) y = (y = PyStr s)"
| "py_eq (PyList xs) y = (case y of PyList ys \<Rightarrow> py_eq_list xs ys | _ \<Rightarrow> False)"
| "py_eq (PyDict a) y =
     (case y of PyDict b \<Rightarrow> length a = length b \<and> py_eq_dict a b | _ \<Rightarrow> False)"
| "py_eq (PyBool b) y = (case (num_of (PyBool b), num_of y) of
     (Some p, Some q) \<Rightarrow> numv_eq p q | _ \<Rightarrow> False)"
| "py_eq (PyInt i) y = (case (num_of (PyInt i), num_of y) of
     (Some p, Some q) \<Rightarrow> numv_eq p q | _ \<Rightarrow> False)"
| "py_eq (PyFloat f) y = (case (num_of (PyFloat f), num_of y) of
     (Some p, Some q) \<Rightarrow> numv_eq p q | _ \<Rightarrow> False)"
| "py_eq_list [] ys = (ys = [])"
| "py_eq_list (x # xs) ys = (case ys of [] \<Rightarrow> False | y # ys' \<Rightarrow> py_eq x y \<and> py_eq_list xs ys')"
| "py_eq_dict [] b = True"
| "py_eq_dict ((k, v) # a) b =
     ((case map_of b k of None \<Rightarrow> False | Some w \<Rightarrow> py_eq v w) \<and> py_eq_dict a b)"

text \<open>\<open>item in container\<close>: substring for strings, \<open>==\<close> membership for lists,
  key membership for dicts.\<close>

fun py_contains :: "pyval \<Rightarrow> pyval \<Rightarrow> py_exc + bool" where
  "py_contains (PyStr s) item = (case item of
      PyStr t \<Rightarrow> Inr (str_contains s t)
    | _ \<Rightarrow> Inl (TypeError (''<in <string>> requires string as left operand, not '' @ type_name item)))"
| "py_contains (PyList xs) item = Inr (list_ex (\<lambda>x. py_eq x item) xs)"
| "py_contains (PyDict kvs) item = (case item of
      PyStr k \<Rightarrow> Inr (map_of kvs k \<noteq> None)
    | PyList _ \<Rightarrow> Inl (TypeError (''unhashable type: '' @ quoted ''list''))
    | PyDict _ \<Rightarrow> Inl (TypeError (''unhashable type: '' @ quoted ''dict''))
    | _ \<Rightarrow> Inr False)"
| "py_contains v item = Inl (TypeError (''argument of type '' @ quoted (type_name v) @ '' is not iterable''))"

section \<open>Lemmas\<close>

lemma py_str_PyStr [simp]: "py_str (PyStr s) = s"
  by simp

lemma py_iter_py_len: "py_iter v = Inr xs \<Longrightarrow> py_len v = Inr (length xs)"
  by (cases v) auto

lemma py_iter_Inl_py_len: "py_iter v = Inl e \<Longrightarrow> \<exists>e'. py_len v = Inl e'"
  by (cases v) auto

lemma py_eq_None_iff [simp]: "py_eq x PyNone \<longleftrightarrow> x = PyNone"
  by (cases x) (auto split: option.splits)

end
