(* ===== verification/Json.thy ===== *)
theory Json
  imports PyValue
begin

text \<open>
  \<open>json.loads\<close> as the handler uses it (CPython's C scanner with the default
  hooks, strict mode): a recursive-descent parser over the remaining input. Values,
  arrays and objects are mutually recursive; the recursion is bounded by fuel, and
  \<open>json_loads\<close> gives the parser \<open>2 * length s + 2\<close> units, which the lemmas below
  show is always enough. Error positions are offsets into the whole document, computed
  as \<open>n - length rest\<close> for a document of length \<open>n\<close>. A four-hex-digit \<open>u\<close> escape above
  U+00FF denotes a code point outside the model's strings: the parser returns
  \<open>Unmodelled\<close> for it. CPython 3.11 and later refuse to convert an integer literal
  of more than 4300 digits (\<open>ValueError\<close>); the model has no such limit. The lemmas show that every scanner returns a suffix of its
  input, that the fuel suffices, and that a JSON array of plain strings is read back
  as the list of those strings.
\<close>

section \<open>Lexical helpers\<close>

definition is_ws :: "char \<Rightarrow> bool" where
  "is_ws c \<longleftrightarrow> c = CHR '' '' \<or> c = CHR 0x09 \<or> c = CHR 0x0A \<or> c = CHR 0x0D"

definition skip_ws :: "string \<Rightarrow> string" where
  "skip_ws s = dropWhile is_ws s"

definition is_digit :: "char \<Rightarrow> bool" where
  "is_digit c \<longleftrightarrow> CHR ''0'' \<le> c \<and> c \<le> CHR ''9''"

definition digit_val :: "char \<Rightarrow> nat" where
  "digit_val c = of_char c - 48"

text \<open>The value of a digit string, most significant digit first.\<close>

definition digits_val :: "string \<Rightarrow> nat" where
  "digits_val ds = foldl (\<lambda>acc c. 10 * acc + digit_val c) 0 ds"

definition hex_val :: "char \<Rightarrow> nat option" where
  "hex_val c =
     (let n = (of_char c :: nat) in
      if 48 \<le> n \<and> n \<le> 57 then Some (n - 48)
      else if 65 \<le> n \<and> n \<le> 70 then Some (n - 55)
      else if 97 \<le> n \<and> n \<le> 102 then Some (n - 87)
      else None)"

definition hex4_val :: "string \<Rightarrow> nat option" where
  "hex4_val s =
     (if length s = 4 \<and> (\<forall>c \<in> set s. hex_val c \<noteq> None)
      then Some (foldl (\<lambda>acc c. 16 * acc + the (hex_val c)) 0 s) else None)"

text \<open>The one-character escapes: backslash followed by a quote, backslash, slash,
  \<open>b\<close>, \<open>f\<close>, \<open>n\<close>, \<open>r\<close> or \<open>t\<close>.\<close>

definition simple_escape :: "char \<Rightarrow> char option" where
  "simple_escape e =
     (if e = CHR 0x22 then Some (CHR 0x22)
      else if e = CHR 0x5C then Some (CHR 0x5C)
      else if e = CHR ''/'' then Some (CHR ''/'')
      else if e = CHR ''b'' then Some (CHR 0x08)
      else if e = CHR ''f'' then Some (CHR 0x0C)
      else if e = CHR ''n'' then Some (CHR 0x0A)
      else if e = CHR ''r'' then Some (CHR 0x0D)
      else if e = CHR ''t'' then Some (CHR 0x09)
      else None)"

section \<open>Strings\<close>

text \<open>\<open>scan_str n st acc s\<close> scans the body of a string literal that started at
  offset \<open>st\<close>; \<open>acc\<close> holds the characters read so far, reversed. It returns the
  decoded string and the input after the closing quote.\<close>

function scan_str :: "nat \<Rightarrow> nat \<Rightarrow> string \<Rightarrow> string \<Rightarrow> py_exc + (string \<times> string)" where
  "scan_str n st acc [] = Inl (JSONDecodeError ''Unterminated string starting at'' st)"
| "scan_str n st acc (c # r) =
     (if c = CHR 0x22 then Inr (rev acc, r)
      else if c = CHR 0x5C then
        (case r of
          [] \<Rightarrow> Inl (JSONDecodeError ''Unterminated string starting at'' st)
        | e # r' \<Rightarrow>
            (if e = CHR ''u'' then
               (case hex4_val (take 4 r') of
                 None \<Rightarrow> Inl (JSONDecodeError (''Invalid '' @ [CHR 0x5C] @ ''uXXXX escape'') (n - length (c # r)))
               | Some u \<Rightarrow>
                   (if u < 256 then scan_str n st (char_of u # acc) (drop 4 r')
                    else Inl (Unmodelled ''code point above U+00FF'')))
             else
               (case simple_escape e of
                 None \<Rightarrow> Inl (JSONDecodeError (''Invalid '' @ [CHR 0x5C] @ ''escape'') (n - length (c # r)))
               | Some ch \<Rightarrow> scan_str n st (ch # acc) r')))
      else if of_char c < (32::nat) then
        Inl (JSONDecodeError ''Invalid control character at'' (n - length (c # r)))
      else scan_str n st (c # acc) r)"
  by pat_completeness auto
termination
  by (relation "measure (\<lambda>(n, st, acc, s). length s)") auto

section \<open>Numbers\<close>

text \<open>The number pattern \<open>(-?(?:0|[1-9]\d*))(\.\d+)?([eE][-+]?\d+)?\<close>: an integer
  when neither fraction nor exponent is present, a float otherwise. A \<open>.\<close> not
  followed by a digit, or an \<open>e\<close> not followed by digits, is not part of the match.\<close>

definition scan_exp :: "string \<Rightarrow> (int \<times> string) option" where
  "scan_exp s = (case s of
      e # r \<Rightarrow>
        (if e = CHR ''e'' \<or> e = CHR ''E'' then
           (let (neg, r1) = (case r of
                  c # r' \<Rightarrow> (if c = CHR ''-'' then (True, r')
                             else if c = CHR ''+'' then (False, r') else (False, r))
                | [] \<Rightarrow> (False, r));
                ds = takeWhile is_digit r1
            in if ds = [] then None
               else Some ((if neg then - int (digits_val ds) else int (digits_val ds)),
                          dropWhile is_digit r1))
         else None)
    | [] \<Rightarrow> None)"

definition scan_number :: "string \<Rightarrow> (pyval \<times> string) option" where
  "scan_number s =
     (let (neg, r0) = (case s of c # r \<Rightarrow> if c = CHR ''-'' then (True, r) else (False, s)
                                | [] \<Rightarrow> (False, s))
      in case r0 of
        [] \<Rightarrow> None
      | c # r1 \<Rightarrow>
          (if \<not> is_digit c then None
           else
             (let ip = (if c = CHR ''0'' then [c] else c # takeWhile is_digit r1);
                  r2 = (if c = CHR ''0'' then r1 else dropWhile is_digit r1);
                  (fp, r3) = (case r2 of
                      d # r' \<Rightarrow> (if d = CHR ''.'' \<and> r' \<noteq> [] \<and> is_digit (hd r')
                                 then (takeWhile is_digit r', dropWhile is_digit r') else ([], r2))
                    | [] \<Rightarrow> ([], r2))
              in case scan_exp r3 of
                   None \<Rightarrow>
                     (if fp = [] then
                        Some (PyInt (if neg then - int (digits_val ip) else int (digits_val ip)), r3)
                      else Some (PyFloat (FNum neg (digits_val (ip @ fp)) (- int (length fp))), r3))
                 | Some (x, r4) \<Rightarrow>
                     Some (PyFloat (FNum neg (digits_val (ip @ fp)) (x - int (length fp))), r4))))"

section \<open>Values, arrays and objects\<close>

text \<open>\<open>dict[k] = v\<close> on the pairs read so far: a repeated key keeps its first
  position and takes the last value.\<close>

fun dict_set :: "(string \<times> pyval) list \<Rightarrow> string \<Rightarrow> pyval \<Rightarrow> (string \<times> pyval) list" where
  "dict_set [] k v = [(k, v)]"
| "dict_set ((k', v') # kvs) k v =
     (if k' = k then (k, v) # kvs else (k', v') # dict_set kvs k v)"

text \<open>
  \<open>parse_value f n s\<close> reads one value at the start of \<open>s\<close> (\<open>scan_once\<close>);
  \<open>parse_elems\<close> reads the elements of an array after its first whitespace,
  \<open>parse_members\<close> the members of an object from a key's opening quote. \<open>None\<close>
  means the fuel \<open>f\<close> ran out.
\<close>

fun parse_value :: "nat \<Rightarrow> nat \<Rightarrow> string \<Rightarrow> (py_exc + (pyval \<times> string)) option"
  and parse_elems :: "nat \<Rightarrow> nat \<Rightarrow> pyval list \<Rightarrow> string \<Rightarrow> (py_exc + (pyval \<times> string)) option"
  and parse_members :: "nat \<Rightarrow> nat \<Rightarrow> (string \<times> pyval) list \<Rightarrow> string \<Rightarrow>
                          (py_exc + (pyval \<times> string)) option" where
  "parse_value 0 n s = None"
| "parse_value (Suc f) n s = (case s of
      [] \<Rightarrow> Some (Inl (JSONDecodeError ''Expecting value'' n))
    | c # r \<Rightarrow>
        (if c = CHR 0x22 then
           Some (case scan_str n (n - length s) [] r of
                   Inl e \<Rightarrow> Inl e | Inr (str, r') \<Rightarrow> Inr (PyStr str, r'))
         else if c = CHR ''{'' then
           (case skip_ws r of
              [] \<Rightarrow> Some (Inl (JSONDecodeError ''Expecting property name enclosed in double quotes'' n))
            | d # r' \<Rightarrow>
                (if d = CHR ''}'' then Some (Inr (PyDict [], r'))
                 else if d = CHR 0x22 then parse_members f n [] (d # r')
                 else Some (Inl (JSONDecodeError ''Expecting property name enclosed in double quotes''
                                   (n - length (d # r'))))))
         else if c = CHR ''['' then
           (case skip_ws r of
              d # r' \<Rightarrow> (if d = CHR '']'' then Some (Inr (PyList [], r'))
                         else parse_elems f n [] (d # r'))
            | [] \<Rightarrow> parse_elems f n [] [])
         else if take 4 s = ''null'' then Some (Inr (PyNone, drop 4 s))
         else if take 4 s = ''true'' then Some (Inr (PyBool True, drop 4 s))
         else if take 5 s = ''false'' then Some (Inr (PyBool False, drop 5 s))
         else (case scan_number s of
           Some (v, r') \<Rightarrow> Some (Inr (v, r'))
         | None \<Rightarrow>
             (if take 3 s = ''NaN'' then Some (Inr (PyFloat FNaN, drop 3 s))
              else if take 8 s = ''Infinity'' then Some (Inr (PyFloat (FInf False), drop 8 s))
              else if take 9 s = ''-Infinity'' then Some (Inr (PyFloat (FInf True), drop 9 s))
              else Some (Inl (JSONDecodeError ''Expecting value'' (n - length s)))))))"
| "parse_elems 0 n acc s = None"
| "parse_elems (Suc f) n acc s = (case parse_value f n s of
      None \<Rightarrow> None
    | Some (Inl e) \<Rightarrow> Some (Inl e)
    | Some (Inr (v, r)) \<Rightarrow>
        (case skip_ws r of
           d # r' \<Rightarrow>
             (if d = CHR '']'' then Some (Inr (PyList (rev (v # acc)), r'))
              else if d = CHR '','' then parse_elems f n (v # acc) (skip_ws r')
              else Some (Inl (JSONDecodeError ''Expecting ',' delimiter'' (n - length (d # r')))))
         | [] \<Rightarrow> Some (Inl (JSONDecodeError ''Expecting ',' delimiter'' n))))"
| "parse_members 0 n acc s = None"
| "parse_members (Suc f) n acc s = (case s of
      [] \<Rightarrow> Some (Inl (JSONDecodeError ''Expecting property name enclosed in double quotes'' n))
    | q # r \<Rightarrow>
        (case scan_str n (n - length s) [] r of
           Inl e \<Rightarrow> Some (Inl e)
         | Inr (k, r1) \<Rightarrow>
             (case skip_ws r1 of
                d # r2 \<Rightarrow>
                  (if d \<noteq> CHR '':'' then
                     Some (Inl (JSONDecodeError ''Expecting ':' delimiter'' (n - length (d # r2))))
                   else
                     (case parse_value f n (skip_ws r2) of
                        None \<Rightarrow> None
                      | Some (Inl e) \<Rightarrow> Some (Inl e)
                      | Some (Inr (v, r3)) \<Rightarrow>
                          (let acc' = dict_set acc k v in
                           case skip_ws r3 of
                             d' # r4 \<Rightarrow>
                               (if d' = CHR ''}'' then Some (Inr (PyDict acc', r4))
                                else if d' = CHR '','' then
                                  (case skip_ws r4 of
                                     e # r5 \<Rightarrow>
                                       (if e = CHR 0x22 then parse_members f n acc' (e # r5)
                                        else Some (Inl (JSONDecodeError
                                          ''Expecting property name enclosed in double quotes''
                                          (n - length (e # r5)))))
                                   | [] \<Rightarrow> Some (Inl (JSONDecodeError
                                          ''Expecting property name enclosed in double quotes'' n)))
                                else Some (Inl (JSONDecodeError ''Expecting ',' delimiter''
                                                  (n - length (d' # r4)))))
                           | [] \<Rightarrow> Some (Inl (JSONDecodeError ''Expecting ',' delimiter'' n)))))
              | [] \<Rightarrow> Some (Inl (JSONDecodeError ''Expecting ':' delimiter'' n)))))"

text \<open>\<open>json.loads(s)\<close>: leading and trailing whitespace allowed, anything else after
  the value is \<open>Extra data\<close>.\<close>

definition json_loads :: "string \<Rightarrow> py_exc + pyval" where
  "json_loads s =
     (let n = length s in
      case parse_value (2 * n + 2) n (skip_ws s) of
        None \<Rightarrow> Inl (Unmodelled ''parser fuel'')
      | Some (Inl e) \<Rightarrow> Inl e
      | Some (Inr (v, r)) \<Rightarrow>
          (if skip_ws r = [] then Inr v
           else Inl (JSONDecodeError ''Extra data'' (n - length (skip_ws r)))))"

text \<open>A character that a JSON string literal may hold as it is: not a quote, not a
  backslash, not a control character.\<close>

definition plain_char :: "char \<Rightarrow> bool" where
  "plain_char c \<longleftrightarrow> c \<noteq> CHR 0x22 \<and> c \<noteq> CHR 0x5C \<and> 32 \<le> (of_char c :: nat)"

section \<open>The rest of the input\<close>

text \<open>Every scanner returns a suffix of its input: no longer for a value, strictly
  shorter for a string literal, whose closing quote it consumes (a consuming parser).\<close>

lemma skip_ws_length: "length (skip_ws s) \<le> length s"
  by (simp add: skip_ws_def length_dropWhile_le)

lemma scan_str_rest: "scan_str n st acc s = Inr (x, rest) \<Longrightarrow> length rest < length s"
proof (induction n st acc s rule: scan_str.induct)
  case (1 n st acc)
  then show ?case by simp
next
  case (2 n st acc c r)
  show ?case
  proof (cases "c = CHR 0x22 \<or> c \<noteq> CHR 0x5C")
    case True
    then show ?thesis using "2.prems" "2.IH"(3) by (auto split: if_splits)
  next
    case False
    then have bs: "c \<noteq> CHR 0x22" "c = CHR 0x5C" by auto
    show ?thesis
    proof (cases r)
      case Nil
      with "2.prems" bs show ?thesis by simp
    next
      case (Cons e r')
      show ?thesis
      proof (cases "e = CHR ''u''")
        case True
        with "2.prems" bs Cons "2.IH"(1) [OF bs Cons True] show ?thesis
          by (auto split: option.splits if_splits)
      next
        case False
        with "2.prems" bs Cons "2.IH"(2) [OF bs Cons False] show ?thesis
          by (auto split: option.splits)
      qed
    qed
  qed
qed

lemma scan_exp_rest: "scan_exp s = Some (x, rest) \<Longrightarrow> length rest < length s"
proof (cases s)
  case (Cons e r)
  assume a: "scan_exp s = Some (x, rest)"
  obtain r1 where r1: "length r1 \<le> length r" and rest: "rest = dropWhile is_digit r1"
  proof (cases r)
    case (Cons c r')
    with a \<open>s = e # r\<close> show ?thesis
      by (intro that [of "if c = CHR ''-'' \<or> c = CHR ''+'' then r' else r"])
         (auto simp: scan_exp_def Let_def split: if_splits)
  qed (use a \<open>s = e # r\<close> in \<open>auto simp: scan_exp_def split: if_splits\<close>)
  have "length rest \<le> length r1" unfolding rest by (rule length_dropWhile_le)
  with r1 \<open>s = e # r\<close> show ?thesis by simp
qed (simp add: scan_exp_def)

lemma scan_number_rest: "scan_number s = Some (v, rest) \<Longrightarrow> length rest < length s"
  unfolding scan_number_def Let_def
  apply (simp split: list.splits if_splits prod.splits option.splits)
  apply (auto dest!: scan_exp_rest dest: dropWhile_Cons_length simp: length_dropWhile_eq)
  done

lemma skip_ws_Cons_length: "skip_ws s = d # r \<Longrightarrow> length r < length s"
  unfolding skip_ws_def by (rule dropWhile_Cons_length)

lemma parse_rest:
  "parse_value f n s = Some (Inr (v, r)) \<Longrightarrow> length r \<le> length s"
  "parse_elems f n acc s = Some (Inr (v, r)) \<Longrightarrow> length r \<le> length s"
  "parse_members f n kvs s = Some (Inr (v, r)) \<Longrightarrow> length r \<le> length s"
proof (induction f n s and f n acc s and f n kvs s arbitrary: v r and v r and v r
       rule: parse_value_parse_elems_parse_members.induct)
  case (2 f n s)
  show ?case
  proof (cases s)
    case Nil
    with "2.prems" show ?thesis by simp
  next
    case s: (Cons c t)
    consider (str) "c = CHR 0x22" | (obj) "c \<noteq> CHR 0x22" "c = CHR ''{''"
      | (arr) "c \<noteq> CHR 0x22" "c \<noteq> CHR ''{''" "c = CHR ''[''"
      | (other) "c \<noteq> CHR 0x22" "c \<noteq> CHR ''{''" "c \<noteq> CHR ''[''" by blast
    then show ?thesis
    proof cases
      case str
      with "2.prems" s show ?thesis by (auto split: sum.splits dest!: scan_str_rest)
    next
      case obj
      show ?thesis
      proof (cases "skip_ws t")
        case Nil
        with "2.prems" s obj show ?thesis by simp
      next
        case sk: (Cons d t')
        have "length t' < length t" using sk by (rule skip_ws_Cons_length)
        moreover have "d \<noteq> CHR ''}'' \<Longrightarrow> d = CHR 0x22 \<Longrightarrow> length r \<le> length (d # t')"
          using "2.IH"(1) [OF s obj sk] "2.prems" s obj sk by simp
        ultimately show ?thesis using "2.prems" s obj sk by (auto split: if_splits)
      qed
    next
      case arr
      show ?thesis
      proof (cases "skip_ws t")
        case Nil
        with "2.IH"(2) [OF s arr Nil] "2.prems" s arr show ?thesis by simp
      next
        case sk: (Cons d t')
        have "length t' < length t" using sk by (rule skip_ws_Cons_length)
        moreover have "d \<noteq> CHR '']'' \<Longrightarrow> length r \<le> length (d # t')"
          using "2.IH"(3) [OF s arr sk] "2.prems" s arr sk by simp
        ultimately show ?thesis using "2.prems" s arr sk by (auto split: if_splits)
      qed
    next
      case other
      with "2.prems" s show ?thesis
        by (auto split: if_splits option.splits dest!: scan_number_rest)
    qed
  qed
next
  case (4 f n acc s)
  from "4.prems" obtain v0 r0 where pv: "parse_value f n s = Some (Inr (v0, r0))"
    by (auto split: option.splits sum.splits)
  have l0: "length r0 \<le> length s" using pv by (rule "4.IH"(1))
  show ?case
  proof (cases "skip_ws r0")
    case Nil
    with "4.prems" pv show ?thesis by simp
  next
    case sk: (Cons d t')
    have "length t' < length r0" using sk by (rule skip_ws_Cons_length)
    moreover have "length (skip_ws t') < length r0"
      using skip_ws_length [of t'] skip_ws_Cons_length [OF sk] by linarith
    moreover have "d \<noteq> CHR '']'' \<Longrightarrow> d = CHR '','' \<Longrightarrow> length r \<le> length (skip_ws t')"
      using "4.IH"(2) [OF pv refl refl sk] "4.prems" pv sk by simp
    ultimately show ?thesis using "4.prems" pv sk l0 by (auto split: if_splits)
  qed
next
  case (6 f n kvs s)
  from "6.prems" obtain q t where s: "s = q # t" by (cases s) auto
  from "6.prems" s obtain k r1 where sc: "scan_str n (n - length s) [] t = Inr (k, r1)"
    by (auto split: sum.splits)
  from "6.prems" s sc obtain r2 where sk1: "skip_ws r1 = CHR '':'' # r2"
    by (auto split: list.splits if_splits)
  from "6.prems" s sc sk1 obtain v0 r3 where pv: "parse_value f n (skip_ws r2) = Some (Inr (v0, r3))"
    by (auto split: option.splits sum.splits)
  have "length r1 < length t" using sc by (rule scan_str_rest)
  moreover have "length r2 < length r1" using sk1 by (rule skip_ws_Cons_length)
  moreover have "length r3 \<le> length (skip_ws r2)"
    using "6.IH"(1) [OF s sc refl sk1 _ pv] by simp
  moreover have "length (skip_ws r2) \<le> length r2" by (rule skip_ws_length)
  ultimately have l3: "length r3 < length s" using s by simp
  show ?case
  proof (cases "skip_ws r3")
    case Nil
    with "6.prems" s sc sk1 pv show ?thesis by simp
  next
    case sk3: (Cons d' r4)
    have l4: "length r4 < length r3" using sk3 by (rule skip_ws_Cons_length)
    show ?thesis
    proof (cases "skip_ws r4")
      case Nil
      with "6.prems" s sc sk1 pv sk3 l3 l4 show ?thesis by (auto simp: Let_def split: if_splits)
    next
      case sk4: (Cons e r5)
      have "length r5 < length r4" using sk4 by (rule skip_ws_Cons_length)
      moreover have "d' \<noteq> CHR ''}'' \<Longrightarrow> d' = CHR '','' \<Longrightarrow> e = CHR 0x22 \<Longrightarrow>
                     length r \<le> length (e # r5)"
        using "6.IH"(2) [OF s sc refl sk1 _ pv refl refl refl sk3 _ _ sk4] "6.prems" s sc sk1 pv sk3 sk4
        by simp
      ultimately show ?thesis using "6.prems" s sc sk1 pv sk3 sk4 l3 l4 by (auto simp: Let_def split: if_splits)
    qed
  qed
qed simp_all

section \<open>Fuel\<close>

text \<open>\<open>parse_value\<close> needs one unit for the value and two for each character it
  consumes: an array or object spends one on itself and one on each element or member,
  and each element after the first follows a comma. The bound is proved for the three
  functions together, by induction along their equations, from the rest lemmas.\<close>

lemma parse_fuel:
  "2 * length s + 1 \<le> f \<Longrightarrow> parse_value f n s \<noteq> None"
  "2 * length s + 2 \<le> f \<Longrightarrow> parse_elems f n acc s \<noteq> None"
  "2 * length s + 2 \<le> f \<Longrightarrow> parse_members f n kvs s \<noteq> None"
proof (induction f n s and f n acc s and f n kvs s
       rule: parse_value_parse_elems_parse_members.induct)
  case (2 f n s)
  show ?case
  proof (cases s)
    case Nil
    then show ?thesis by simp
  next
    case s: (Cons c t)
    consider (str) "c = CHR 0x22" | (obj) "c \<noteq> CHR 0x22" "c = CHR ''{''"
      | (arr) "c \<noteq> CHR 0x22" "c \<noteq> CHR ''{''" "c = CHR ''[''"
      | (other) "c \<noteq> CHR 0x22" "c \<noteq> CHR ''{''" "c \<noteq> CHR ''[''" by blast
    then show ?thesis
    proof cases
      case str
      with s show ?thesis by simp
    next
      case obj
      show ?thesis
      proof (cases "skip_ws t")
        case Nil
        with s obj show ?thesis by simp
      next
        case sk: (Cons d t')
        have "length (d # t') \<le> length t" using skip_ws_length [of t] sk by simp
        then have "d \<noteq> CHR ''}'' \<Longrightarrow> d = CHR 0x22 \<Longrightarrow> parse_members f n [] (d # t') \<noteq> None"
          using "2.IH"(1) [OF s obj sk] "2.prems" s by simp
        with s obj sk show ?thesis by auto
      qed
    next
      case arr
      show ?thesis
      proof (cases "skip_ws t")
        case Nil
        with "2.IH"(2) [OF s arr Nil] "2.prems" s arr show ?thesis by simp
      next
        case sk: (Cons d t')
        have "length (d # t') \<le> length t" using skip_ws_length [of t] sk by simp
        then have "d \<noteq> CHR '']'' \<Longrightarrow> parse_elems f n [] (d # t') \<noteq> None"
          using "2.IH"(3) [OF s arr sk] "2.prems" s by simp
        with s arr sk show ?thesis by auto
      qed
    next
      case other
      with s show ?thesis by (simp split: option.splits)
    qed
  qed
next
  case (4 f n acc s)
  have "parse_value f n s \<noteq> None" using "4.prems" by (intro "4.IH"(1)) simp
  then obtain x where pv: "parse_value f n s = Some x" by blast
  show ?case
  proof (cases x)
    case (Inl e)
    with pv show ?thesis by simp
  next
    case (Inr b)
    obtain v0 r0 where b: "b = (v0, r0)" by fastforce
    have l0: "length r0 \<le> length s" using pv Inr b by (simp add: parse_rest(1))
    show ?thesis
    proof (cases "skip_ws r0")
      case Nil
      with pv Inr b show ?thesis by simp
    next
      case sk: (Cons d t')
      have "length (skip_ws t') < length s"
        using skip_ws_length [of t'] skip_ws_Cons_length [OF sk] l0 by linarith
      then have "d \<noteq> CHR '']'' \<Longrightarrow> d = CHR '','' \<Longrightarrow> parse_elems f n (v0 # acc) (skip_ws t') \<noteq> None"
        using "4.IH"(2) [OF pv Inr b [symmetric] sk] "4.prems" by simp
      with pv Inr b sk show ?thesis by auto
    qed
  qed
next
  case (6 f n kvs s)
  show ?case
  proof (cases s)
    case Nil
    then show ?thesis by simp
  next
    case s: (Cons q t)
    show ?thesis
    proof (cases "scan_str n (n - length s) [] t")
      case (Inl e)
      with s show ?thesis by simp
    next
      case (Inr b)
      obtain k r1 where b: "b = (k, r1)" by fastforce
      note sc = Inr [unfolded b]
      show ?thesis
      proof (cases "skip_ws r1")
        case Nil
        with s sc show ?thesis by simp
      next
        case sk1: (Cons d r2)
        show ?thesis
        proof (cases "d = CHR '':''")
          case False
          with s sc sk1 show ?thesis by simp
        next
          case True
          have l1: "length r1 < length t" using sc by (rule scan_str_rest)
          have l2: "length r2 < length r1" using sk1 by (rule skip_ws_Cons_length)
          have "length (skip_ws r2) \<le> length r2" by (rule skip_ws_length)
          with l1 l2 "6.prems" s have "2 * length (skip_ws r2) + 1 \<le> f" by simp
          with "6.IH"(1) [OF s sc refl sk1[unfolded True]] have "parse_value f n (skip_ws r2) \<noteq> None"
            by simp
          then obtain x where pv: "parse_value f n (skip_ws r2) = Some x" by blast
          show ?thesis
          proof (cases x)
            case (Inl e)
            with s sc sk1 True pv show ?thesis by simp
          next
            case (Inr b')
            obtain v0 r3 where b': "b' = (v0, r3)" by fastforce
            have "length r3 \<le> length (skip_ws r2)" using pv Inr b' by (simp add: parse_rest(1))
            with l1 l2 \<open>length (skip_ws r2) \<le> length r2\<close> have l3: "length r3 < length t" by simp
            show ?thesis
            proof (cases "skip_ws r3")
              case Nil
              with s sc sk1 True pv Inr b' show ?thesis by simp
            next
              case sk3: (Cons d' r4)
              have l4: "length r4 < length r3" using sk3 by (rule skip_ws_Cons_length)
              show ?thesis
              proof (cases "skip_ws r4")
                case Nil
                with s sc sk1 True pv Inr b' sk3 show ?thesis by (simp add: Let_def)
              next
                case sk4: (Cons e r5)
                have "length (e # r5) \<le> length r4" using skip_ws_length [of r4] sk4 by simp
                with l3 l4 "6.prems" s have "2 * length (e # r5) + 2 \<le> f" by simp
                then have "d' \<noteq> CHR ''}'' \<Longrightarrow> d' = CHR '','' \<Longrightarrow> e = CHR 0x22 \<Longrightarrow>
                             parse_members f n (dict_set kvs k v0) (e # r5) \<noteq> None"
                  using "6.IH"(2) [OF s sc refl sk1 _ pv Inr b' [symmetric] refl sk3 _ _ sk4] True
                  by simp
                with s sc sk1 True pv Inr b' sk3 sk4 show ?thesis by (auto simp: Let_def)
              qed
            qed
          qed
        qed
      qed
    qed
  qed
qed simp_all

text \<open>Termination of the parser: the fuel \<open>json_loads\<close> gives \<open>parse_value\<close>
  (twice the length of the document, plus two) is always enough, so the model never
  answers \<open>Unmodelled ''parser fuel''\<close> where CPython would return.\<close>

lemma json_loads_total: "\<exists>r. parse_value (2 * length s + 2) (length s) (skip_ws s) = Some r"
proof -
  have "2 * length (skip_ws s) + 1 \<le> 2 * length s + 2" using skip_ws_length [of s] by simp
  then show ?thesis using parse_fuel(1) by blast
qed

section \<open>Arrays of strings read back\<close>

text \<open>An array of string literals whose characters need no escape, as
  \<open>json.dumps\<close> writes a list of such strings (\<open>", "\<close> between the elements), is read
  back as the list of those strings.\<close>

lemma scan_str_plain:
  "list_all plain_char s \<Longrightarrow> scan_str n st acc (s @ CHR 0x22 # rest) = Inr (rev acc @ s, rest)"
  by (induction s arbitrary: acc) (auto simp: plain_char_def)

lemma parse_value_plain_str:
  "list_all plain_char s \<Longrightarrow>
   parse_value (Suc f) n (CHR 0x22 # s @ CHR 0x22 # rest) = Some (Inr (PyStr s, rest))"
  by (simp add: scan_str_plain)

lemma join_quoted_Cons:
  "\<exists>r. join_str '', '' (map (\<lambda>s. CHR 0x22 # s @ [CHR 0x22]) (s # ss)) = CHR 0x22 # r"
  by (cases ss) auto

lemma join_quoted_length:
  "length ss \<le> length (join_str '', '' (map (\<lambda>s. CHR 0x22 # s @ [CHR 0x22]) ss))"
  by (induction ss rule: induct_list012) auto

lemma parse_elems_strs:
  assumes "list_all (list_all plain_char) (s # ss)" and "2 * length (s # ss) \<le> f"
  shows "parse_elems f n acc (join_str '', '' (map (\<lambda>s. CHR 0x22 # s @ [CHR 0x22]) (s # ss)) @
                               CHR '']'' # rest) =
         Some (Inr (PyList (rev acc @ map PyStr (s # ss)), rest))"
  using assms
proof (induction ss arbitrary: s acc f)
  case Nil
  then obtain f' where f: "f = Suc (Suc f')" by (cases f; cases "f - 1") auto
  from Nil.prems(1) have "parse_value (Suc f') n (CHR 0x22 # s @ CHR 0x22 # CHR '']'' # rest) =
      Some (Inr (PyStr s, CHR '']'' # rest))"
    by (intro parse_value_plain_str) simp
  with f show ?case by (simp add: skip_ws_def is_ws_def)
next
  case (Cons s' ss)
  then obtain f' where f: "f = Suc (Suc f')" by (cases f; cases "f - 1") auto
  obtain r where r: "join_str '', '' (map (\<lambda>s. CHR 0x22 # s @ [CHR 0x22]) (s' # ss)) = CHR 0x22 # r"
    using join_quoted_Cons by blast
  let ?tail = "join_str '', '' (map (\<lambda>s. CHR 0x22 # s @ [CHR 0x22]) (s' # ss)) @ CHR '']'' # rest"
  from Cons.prems(1) have "parse_value (Suc f') n (CHR 0x22 # s @ CHR 0x22 # CHR '','' # CHR '' '' # ?tail) =
      Some (Inr (PyStr s, CHR '','' # CHR '' '' # ?tail))"
    by (intro parse_value_plain_str) simp
  moreover have "skip_ws (CHR '' '' # ?tail) = ?tail" using r by (simp add: skip_ws_def is_ws_def)
  moreover have "parse_elems (Suc f') n (PyStr s # acc) ?tail =
      Some (Inr (PyList (rev (PyStr s # acc) @ map PyStr (s' # ss)), rest))"
    using Cons.prems f by (intro Cons.IH) simp_all
  ultimately show ?case using f by (simp add: skip_ws_def is_ws_def)
qed

lemma json_loads_str_list:
  assumes "list_all (list_all plain_char) ss"
  shows "json_loads (CHR ''['' # join_str '', '' (map (\<lambda>s. CHR 0x22 # s @ [CHR 0x22]) ss) @ '']'') =
           Inr (PyList (map PyStr ss))"
proof (cases ss)
  case Nil
  then show ?thesis by (simp add: json_loads_def skip_ws_def is_ws_def)
next
  case (Cons s ss')
  let ?body = "join_str '', '' (map (\<lambda>s. CHR 0x22 # s @ [CHR 0x22]) ss)"
  obtain r where r: "?body = CHR 0x22 # r" using join_quoted_Cons Cons by blast
  have len: "length ss \<le> Suc (length r)" using join_quoted_length [of ss] r by simp
  have e: "2 * length ss \<le> f \<Longrightarrow>
           parse_elems f n [] (CHR 0x22 # r @ CHR '']'' # []) = Some (Inr (PyList (map PyStr ss), []))" for f n
    using parse_elems_strs [of s ss' f n "[]" "[]"] assms Cons r by simp
  have "json_loads (CHR ''['' # CHR 0x22 # r @ '']'') = Inr (PyList (map PyStr ss))"
    using len by (simp add: json_loads_def skip_ws_def is_ws_def e del: parse_elems.simps)
  then show ?thesis using r by simp
qed

end
