(* ===== verification/Runtime.thy ===== *)
theory Runtime
  imports PyValue
begin

text \<open>
  The effects the handler performs, as operations on one explicit state: reading the
  process environment (\<open>os.environ.get\<close>), drawing from \<open>random.random\<close>, reading
  \<open>time.time\<close>, printing, and calling the CloudWatch Logs client created at module
  load (\<open>cwlogs = boto3.client('logs')\<close>). The client is a parameter of every
  operation: a function from a request and the service's state to a response (a
  Python dict) or a raised exception, and the new service state. Every request the
  handler issues is recorded with its outcome, so that properties of the call sequence
  can be stated for any client. The predicates \<open>client_keeps\<close> and \<open>keeps_svc\<close>
  (with the rules \<open>keeps_intros\<close>) carry an invariant of the service state from the
  client to the handler's computations; \<open>round\<close> is shown to round to the nearest
  integer, ties to even, and to be monotone.
\<close>

section \<open>Requests to the log service\<close>

text \<open>One element of the \<open>logEvents\<close> argument of \<open>put_log_events\<close>:
  \<open>{"timestamp": epoch_time, "message": str(message)}\<close>.\<close>

record log_event =
  timestamp :: int
  message :: string

datatype request =
    DescribeLogGroups
  | CreateLogGroup string "(string \<times> string) list"
  | CreateLogStream string string
  | PutLogEvents string string "log_event list" "pyval option"

type_synonym 's client = "request \<Rightarrow> 's \<Rightarrow> (py_exc + pyval) \<times> 's"

type_synonym exchange = "request \<times> (py_exc + pyval)"

section \<open>The runtime state\<close>

text \<open>
  \<open>rand_src i\<close> is the value the \<open>i\<close>-th call of \<open>random.random()\<close> returns,
  \<open>clock i\<close> the value of the \<open>i\<close>-th call of \<open>time.time()\<close> (seconds since the
  epoch, kept exact as a rational); \<open>rand_pos\<close> and \<open>clock_pos\<close> count the calls made.
\<close>

record 's rt =
  environ :: "string \<rightharpoonup> string"
  rand_src :: "nat \<Rightarrow> rat"
  rand_pos :: nat
  clock :: "nat \<Rightarrow> rat"
  clock_pos :: nat
  svc :: 's
  calls :: "exchange list"
  stdout :: "string list"

type_synonym ('s, 'a) py = "(py_exc, 's rt, 'a) exc_st"

section \<open>Operations\<close>

text \<open>One call of the client: the request and its outcome are recorded even when the
  call raises.\<close>

definition api_call :: "'s client \<Rightarrow> request \<Rightarrow> ('s, pyval) py" where
  "api_call cw req = (\<lambda>st.
     (case cw req (svc st) of (r, sv') \<Rightarrow> (r, st\<lparr>svc := sv', calls := calls st @ [(req, r)]\<rparr>)))"

definition py_print :: "string \<Rightarrow> ('s, unit) py" where
  "py_print line = (\<lambda>st. (Inr (), st\<lparr>stdout := stdout st @ [line]\<rparr>))"

text \<open>\<open>os.environ.get(name)\<close>: the value, or \<open>None\<close> when unset.\<close>

definition environ_get :: "string \<Rightarrow> ('s, pyval) py" where
  "environ_get name = (\<lambda>st.
     (Inr (case environ st name of None \<Rightarrow> PyNone | Some v \<Rightarrow> PyStr v), st))"

definition random_random :: "('s, rat) py" where
  "random_random = (\<lambda>st. (Inr (rand_src st (rand_pos st)), st\<lparr>rand_pos := Suc (rand_pos st)\<rparr>))"

definition time_time :: "('s, rat) py" where
  "time_time = (\<lambda>st. (Inr (clock st (clock_pos st)), st\<lparr>clock_pos := Suc (clock_pos st)\<rparr>))"

text \<open>\<open>random.choices(population, k=k)\<close>: \<open>k\<close> draws, each
  \<open>population[floor(random() * n)]\<close> with \<open>n = len(population)\<close>.\<close>

fun random_choices :: "'a list \<Rightarrow> nat \<Rightarrow> ('s, 'a list) py" where
  "random_choices pop 0 = returnE []"
| "random_choices pop (Suc k) =
     bindE random_random (\<lambda>r.
     bindE (liftE (case py_nth pop \<lfloor>r * of_nat (length pop)\<rfloor> of
                     None \<Rightarrow> Inl (IndexError ''list index out of range'')
                   | Some x \<Rightarrow> Inr x)) (\<lambda>x.
     bindE (random_choices pop k) (\<lambda>xs. returnE (x # xs))))"

text \<open>Python's \<open>round\<close> on a number: to the nearest integer, ties to even.\<close>

definition py_round :: "rat \<Rightarrow> int" where
  "py_round x =
     (let f = \<lfloor>x\<rfloor>; d = x - of_int f in
      if d < 1/2 then f else if 1/2 < d then f + 1 else if even f then f else f + 1)"

text \<open>What \<open>random.random()\<close> promises: every value lies in \<open>[0, 1)\<close>.\<close>

definition random_contract :: "'s rt \<Rightarrow> bool" where
  "random_contract st \<longleftrightarrow> (\<forall>i. 0 \<le> rand_src st i \<and> rand_src st i < 1)"

section \<open>A stubbed client\<close>

text \<open>botocore's \<open>Stubber\<close>: the client answers each call with the next queued
  response (a dict, or an exception to raise) and raises when the queue is empty.\<close>

definition stub_client :: "(py_exc + pyval) list client" where
  "stub_client req q = (case q of
      [] \<Rightarrow> (Inl (ClientError ''UnStubbedResponseError'' ''stub''), [])
    | r # rest \<Rightarrow> (r, rest))"

section \<open>Invariants of the service state\<close>

text \<open>The interface between the handler and the service: a client keeps an invariant
  \<open>P\<close> of its state when every call does, and a computation of the handler keeps it
  when running it from a state where \<open>P\<close> holds leaves one where it holds. The
  handler's operations are shown to keep every invariant that the client keeps
  (\<open>keeps_intros\<close>); the service model discharges the client's side.\<close>

definition keeps_svc :: "('s \<Rightarrow> bool) \<Rightarrow> ('s, 'a) py \<Rightarrow> bool" where
  "keeps_svc P m \<longleftrightarrow> (\<forall>st. P (svc st) \<longrightarrow> P (svc (snd (m st))))"

definition client_keeps :: "('s \<Rightarrow> bool) \<Rightarrow> 's client \<Rightarrow> bool" where
  "client_keeps P cw \<longleftrightarrow> (\<forall>req \<sigma>. P \<sigma> \<longrightarrow> P (snd (cw req \<sigma>)))"

named_theorems keeps_intros "rules that a computation keeps an invariant of the service state"

section \<open>Lemmas\<close>

lemma api_call_apply [run_simps]:
  "api_call cw req st =
     (fst (cw req (svc st)),
      st\<lparr>svc := snd (cw req (svc st)), calls := calls st @ [(req, fst (cw req (svc st)))]\<rparr>)"
  by (simp add: api_call_def split: prod.splits)

lemma py_print_apply [run_simps]: "py_print line st = (Inr (), st\<lparr>stdout := stdout st @ [line]\<rparr>)"
  by (simp add: py_print_def)

lemma environ_get_apply [run_simps]:
  "environ_get name st = (Inr (case environ st name of None \<Rightarrow> PyNone | Some v \<Rightarrow> PyStr v), st)"
  by (simp add: environ_get_def)

lemma random_random_apply [run_simps]:
  "random_random st = (Inr (rand_src st (rand_pos st)), st\<lparr>rand_pos := Suc (rand_pos st)\<rparr>)"
  by (simp add: random_random_def)

lemma time_time_apply [run_simps]:
  "time_time st = (Inr (clock st (clock_pos st)), st\<lparr>clock_pos := Suc (clock_pos st)\<rparr>)"
  by (simp add: time_time_def)

text \<open>\<open>round\<close> returns an integer nearest to its argument, the even one on a
  tie (distance exactly one half).\<close>

lemma py_round_nearest_even:
  "\<bar>of_int (py_round x) - x\<bar> \<le> 1/2 \<and> (\<bar>of_int (py_round x) - x\<bar> < 1/2 \<or> even (py_round x))"
proof -
  have "0 \<le> x - of_int \<lfloor>x\<rfloor>" "x - of_int \<lfloor>x\<rfloor> < 1" by linarith+
  then show ?thesis by (auto simp: py_round_def Let_def)
qed

lemma py_round_mono:
  assumes "x \<le> y" shows "py_round x \<le> py_round y"
proof (cases "\<lfloor>x\<rfloor> = \<lfloor>y\<rfloor>")
  case True
  have "x - of_int \<lfloor>x\<rfloor> \<le> y - of_int \<lfloor>y\<rfloor>" using True assms by simp
  with True show ?thesis by (auto simp: py_round_def Let_def)
next
  case False
  then have "\<lfloor>x\<rfloor> < \<lfloor>y\<rfloor>" using assms floor_mono [OF assms] by linarith
  moreover have "py_round x \<le> \<lfloor>x\<rfloor> + 1" "\<lfloor>y\<rfloor> \<le> py_round y"
    by (auto simp: py_round_def Let_def)
  ultimately show ?thesis by linarith
qed

lemma py_nth_floor:
  assumes "xs \<noteq> []" "0 \<le> r" "r < 1"
  shows "py_nth xs \<lfloor>r * of_nat (length xs)\<rfloor> = Some (xs ! nat \<lfloor>r * of_nat (length xs)\<rfloor>)"
proof -
  have "r * of_nat (length xs) < of_nat (length xs)"
    using assms by (simp add: mult_less_cancel_right2)
  then have "\<lfloor>r * of_nat (length xs)\<rfloor> < int (length xs)"
    by (simp add: floor_less_iff)
  moreover have "0 \<le> \<lfloor>r * of_nat (length xs)\<rfloor>"
    using assms by simp
  ultimately show ?thesis by (simp add: py_nth_def)
qed

lemma py_nth_mem: "py_nth xs i = Some x \<Longrightarrow> x \<in> set xs"
  by (auto simp: py_nth_def Let_def intro!: nth_mem split: if_splits)

lemma random_choices_draws:
  assumes "pop \<noteq> []" and "random_contract st"
  shows "\<exists>xs. random_choices pop k st = (Inr xs, st\<lparr>rand_pos := rand_pos st + k\<rparr>) \<and>
             length xs = k \<and> set xs \<subseteq> set pop"
  using assms(2)
proof (induction k arbitrary: st)
  case 0
  then show ?case by simp
next
  case (Suc k)
  let ?r = "rand_src st (rand_pos st)"
  let ?st1 = "st\<lparr>rand_pos := Suc (rand_pos st)\<rparr>"
  from Suc.prems have r: "0 \<le> ?r" "?r < 1" by (auto simp: random_contract_def)
  have nth: "py_nth pop \<lfloor>?r * of_nat (length pop)\<rfloor> = Some (pop ! nat \<lfloor>?r * of_nat (length pop)\<rfloor>)"
    using py_nth_floor [OF assms(1) r] .
  have idx: "pop ! nat \<lfloor>?r * of_nat (length pop)\<rfloor> \<in> set pop"
    using nth by (rule py_nth_mem)
  from Suc.prems have "random_contract ?st1" by (simp add: random_contract_def)
  from Suc.IH [OF this] obtain xs where
    xs: "random_choices pop k ?st1 = (Inr xs, ?st1\<lparr>rand_pos := rand_pos ?st1 + k\<rparr>)"
        "length xs = k" "set xs \<subseteq> set pop"
    by blast
  show ?case using nth idx xs by (simp add: run_simps)
qed


subsection \<open>Keeping an invariant of the service\<close>

lemma keeps_svcD: "keeps_svc P m \<Longrightarrow> P (svc st) \<Longrightarrow> P (svc (snd (m st)))"
  by (simp add: keeps_svc_def)

lemma keeps_returnE [keeps_intros]: "keeps_svc P (returnE a)"
  by (simp add: keeps_svc_def)

lemma keeps_liftE [keeps_intros]: "keeps_svc P (liftE r)"
  by (simp add: keeps_svc_def liftE_def)

lemma keeps_bindE [keeps_intros]:
  "keeps_svc P m \<Longrightarrow> (\<And>a. keeps_svc P (f a)) \<Longrightarrow> keeps_svc P (bindE m f)"
  by (auto simp: keeps_svc_def bindE_def split: prod.splits sum.splits)

lemma keeps_if [keeps_intros]:
  "keeps_svc P m1 \<Longrightarrow> keeps_svc P m2 \<Longrightarrow> keeps_svc P (if b then m1 else m2)"
  by simp

lemma keeps_api_call [keeps_intros]: "client_keeps P cw \<Longrightarrow> keeps_svc P (api_call cw req)"
  by (simp add: keeps_svc_def client_keeps_def api_call_apply)

lemma keeps_py_print [keeps_intros]: "keeps_svc P (py_print line)"
  by (simp add: keeps_svc_def py_print_def)

lemma keeps_environ_get [keeps_intros]: "keeps_svc P (environ_get name)"
  by (simp add: keeps_svc_def environ_get_def)

lemma keeps_random_random [keeps_intros]: "keeps_svc P random_random"
  by (simp add: keeps_svc_def random_random_def)

lemma keeps_time_time [keeps_intros]: "keeps_svc P time_time"
  by (simp add: keeps_svc_def time_time_def)

lemma keeps_random_choices [keeps_intros]: "keeps_svc P (random_choices pop k)"
  by (induction k) (simp only: random_choices.simps; intro keeps_intros)+

end
