(* ===== verification/Forwarder.thy ===== *)
theory Forwarder
  imports Json Runtime
begin

text \<open>
  The functions of \<open>src/push-sns-messages-to-cloudwatch-logs.py\<close>, one definition
  each, in the source's order: \<open>createLogGroup\<close>, \<open>ifLogGroupExists\<close>,
  \<open>createLogStream\<close>, \<open>putLogEvents\<close> and \<open>lambda_handler\<close> with its loop over
  the messages (\<open>send_messages\<close>) and the nonce it draws (\<open>make_nonce\<close>). Each is
  generic in the boto3 client \<open>cw\<close> and its state type. Then the contracts of the
  append loop (\<open>appends\<close>) and of the stream setup (\<open>setup_calls\<close>) as inductive
  relations, the refinement lemma \<open>send_messages_appends\<close>, the loop's properties
  (C2 to C4), the millisecond timestamp (C19), the order of the timestamps it sends (C20) and
  the nonce's (C6).
\<close>

section \<open>createLogGroup\<close>

definition group_tags :: "string \<Rightarrow> (string \<times> string) list" where
  "group_tags name =
     [(''Owner'', ''TrendMicro''), (''Product'', ''CloudOneWorkloadSecurity''), (''Name'', name)]"

definition createLogGroup :: "'s client \<Rightarrow> string \<Rightarrow> ('s, unit) py" where
  "createLogGroup cw logGroupName =
     bindE (api_call cw (CreateLogGroup logGroupName (group_tags logGroupName))) (\<lambda>resp.
     py_print (''createLogGroupResponse - '' @ py_str resp))"

section \<open>ifLogGroupExists\<close>

text \<open>The loop over \<open>listLogGroupsResponse["logGroups"]\<close>: \<open>True\<close> at the first
  group whose name contains \<open>logGroupName\<close> as a substring.\<close>

fun scan_groups :: "string \<Rightarrow> pyval list \<Rightarrow> py_exc + bool" where
  "scan_groups logGroupName [] = Inr False"
| "scan_groups logGroupName (logGroup # rest) =
     bindS (py_getitem logGroup (PyStr ''logGroupName'')) (\<lambda>name.
     bindS (py_contains name (PyStr logGroupName)) (\<lambda>found.
     if found then Inr True else scan_groups logGroupName rest))"

definition ifLogGroupExists :: "'s client \<Rightarrow> string \<Rightarrow> ('s, bool) py" where
  "ifLogGroupExists cw logGroupName =
     bindE (api_call cw DescribeLogGroups) (\<lambda>resp.
     liftE (bindS (py_getitem resp (PyStr ''logGroups'')) (\<lambda>groups.
            bindS (py_iter groups) (\<lambda>gs. scan_groups logGroupName gs))))"

section \<open>createLogStream\<close>

definition createLogStream :: "'s client \<Rightarrow> string \<Rightarrow> string \<Rightarrow> ('s, string) py" where
  "createLogStream cw logGroupName logStreamName =
     bindE (api_call cw (CreateLogStream logGroupName logStreamName)) (\<lambda>resp.
     bindE (py_print (''createLogStreamResponse - '' @ py_str resp)) (\<lambda>_.
     bindE (liftE (bindS (py_getitem resp (PyStr ''ResponseMetadata'')) (\<lambda>meta.
                   py_getitem meta (PyStr ''HTTPStatusCode'')))) (\<lambda>code.
     returnE (if py_eq code (PyInt 200) then logStreamName else ''''))))"

section \<open>putLogEvents\<close>

text \<open>The token is passed only when it is truthy; the result is the response's
  \<open>nextSequenceToken\<close>, or \<open>None\<close> when the response reports rejected events.\<close>

definition putLogEvents ::
  "'s client \<Rightarrow> string \<Rightarrow> string \<Rightarrow> log_event list \<Rightarrow> pyval \<Rightarrow> ('s, pyval) py" where
  "putLogEvents cw logGroupName logStreamName logEvent nextSequenceToken =
     bindE (api_call cw (PutLogEvents logGroupName logStreamName logEvent
              (if py_truthy nextSequenceToken then Some nextSequenceToken else None))) (\<lambda>resp.
     bindE (py_print (''putLogEventsResponse - '' @ py_str resp)) (\<lambda>_.
     bindE (liftE (py_contains resp (PyStr ''rejectedLogEventsInfo''))) (\<lambda>rejected.
     if \<not> rejected then liftE (py_getitem resp (PyStr ''nextSequenceToken''))
     else returnE PyNone)))"

section \<open>lambda_handler\<close>

definition ascii_letters :: string where
  "ascii_letters = ''abcdefghijklmnopqrstuvwxyzABCDEFGHIJKLMNOPQRSTUVWXYZ''"

definition ascii_digits :: string where
  "ascii_digits = ''0123456789''"

text \<open>\<open>str.upper\<close> on the characters it is applied to here (ASCII letters and
  digits): lower-case letters move up by 32, everything else is kept.\<close>

definition upper_char :: "char \<Rightarrow> char" where
  "upper_char c = (if CHR ''a'' \<le> c \<and> c \<le> CHR ''z'' then char_of (of_char c - (32::nat)) else c)"

definition make_nonce :: "('s, string) py" where
  "make_nonce =
     bindE (random_choices (ascii_letters @ ascii_digits) 8) (\<lambda>cs. returnE (map upper_char cs))"

text \<open>\<open>event["Records"][0]["Sns"]["Message"]\<close>.\<close>

definition event_message :: "pyval \<Rightarrow> py_exc + pyval" where
  "event_message event =
     bindS (py_getitem event (PyStr ''Records'')) (\<lambda>records.
     bindS (py_getitem records (PyInt 0)) (\<lambda>record.
     bindS (py_getitem record (PyStr ''Sns'')) (\<lambda>sns.
     py_getitem sns (PyStr ''Message''))))"

text \<open>\<open>json.loads\<close> accepts only a string here (the Lambda event holds no bytes).\<close>

definition json_loads_value :: "pyval \<Rightarrow> py_exc + pyval" where
  "json_loads_value v = (case v of
      PyStr s \<Rightarrow> json_loads s
    | _ \<Rightarrow> Inl (TypeError (''the JSON object must be str, bytes or bytearray, not '' @ type_name v)))"

definition epoch_ms :: "rat \<Rightarrow> int" where
  "epoch_ms t = py_round (t * 1000)"

text \<open>The loop \<open>for message in logEvents\<close>: its value is the handler's return value,
  \<open>False\<close> at the first rejected append, \<open>None\<close> when the loop runs out.\<close>

fun send_messages :: "'s client \<Rightarrow> string \<Rightarrow> string \<Rightarrow> pyval list \<Rightarrow> pyval \<Rightarrow> ('s, pyval) py" where
  "send_messages cw logGroupName logStreamName [] nextSequenceToken = returnE PyNone"
| "send_messages cw logGroupName logStreamName (msg # rest) nextSequenceToken =
     bindE time_time (\<lambda>t.
     bindE (putLogEvents cw logGroupName logStreamName
              [\<lparr>timestamp = epoch_ms t, message = py_str msg\<rparr>] nextSequenceToken) (\<lambda>tok.
     if py_eq tok PyNone then returnE (PyBool False)
     else send_messages cw logGroupName logStreamName rest tok))"

text \<open>The block under \<open>if len(logEvents) > 0:\<close> that makes sure the stream
  exists (lines 82 to 88): create the group first when it is absent.\<close>

definition ensure_stream :: "'s client \<Rightarrow> string \<Rightarrow> string \<Rightarrow> ('s, string) py" where
  "ensure_stream cw logGroupName streamName =
     bindE (ifLogGroupExists cw logGroupName) (\<lambda>exists.
     if exists then createLogStream cw logGroupName streamName
     else bindE (createLogGroup cw logGroupName) (\<lambda>_.
          createLogStream cw logGroupName streamName))"

text \<open>From the length test on: nothing happens for an empty batch.\<close>

definition forward_events :: "'s client \<Rightarrow> string \<Rightarrow> string \<Rightarrow> pyval \<Rightarrow> ('s, pyval) py" where
  "forward_events cw logGroupName streamName logEvents =
     bindE (liftE (py_len logEvents)) (\<lambda>n.
     if 0 < n then
       bindE (ensure_stream cw logGroupName streamName) (\<lambda>logStreamName.
       bindE (py_print (logGroupName @ '' - '' @ logStreamName)) (\<lambda>_.
       bindE (liftE (py_iter logEvents)) (\<lambda>messages.
       send_messages cw logGroupName logStreamName messages PyNone)))
     else returnE PyNone)"

text \<open>\<open>str(os.environ.get(name))\<close>: an unset variable reads as the string
  \<open>"None"\<close>.\<close>

definition config_str :: "(string \<rightharpoonup> string) \<Rightarrow> string \<Rightarrow> string" where
  "config_str env name = py_str (case env name of None \<Rightarrow> PyNone | Some v \<Rightarrow> PyStr v)"

definition lambda_handler :: "'s client \<Rightarrow> pyval \<Rightarrow> ('s, pyval) py" where
  "lambda_handler cw event =
     bindE (environ_get ''CloudWatchLogGroupName'') (\<lambda>g.
     bindE (environ_get ''CloudWatchLogStreamNamePrefix'') (\<lambda>p.
     bindE make_nonce (\<lambda>nonce.
     bindE (liftE (bindS (event_message event) json_loads_value)) (\<lambda>logEvents.
     forward_events cw (py_str g) (py_str p @ ''-'' @ nonce) logEvents))))"

section \<open>The contract of the append loop\<close>

text \<open>The token argument \<open>putLogEvents\<close> passes (\<open>if nextSequenceToken:\<close>), and
  what it makes of the outcome of the call: the response's \<open>nextSequenceToken\<close>, or
  \<open>None\<close> when the response holds \<open>rejectedLogEventsInfo\<close>.\<close>

definition tok_arg :: "pyval \<Rightarrow> pyval option" where
  "tok_arg t = (if py_truthy t then Some t else None)"

definition put_outcome :: "py_exc + pyval \<Rightarrow> py_exc + pyval" where
  "put_outcome r = bindS r (\<lambda>resp.
     bindS (py_contains resp (PyStr ''rejectedLogEventsInfo'')) (\<lambda>rejected.
     if \<not> rejected then py_getitem resp (PyStr ''nextSequenceToken'') else Inr PyNone))"

text \<open>What \<open>ifLogGroupExists\<close> and \<open>createLogStream\<close> make of the outcome of
  their call.\<close>

definition exists_outcome :: "string \<Rightarrow> py_exc + pyval \<Rightarrow> py_exc + bool" where
  "exists_outcome logGroupName r = bindS r (\<lambda>resp.
     bindS (py_getitem resp (PyStr ''logGroups'')) (\<lambda>groups.
     bindS (py_iter groups) (\<lambda>gs. scan_groups logGroupName gs)))"

definition stream_outcome :: "string \<Rightarrow> py_exc + pyval \<Rightarrow> py_exc + string" where
  "stream_outcome logStreamName r = bindS r (\<lambda>resp.
     bindS (bindS (py_getitem resp (PyStr ''ResponseMetadata'')) (\<lambda>meta.
            py_getitem meta (PyStr ''HTTPStatusCode''))) (\<lambda>code.
     Inr (if py_eq code (PyInt 200) then logStreamName else '''')))"

text \<open>One iteration of the loop up to the call: read the clock, issue the request,
  record it.\<close>

definition put_step :: "'s client \<Rightarrow> string \<Rightarrow> string \<Rightarrow> pyval \<Rightarrow> pyval \<Rightarrow> 's rt \<Rightarrow> request \<times> (py_exc + pyval) \<times> 's rt" where
  "put_step cw g s m tok st =
     (let req = PutLogEvents g s [\<lparr>timestamp = epoch_ms (clock st (clock_pos st)), message = py_str m\<rparr>] (tok_arg tok);
          r = fst (cw req (svc st));
          st1 = st\<lparr>clock_pos := Suc (clock_pos st), svc := snd (cw req (svc st)), calls := calls st @ [(req, r)]\<rparr>
      in (req, r, case r of Inl _ \<Rightarrow> st1 | Inr resp \<Rightarrow> st1\<lparr>stdout := stdout st1 @ [''putLogEventsResponse - '' @ py_str resp]\<rparr>))"


fun req_token :: "request \<Rightarrow> pyval option" where
  "req_token (PutLogEvents _ _ _ tk) = tk"
| "req_token _ = None"

text \<open>
  \<open>appends g s clk k ms tk tr res\<close>: the spec's rule for appending the messages
  \<open>ms\<close> (section 4.1, steps 7 and 8), as a relation between the messages, the token
  \<open>tk\<close> passed to the first append, the exchanges \<open>tr\<close> with the service and the
  handler's result \<open>res\<close>. Message \<open>i\<close> is sent alone, stamped with clock reading
  \<open>k + i\<close>; a response that raises or reports rejection ends the loop; otherwise
  the next append carries the returned token.
\<close>

inductive appends ::
  "string \<Rightarrow> string \<Rightarrow> (nat \<Rightarrow> rat) \<Rightarrow> nat \<Rightarrow> pyval list \<Rightarrow> pyval option \<Rightarrow> exchange list \<Rightarrow> py_exc + pyval \<Rightarrow> bool"
  where
  app_done: "appends g s clk k [] tk [] (Inr PyNone)"
| app_raised: "put_outcome r = Inl e \<Longrightarrow>
     appends g s clk k (m # ms) tk
       [(PutLogEvents g s [\<lparr>timestamp = epoch_ms (clk k), message = py_str m\<rparr>] tk, r)] (Inl e)"
| app_rejected: "put_outcome r = Inr PyNone \<Longrightarrow>
     appends g s clk k (m # ms) tk
       [(PutLogEvents g s [\<lparr>timestamp = epoch_ms (clk k), message = py_str m\<rparr>] tk, r)] (Inr (PyBool False))"
| app_accepted: "put_outcome r = Inr t \<Longrightarrow> t \<noteq> PyNone \<Longrightarrow>
     appends g s clk (Suc k) ms (tok_arg t) tr res \<Longrightarrow>
     appends g s clk k (m # ms) tk
       ((PutLogEvents g s [\<lparr>timestamp = epoch_ms (clk k), message = py_str m\<rparr>] tk, r) # tr) res"

text \<open>
  \<open>setup_calls g name pre r\<close>: the calls the handler makes before the first append
  (spec section 4.1, steps 3 to 5) and their result \<open>r\<close> (the stream name, or the
  exception that ends the invocation): one \<open>describe_log_groups\<close>, then
  \<open>create_log_group\<close> only when the group was not found, then exactly one
  \<open>create_log_stream\<close> for \<open>name\<close>.
\<close>

inductive setup_calls :: "string \<Rightarrow> string \<Rightarrow> exchange list \<Rightarrow> py_exc + string \<Rightarrow> bool" where
  describe_failed: "exists_outcome g r = Inl e \<Longrightarrow>
     setup_calls g name [(DescribeLogGroups, r)] (Inl e)"
| group_found: "exists_outcome g r = Inr True \<Longrightarrow>
     setup_calls g name [(DescribeLogGroups, r), (CreateLogStream g name, r3)] (stream_outcome name r3)"
| create_failed: "exists_outcome g r = Inr False \<Longrightarrow>
     setup_calls g name [(DescribeLogGroups, r), (CreateLogGroup g (group_tags g), Inl e)] (Inl e)"
| group_created: "exists_outcome g r = Inr False \<Longrightarrow>
     setup_calls g name [(DescribeLogGroups, r), (CreateLogGroup g (group_tags g), Inr v),
                         (CreateLogStream g name, r3)] (stream_outcome name r3)"

text \<open>The timestamps of the records the appends carry, in the order of the calls.\<close>

fun put_timestamps :: "exchange list \<Rightarrow> int list" where
  "put_timestamps [] = []"
| "put_timestamps ((PutLogEvents _ _ evs _, _) # tr) = map timestamp evs @ put_timestamps tr"
| "put_timestamps (_ # tr) = put_timestamps tr"

section \<open>Lemmas: the append loop\<close>

lemma putLogEvents_apply:
  "putLogEvents cw g s evs tok st =
     (let req = PutLogEvents g s evs (tok_arg tok); r = fst (cw req (svc st));
          st1 = st\<lparr>svc := snd (cw req (svc st)), calls := calls st @ [(req, r)]\<rparr>
      in (put_outcome r,
          case r of Inl _ \<Rightarrow> st1 | Inr resp \<Rightarrow> st1\<lparr>stdout := stdout st1 @ [''putLogEventsResponse - '' @ py_str resp]\<rparr>))"
  by (simp add: putLogEvents_def tok_arg_def put_outcome_def Let_def run_simps
           split: sum.splits prod.splits if_splits)

lemma send_messages_Cons_step:
  assumes "send_messages cw g s (m # ms) tok st = (res, st')"
    and "put_step cw g s m tok st = (req, r, st1)"
  shows "(case put_outcome r of
            Inl e \<Rightarrow> res = Inl e \<and> st' = st1
          | Inr tok' \<Rightarrow> (if tok' = PyNone then res = Inr (PyBool False) \<and> st' = st1
                        else send_messages cw g s ms tok' st1 = (res, st')))"
  using assms
  by (auto simp: putLogEvents_apply put_step_def Let_def run_simps split: sum.splits prod.splits)

lemma put_step_calls: "put_step cw g s m tok st = (req, r, st1) \<Longrightarrow>
    calls st1 = calls st @ [(req, r)] \<and> clock_pos st1 = Suc (clock_pos st) \<and> clock st1 = clock st
    \<and> req = PutLogEvents g s [\<lparr>timestamp = epoch_ms (clock st (clock_pos st)), message = py_str m\<rparr>] (tok_arg tok)"
  by (auto simp: put_step_def Let_def split: sum.splits)

lemma send_messages_appends:
  "send_messages cw g s ms tok st = (res, st') \<Longrightarrow>
   \<exists>tr. calls st' = calls st @ tr \<and> appends g s (clock st) (clock_pos st) ms (tok_arg tok) tr res"
proof (induction ms arbitrary: tok st)
  case Nil
  then show ?case by (auto intro: appends.app_done)
next
  case (Cons m ms)
  obtain req r st1 where step: "put_step cw g s m tok st = (req, r, st1)"
    by (cases "put_step cw g s m tok st") auto
  note facts = send_messages_Cons_step [OF Cons.prems step] put_step_calls [OF step]
  show ?case
  proof (cases "put_outcome r")
    case (Inl e)
    with facts show ?thesis by (auto intro: appends.app_raised)
  next
    case (Inr t)
    show ?thesis
    proof (cases "t = PyNone")
      case True
      with facts Inr show ?thesis by (auto intro: appends.app_rejected)
    next
      case False
      with facts Inr have "send_messages cw g s ms t st1 = (res, st')" by auto
      from Cons.IH [OF this] obtain tr where
        "calls st' = calls st1 @ tr" "appends g s (clock st1) (clock_pos st1) ms (tok_arg t) tr res"
        by blast
      with facts Inr False show ?thesis by (auto intro: appends.app_accepted)
    qed
  qed
qed

lemma appends_complete: "appends g s clk k ms tk tr res \<Longrightarrow> res = Inr PyNone \<Longrightarrow> length tr = length ms"
  by (induction rule: appends.induct) auto

lemma appends_requests:
  "appends g s clk k ms tk tr res \<Longrightarrow> i < length tr \<Longrightarrow>
   \<exists>tk'. fst (tr ! i) = PutLogEvents g s [\<lparr>timestamp = epoch_ms (clk (k + i)), message = py_str (ms ! i)\<rparr>] tk'"
proof (induction arbitrary: i rule: appends.induct)
  case (app_accepted r t g s clk k ms tr res m tk)
  then show ?case by (cases i) auto
qed auto

lemma appends_hd_token: "appends g s clk k ms tk tr res \<Longrightarrow> tr \<noteq> [] \<Longrightarrow> req_token (fst (hd tr)) = tk"
  by (induction rule: appends.induct) auto

lemma appends_next_token:
  "appends g s clk k ms tk tr res \<Longrightarrow> Suc i < length tr \<Longrightarrow>
   \<exists>t. put_outcome (snd (tr ! i)) = Inr t \<and> t \<noteq> PyNone \<and> req_token (fst (tr ! Suc i)) = tok_arg t"
proof (induction arbitrary: i rule: appends.induct)
  case (app_accepted r t g s clk k ms tr res m tk)
  show ?case
  proof (cases i)
    case 0
    with app_accepted have "tr \<noteq> []" by simp
    with app_accepted.hyps(3) have "req_token (fst (hd tr)) = tok_arg t" by (rule appends_hd_token)
    with app_accepted.hyps(1,2) 0 \<open>tr \<noteq> []\<close> show ?thesis by (simp add: hd_conv_nth)
  next
    case (Suc j)
    with app_accepted show ?thesis by simp
  qed
qed auto

lemma put_outcome_token:
  "put_outcome r = Inr t \<Longrightarrow> t \<noteq> PyNone \<Longrightarrow>
   \<exists>resp. r = Inr resp \<and> py_getitem resp (PyStr ''nextSequenceToken'') = Inr t"
  by (cases r) (auto simp: put_outcome_def split: if_splits)

lemma put_outcome_rejected:
  "py_contains resp (PyStr ''rejectedLogEventsInfo'') = Inr True \<Longrightarrow> put_outcome (Inr resp) = Inr PyNone"
  by (simp add: put_outcome_def)

lemma appends_last_rejected:
  "appends g s clk k ms tk tr res \<Longrightarrow> tr \<noteq> [] \<Longrightarrow> put_outcome (snd (last tr)) = Inr PyNone \<Longrightarrow>
   res = Inr (PyBool False)"
  by (induction rule: appends.induct) (auto split: if_splits)

lemma ifLogGroupExists_apply:
  "ifLogGroupExists cw g st =
     (exists_outcome g (fst (cw DescribeLogGroups (svc st))),
      st\<lparr>svc := snd (cw DescribeLogGroups (svc st)),
         calls := calls st @ [(DescribeLogGroups, fst (cw DescribeLogGroups (svc st)))]\<rparr>)"
  by (simp add: ifLogGroupExists_def exists_outcome_def run_simps split: sum.splits)

lemma createLogGroup_calls:
  "createLogGroup cw g st = (r, st') \<Longrightarrow>
   calls st' = calls st @ [(CreateLogGroup g (group_tags g), fst (cw (CreateLogGroup g (group_tags g)) (svc st)))] \<and>
   r = (case fst (cw (CreateLogGroup g (group_tags g)) (svc st)) of Inl e \<Rightarrow> Inl e | Inr _ \<Rightarrow> Inr ()) \<and>
   clock st' = clock st \<and> clock_pos st' = clock_pos st"
  by (auto simp: createLogGroup_def run_simps split: sum.splits)

lemma createLogStream_apply:
  "createLogStream cw g s st = (r, st') \<Longrightarrow>
   calls st' = calls st @ [(CreateLogStream g s, fst (cw (CreateLogStream g s) (svc st)))] \<and>
   r = stream_outcome s (fst (cw (CreateLogStream g s) (svc st))) \<and>
   clock st' = clock st \<and> clock_pos st' = clock_pos st"
  by (auto simp: createLogStream_def stream_outcome_def run_simps split: sum.splits)

section \<open>Properties of the append loop\<close>

text \<open>C2. When the loop ends normally (the handler's implicit \<open>None\<close>), it made exactly one
  append per message, in order, each carrying a single record: the message converted by
  \<open>str\<close> and stamped with the millisecond reading of the clock taken just before.\<close>

theorem send_messages_complete:
  assumes "send_messages cw g s ms tok st = (Inr PyNone, st')"
  shows "\<exists>tr. calls st' = calls st @ tr \<and> length tr = length ms \<and>
           (\<forall>i < length tr. \<exists>tk. fst (tr ! i) =
              PutLogEvents g s [\<lparr>timestamp = epoch_ms (clock st (clock_pos st + i)),
                                 message = py_str (ms ! i)\<rparr>] tk)"
proof -
  from send_messages_appends [OF assms] obtain tr where
    tr: "calls st' = calls st @ tr"
    and app: "appends g s (clock st) (clock_pos st) ms (tok_arg tok) tr (Inr PyNone)"
    by blast
  from app have "length tr = length ms" by (rule appends_complete) simp
  with tr app show ?thesis by (blast dest: appends_requests)
qed

text \<open>C3. Sequence-token threading: the first append of a fresh loop carries no token,
  and every later append carries the \<open>nextSequenceToken\<close> of the previous response
  (when it is truthy, as \<open>if nextSequenceToken:\<close> requires).\<close>

theorem send_messages_threads_tokens:
  assumes "send_messages cw g s ms PyNone st = (res, st')"
    and "calls st' = calls st @ tr"
  shows "(tr \<noteq> [] \<longrightarrow> req_token (fst (hd tr)) = None) \<and>
         (\<forall>i. Suc i < length tr \<longrightarrow>
            (\<exists>resp t. snd (tr ! i) = Inr resp \<and>
               py_getitem resp (PyStr ''nextSequenceToken'') = Inr t \<and>
               req_token (fst (tr ! Suc i)) = (if py_truthy t then Some t else None)))"
proof -
  from send_messages_appends [OF assms(1)] assms(2) have
    app: "appends g s (clock st) (clock_pos st) ms None tr res"
    by (auto simp: tok_arg_def)
  have "req_token (fst (hd tr)) = None" if "tr \<noteq> []"
    using appends_hd_token [OF app that] .
  moreover have "\<exists>resp t. snd (tr ! i) = Inr resp \<and>
      py_getitem resp (PyStr ''nextSequenceToken'') = Inr t \<and>
      req_token (fst (tr ! Suc i)) = (if py_truthy t then Some t else None)"
    if "Suc i < length tr" for i
  proof -
    from appends_next_token [OF app that] obtain t where
      out: "put_outcome (snd (tr ! i)) = Inr t" "t \<noteq> PyNone"
      and tok: "req_token (fst (tr ! Suc i)) = tok_arg t"
      by blast
    from put_outcome_token [OF out] obtain resp where
      "snd (tr ! i) = Inr resp" "py_getitem resp (PyStr ''nextSequenceToken'') = Inr t"
      by blast
    with tok show ?thesis by (intro exI [of _ resp] exI [of _ t]) (simp add: tok_arg_def)
  qed
  ultimately show ?thesis by blast
qed

text \<open>C4. Early exit: if the response to the \<open>k\<close>-th append (from 0) reports rejected
  events, that append is the last one made and the handler returns \<open>False\<close>.\<close>

theorem send_messages_stops_at_rejection:
  assumes "send_messages cw g s ms tok st = (res, st')"
    and "calls st' = calls st @ tr"
    and "k < length tr" and "snd (tr ! k) = Inr resp"
    and "py_contains resp (PyStr ''rejectedLogEventsInfo'') = Inr True"
  shows "length tr = Suc k \<and> res = Inr (PyBool False)"
proof -
  from send_messages_appends [OF assms(1)] assms(2) have
    app: "appends g s (clock st) (clock_pos st) ms (tok_arg tok) tr res"
    by auto
  from assms(4,5) have out: "put_outcome (snd (tr ! k)) = Inr PyNone"
    by (simp add: put_outcome_rejected)
  have last: "length tr = Suc k"
  proof (rule ccontr)
    assume "length tr \<noteq> Suc k"
    with assms(3) have "Suc k < length tr" by simp
    from appends_next_token [OF app this] out show False by auto
  qed
  then have "last tr = tr ! k"
    by (metis diff_Suc_1 last_conv_nth list.size(3) nat.distinct(1))
  with out have "put_outcome (snd (last tr)) = Inr PyNone"
    by simp
  with app last have "res = Inr (PyBool False)"
    by (auto intro: appends_last_rejected)
  with last show ?thesis by simp
qed

text \<open>C19. The millisecond timestamp of line 94, \<open>int(round(time.time() * 1000))\<close>:
  \<open>epoch_ms t\<close> is an integer nearest to \<open>t * 1000\<close>, within half a millisecond,
  and the even one on a tie. Truncating instead of rounding, or leaving out the
  factor 1000, breaks it.\<close>

theorem epoch_ms_nearest:
  "\<bar>of_int (epoch_ms t) - t * 1000\<bar> \<le> 1/2 \<and>
   (\<bar>of_int (epoch_ms t) - t * 1000\<bar> < 1/2 \<or> even (epoch_ms t))"
  unfolding epoch_ms_def by (rule py_round_nearest_even)

lemma epoch_ms_mono: "t \<le> u \<Longrightarrow> epoch_ms t \<le> epoch_ms u"
  unfolding epoch_ms_def by (rule py_round_mono) simp

lemma appends_timestamps:
  "appends g s clk k ms tk tr res \<Longrightarrow>
   put_timestamps tr = map (\<lambda>i. epoch_ms (clk (k + i))) [0..<length tr]"
proof (induction rule: appends.induct)
  case (app_accepted r t g s clk k ms tr res m tk)
  then show ?case by (simp add: upt_conv_Cons map_Suc_upt [symmetric] comp_def del: upt_Suc)
qed simp_all

text \<open>C20. Ordering: when the clock does not go backwards, the records the loop sends
  carry non-decreasing timestamps, in the order of the calls, whatever the client
  answers.\<close>

theorem send_messages_timestamps_sorted:
  assumes run: "send_messages cw g s ms tok st = (res, st')" and clk: "mono (clock st)"
  shows "\<exists>tr. calls st' = calls st @ tr \<and> sorted (put_timestamps tr)"
proof -
  from send_messages_appends [OF run] obtain tr where
    tr: "calls st' = calls st @ tr"
    and app: "appends g s (clock st) (clock_pos st) ms (tok_arg tok) tr res"
    by blast
  have "sorted (map (\<lambda>i. epoch_ms (clock st (clock_pos st + i))) [0..<length tr])"
    by (auto simp: sorted_iff_nth_mono intro!: epoch_ms_mono monoD [OF clk])
  with tr appends_timestamps [OF app] show ?thesis by auto
qed

section \<open>The nonce\<close>

lemma upper_char_alnum:
  "c \<in> set (ascii_letters @ ascii_digits) \<Longrightarrow> upper_char c \<in> set ''ABCDEFGHIJKLMNOPQRSTUVWXYZ0123456789''"
proof -
  have "list_all (\<lambda>c. upper_char c \<in> set ''ABCDEFGHIJKLMNOPQRSTUVWXYZ0123456789'')
          (ascii_letters @ ascii_digits)"
    by code_simp
  then show "c \<in> set (ascii_letters @ ascii_digits) \<Longrightarrow> ?thesis"
    by (simp add: list_all_iff)
qed

text \<open>Drawing the nonce: eight draws of \<open>random.choices\<close> over the letters and
  digits, each upper-cased.\<close>

lemma make_nonce_draws:
  assumes "random_contract st"
  shows "\<exists>cs. make_nonce st = (Inr (map upper_char cs), st\<lparr>rand_pos := rand_pos st + 8\<rparr>) \<and>
           length cs = 8 \<and> set cs \<subseteq> set (ascii_letters @ ascii_digits)"
proof -
  have "ascii_letters @ ascii_digits \<noteq> []" by (simp add: ascii_letters_def)
  from random_choices_draws [OF this assms] obtain cs where
    cs: "random_choices (ascii_letters @ ascii_digits) 8 st = (Inr cs, st\<lparr>rand_pos := rand_pos st + 8\<rparr>)"
        "length cs = 8" "set cs \<subseteq> set (ascii_letters @ ascii_digits)"
    by blast
  then show ?thesis by (auto simp: make_nonce_def run_simps)
qed

lemma upper_chars_alnum:
  "set cs \<subseteq> set (ascii_letters @ ascii_digits) \<Longrightarrow>
   set (map upper_char cs) \<subseteq> set ''ABCDEFGHIJKLMNOPQRSTUVWXYZ0123456789''"
  using upper_char_alnum by auto

text \<open>C6. The stream-name nonce: when \<open>random.random()\<close> keeps its promise, the
  nonce is 8 characters from \<open>[A-Z0-9]\<close>, and drawing it consumes 8 random values and
  nothing else.\<close>

theorem make_nonce_format:
  assumes "random_contract st"
  shows "\<exists>nonce. make_nonce st = (Inr nonce, st\<lparr>rand_pos := rand_pos st + 8\<rparr>) \<and>
           length nonce = 8 \<and> set nonce \<subseteq> set ''ABCDEFGHIJKLMNOPQRSTUVWXYZ0123456789''"
proof -
  from make_nonce_draws [OF assms] obtain cs where
    "make_nonce st = (Inr (map upper_char cs), st\<lparr>rand_pos := rand_pos st + 8\<rparr>)"
    "length cs = 8" "set cs \<subseteq> set (ascii_letters @ ascii_digits)"
    by blast
  then show ?thesis using upper_chars_alnum by auto
qed

end
