(* ===== verification/Handler.thy ===== *)
theory Handler
  imports Forwarder
begin

text \<open>
  The handler as a whole, over any client: the calls of the stream setup
  (\<open>ensure_stream_setup\<close>, against the contract \<open>setup_calls\<close>), the unfolding of
  \<open>lambda_handler\<close> up to \<open>forward_events\<close>, and the properties of an invocation:
  the sequence of calls (C5) and its instances for a JSON string message (C10), an
  unset group name (C11) and a stream creation answered with a status other than 200
  (C14), the empty batch (C7), the error paths before any call (C12, C13), the type of
  the result (C17), the group check against a reference (C16), and that the handler
  changes the service only through its calls.
\<close>

section \<open>The stream setup and the invocation\<close>

lemma ensure_stream_setup:
  assumes "ensure_stream cw g name st = (res, st')"
  shows "\<exists>pre. calls st' = calls st @ pre \<and> setup_calls g name pre res \<and>
               clock st' = clock st \<and> clock_pos st' = clock_pos st"
proof -
  let ?r = "fst (cw DescribeLogGroups (svc st))"
  let ?st1 = "st\<lparr>svc := snd (cw DescribeLogGroups (svc st)), calls := calls st @ [(DescribeLogGroups, ?r)]\<rparr>"
  have ex: "ifLogGroupExists cw g st = (exists_outcome g ?r, ?st1)"
    by (rule ifLogGroupExists_apply)
  show ?thesis
  proof (cases "exists_outcome g ?r")
    case (Inl e)
    with assms ex show ?thesis by (auto simp: ensure_stream_def intro: setup_calls.describe_failed)
  next
    case (Inr b)
    show ?thesis
    proof (cases b)
      case True
      with assms ex Inr have "createLogStream cw g name ?st1 = (res, st')"
        by (simp add: ensure_stream_def)
      from createLogStream_apply [OF this] Inr True show ?thesis
        by (auto intro: setup_calls.group_found)
    next
      case False
      obtain u st2 where cg: "createLogGroup cw g ?st1 = (u, st2)" by fastforce
      note cgc = createLogGroup_calls [OF cg]
      show ?thesis
      proof (cases u)
        case (Inl e)
        with assms ex Inr False cg have "res = Inl e" "st' = st2"
          by (simp_all add: ensure_stream_def)
        with cgc Inl Inr False show ?thesis
          by (cases "fst (cw (CreateLogGroup g (group_tags g)) (svc ?st1))")
             (auto intro: setup_calls.create_failed)
      next
        case (Inr uu)
        with assms ex \<open>exists_outcome g ?r = Inr b\<close> False cg have "createLogStream cw g name st2 = (res, st')"
          by (simp add: ensure_stream_def)
        from createLogStream_apply [OF this] cgc Inr \<open>exists_outcome g ?r = Inr b\<close> False show ?thesis
          by (cases "fst (cw (CreateLogGroup g (group_tags g)) (svc ?st1))")
             (auto intro: setup_calls.group_created)
      qed
    qed
  qed
qed
lemma forward_events_calls:
  assumes run: "forward_events cw g name v st = (res, st')" and it: "py_iter v = Inr ms"
    and ne: "ms \<noteq> []"
  shows "\<exists>pre tr r. calls st' = calls st @ pre @ tr \<and> setup_calls g name pre r \<and>
           (case r of Inl e \<Rightarrow> tr = [] \<and> res = Inl e
                    | Inr s \<Rightarrow> appends g s (clock st) (clock_pos st) ms None tr res)"
proof -
  have len: "py_len v = Inr (length ms)" by (rule py_iter_py_len [OF it])
  obtain r st2 where es: "ensure_stream cw g name st = (r, st2)" by fastforce
  from ensure_stream_setup [OF es] obtain pre where
    sc: "calls st2 = calls st @ pre" "setup_calls g name pre r"
         "clock st2 = clock st" "clock_pos st2 = clock_pos st"
    by blast
  show ?thesis
  proof (cases r)
    case (Inl e)
    with run ne es len have "res = Inl e" "st' = st2"
      by (simp_all add: forward_events_def)
    with sc Inl show ?thesis
      by (intro exI [of _ pre] exI [of _ "[] :: exchange list"] exI [of _ r]) auto
  next
    case (Inr s)
    let ?st3 = "st2\<lparr>stdout := stdout st2 @ [g @ '' - '' @ s]\<rparr>"
    from run ne es Inr len it have "send_messages cw g s ms PyNone ?st3 = (res, st')"
      by (simp add: forward_events_def run_simps)
    from send_messages_appends [OF this] obtain tr where
      "calls st' = calls ?st3 @ tr" "appends g s (clock ?st3) (clock_pos ?st3) ms (tok_arg PyNone) tr res"
      by blast
    with sc Inr show ?thesis
      by (intro exI [of _ pre] exI [of _ tr] exI [of _ r]) (auto simp: tok_arg_def)
  qed
qed

lemma lambda_handler_unfold:
  assumes "random_contract st" and "bindS (event_message event) json_loads_value = Inr v"
  shows "\<exists>nonce. length nonce = 8 \<and> set nonce \<subseteq> set ''ABCDEFGHIJKLMNOPQRSTUVWXYZ0123456789'' \<and>
           lambda_handler cw event st =
             forward_events cw (config_str (environ st) ''CloudWatchLogGroupName'')
               (config_str (environ st) ''CloudWatchLogStreamNamePrefix'' @ ''-'' @ nonce) v
               (st\<lparr>rand_pos := rand_pos st + 8\<rparr>)"
proof -
  from make_nonce_draws [OF assms(1)] obtain cs where
    c: "make_nonce st = (Inr (map upper_char cs), st\<lparr>rand_pos := rand_pos st + 8\<rparr>)" "length cs = 8"
       "set cs \<subseteq> set (ascii_letters @ ascii_digits)"
    by blast
  obtain nonce where
    n: "make_nonce st = (Inr nonce, st\<lparr>rand_pos := rand_pos st + 8\<rparr>)" "length nonce = 8"
       "set nonce \<subseteq> set ''ABCDEFGHIJKLMNOPQRSTUVWXYZ0123456789''"
    using c upper_chars_alnum by fastforce
  have "lambda_handler cw event st =
             forward_events cw (config_str (environ st) ''CloudWatchLogGroupName'')
               (config_str (environ st) ''CloudWatchLogStreamNamePrefix'' @ ''-'' @ nonce) v
               (st\<lparr>rand_pos := rand_pos st + 8\<rparr>)"
    using n(1)
    by (simp add: lambda_handler_def config_str_def bindE_apply environ_get_apply assms(2)
             del: bindS_eq_Inr split: option.splits)
  with n(2,3) show ?thesis by blast
qed

text \<open>The calls of an invocation whose decoded message iterates to a non-empty list
  \<open>ms\<close>: the stream setup against \<open>setup_calls\<close>, then the appends of \<open>ms\<close>.\<close>

lemma lambda_handler_calls:
  assumes run: "lambda_handler cw event st = (res, st')"
    and dec: "bindS (event_message event) json_loads_value = Inr v" and it: "py_iter v = Inr ms"
    and ne: "ms \<noteq> []" and rnd: "random_contract st"
  shows "\<exists>nonce pre tr r.
           length nonce = 8 \<and> set nonce \<subseteq> set ''ABCDEFGHIJKLMNOPQRSTUVWXYZ0123456789'' \<and>
           calls st' = calls st @ pre @ tr \<and>
           setup_calls (config_str (environ st) ''CloudWatchLogGroupName'')
             (config_str (environ st) ''CloudWatchLogStreamNamePrefix'' @ ''-'' @ nonce) pre r \<and>
           (case r of Inl e \<Rightarrow> tr = [] \<and> res = Inl e
                    | Inr s \<Rightarrow> appends (config_str (environ st) ''CloudWatchLogGroupName'') s
                                 (clock st) (clock_pos st) ms None tr res)"
proof -
  from lambda_handler_unfold [OF rnd dec] obtain nonce where
    n: "length nonce = 8" "set nonce \<subseteq> set ''ABCDEFGHIJKLMNOPQRSTUVWXYZ0123456789''"
    and eq: "lambda_handler cw event st =
             forward_events cw (config_str (environ st) ''CloudWatchLogGroupName'')
               (config_str (environ st) ''CloudWatchLogStreamNamePrefix'' @ ''-'' @ nonce) v
               (st\<lparr>rand_pos := rand_pos st + 8\<rparr>)"
    by blast
  from run eq have "forward_events cw (config_str (environ st) ''CloudWatchLogGroupName'')
               (config_str (environ st) ''CloudWatchLogStreamNamePrefix'' @ ''-'' @ nonce) v
               (st\<lparr>rand_pos := rand_pos st + 8\<rparr>) = (res, st')" by simp
  from forward_events_calls [OF this it ne] obtain pre tr r where
    "calls st' = calls st @ pre @ tr"
    "setup_calls (config_str (environ st) ''CloudWatchLogGroupName'')
       (config_str (environ st) ''CloudWatchLogStreamNamePrefix'' @ ''-'' @ nonce) pre r"
    "case r of Inl e \<Rightarrow> tr = [] \<and> res = Inl e
       | Inr s \<Rightarrow> appends (config_str (environ st) ''CloudWatchLogGroupName'') s
                  (clock st) (clock_pos st) ms None tr res"
    by (auto cong: sum.case_cong)
  with n show ?thesis by blast
qed



text \<open>C5. The handler's calls for a non-empty batch: first \<open>describe_log_groups\<close>;
  \<open>create_log_group\<close> (with its tags) exactly when the group was not found; exactly
  one \<open>create_log_stream\<close> for \<open>prefix-NONCE\<close> with an 8-character upper-case
  alphanumeric nonce; then the appends of C2 to C4 into the stream name that
  \<open>createLogStream\<close> returned, one message each, the first without a token.
  An exception in the setup ends the invocation with no append.\<close>

theorem lambda_handler_call_sequence:
  assumes run: "lambda_handler cw event st = (res, st')"
    and msg: "event_message event = Inr (PyStr doc)" and doc: "json_loads doc = Inr (PyList ms)"
    and ne: "ms \<noteq> []" and rnd: "random_contract st"
  shows "\<exists>nonce pre tr r.
           length nonce = 8 \<and> set nonce \<subseteq> set ''ABCDEFGHIJKLMNOPQRSTUVWXYZ0123456789'' \<and>
           calls st' = calls st @ pre @ tr \<and>
           setup_calls (config_str (environ st) ''CloudWatchLogGroupName'')
             (config_str (environ st) ''CloudWatchLogStreamNamePrefix'' @ ''-'' @ nonce) pre r \<and>
           (case r of Inl e \<Rightarrow> tr = [] \<and> res = Inl e
                    | Inr s \<Rightarrow> appends (config_str (environ st) ''CloudWatchLogGroupName'') s
                                 (clock st) (clock_pos st) ms None tr res)"
proof -
  from msg doc have "bindS (event_message event) json_loads_value = Inr (PyList ms)"
    by (simp add: json_loads_value_def)
  from lambda_handler_calls [OF run this _ ne rnd] show ?thesis by simp
qed

text \<open>C7. An empty batch: no call to the log service at all (not even the group check
  or the stream creation), and the implicit \<open>None\<close> result.\<close>

theorem lambda_handler_empty_batch:
  assumes msg: "event_message event = Inr (PyStr doc)" and doc: "json_loads doc = Inr (PyList [])"
    and rnd: "random_contract st"
  shows "\<exists>st'. lambda_handler cw event st = (Inr PyNone, st') \<and> calls st' = calls st"
proof -
  from msg doc have "bindS (event_message event) json_loads_value = Inr (PyList [])"
    by (simp add: json_loads_value_def)
  from lambda_handler_unfold [OF rnd this] obtain nonce where
    "lambda_handler cw event st =
       forward_events cw (config_str (environ st) ''CloudWatchLogGroupName'')
         (config_str (environ st) ''CloudWatchLogStreamNamePrefix'' @ ''-'' @ nonce) (PyList [])
         (st\<lparr>rand_pos := rand_pos st + 8\<rparr>)"
    by blast
  then show ?thesis by (simp add: forward_events_def)
qed

text \<open>C10. The handler iterates whatever \<open>json.loads\<close> returns: when the message is a
  JSON string \<open>"cs"\<close> (not an array), for any client the setup is the same and the
  appends are one per character, each with the one-character string as its message,
  exactly as for the array of the characters.\<close>

theorem lambda_handler_iterates_string_message:
  assumes run: "lambda_handler cw event st = (res, st')"
    and msg: "event_message event = Inr (PyStr doc)" and doc: "json_loads doc = Inr (PyStr cs)"
    and ne: "cs \<noteq> []" and rnd: "random_contract st"
  shows "\<exists>name pre tr r. calls st' = calls st @ pre @ tr \<and>
           setup_calls (config_str (environ st) ''CloudWatchLogGroupName'') name pre r \<and>
           (case r of Inl e \<Rightarrow> tr = [] \<and> res = Inl e
                    | Inr s \<Rightarrow> appends (config_str (environ st) ''CloudWatchLogGroupName'') s
                                 (clock st) (clock_pos st) (map (\<lambda>c. PyStr [c]) cs) None tr res)"
proof -
  from msg doc have "bindS (event_message event) json_loads_value = Inr (PyStr cs)"
    by (simp add: json_loads_value_def)
  from lambda_handler_calls [OF run this _ _ rnd] ne show ?thesis by fastforce
qed

text \<open>C11. An unset \<open>CloudWatchLogGroupName\<close> is read as \<open>str(None)\<close>: for any
  client and any non-empty batch, every call of the invocation (the group check,
  the group creation with its tags, the stream creation and every append) is made
  for the log group named \<open>"None"\<close>.\<close>

theorem lambda_handler_unset_config:
  assumes run: "lambda_handler cw event st = (res, st')"
    and msg: "event_message event = Inr (PyStr doc)" and doc: "json_loads doc = Inr (PyList ms)"
    and ne: "ms \<noteq> []" and rnd: "random_contract st"
    and unset: "environ st ''CloudWatchLogGroupName'' = None"
  shows "\<exists>name pre tr r. calls st' = calls st @ pre @ tr \<and> setup_calls ''None'' name pre r \<and>
           (case r of Inl e \<Rightarrow> tr = [] \<and> res = Inl e
                    | Inr s \<Rightarrow> appends ''None'' s (clock st) (clock_pos st) ms None tr res)"
proof -
  from msg doc have dec: "bindS (event_message event) json_loads_value = Inr (PyList ms)"
    by (simp add: json_loads_value_def)
  have it: "py_iter (PyList ms) = Inr ms" by simp
  have cfg: "config_str (environ st) ''CloudWatchLogGroupName'' = ''None''"
    by (simp add: config_str_def unset)
  from lambda_handler_calls [OF run dec it ne rnd] obtain nonce pre tr r where
    "calls st' = calls st @ pre @ tr"
    "setup_calls ''None'' (config_str (environ st) ''CloudWatchLogStreamNamePrefix'' @ ''-'' @ nonce) pre r"
    "case r of Inl e \<Rightarrow> tr = [] \<and> res = Inl e
       | Inr s \<Rightarrow> appends ''None'' s (clock st) (clock_pos st) ms None tr res"
    unfolding cfg by blast
  then show ?thesis by blast
qed


text \<open>C12. A message that cannot be decoded (not valid JSON, a missing
  \<open>Records[0].Sns.Message\<close> key, or a message that is not a string) ends the
  invocation with the exception of \<open>json.loads\<close> or of the subscription, before any
  call to the log service.\<close>

theorem lambda_handler_bad_message:
  assumes bad: "bindS (event_message event) json_loads_value = Inl e" and rnd: "random_contract st"
  shows "\<exists>st'. lambda_handler cw event st = (Inl e, st') \<and> calls st' = calls st \<and> svc st' = svc st"
proof -
  from make_nonce_draws [OF rnd] obtain cs where
    n: "make_nonce st = (Inr (map upper_char cs), st\<lparr>rand_pos := rand_pos st + 8\<rparr>)"
    by blast
  then have "lambda_handler cw event st = (Inl e, st\<lparr>rand_pos := rand_pos st + 8\<rparr>)"
    by (simp add: lambda_handler_def bindE_apply environ_get_apply bad)
  then show ?thesis by simp
qed

text \<open>C13. A document that decodes to a value without a length (a number,
  \<open>true\<close>, \<open>false\<close>, \<open>null\<close>) makes \<open>len(logEvents)\<close> raise \<open>TypeError\<close>, again
  before any call to the log service.\<close>

theorem lambda_handler_no_len:
  assumes ok: "bindS (event_message event) json_loads_value = Inr v" and nl: "py_len v = Inl e"
    and rnd: "random_contract st"
  shows "\<exists>st'. lambda_handler cw event st = (Inl e, st') \<and> calls st' = calls st \<and> svc st' = svc st"
proof -
  from lambda_handler_unfold [OF rnd ok] obtain nonce where
    "lambda_handler cw event st =
       forward_events cw (config_str (environ st) ''CloudWatchLogGroupName'')
         (config_str (environ st) ''CloudWatchLogStreamNamePrefix'' @ ''-'' @ nonce) v
         (st\<lparr>rand_pos := rand_pos st + 8\<rparr>)"
    by blast
  then show ?thesis using nl by (simp add: forward_events_def)
qed

lemma send_messages_result:
  "case fst (send_messages cw g s ms tok st) of Inl e \<Rightarrow> True | Inr v \<Rightarrow> v = PyNone \<or> v = PyBool False"
proof (induction ms arbitrary: tok st)
  case Nil
  then show ?case by simp
next
  case (Cons m ms)
  obtain req r st1 where step: "put_step cw g s m tok st = (req, r, st1)"
    by (cases "put_step cw g s m tok st") auto
  obtain res st' where run: "send_messages cw g s (m # ms) tok st = (res, st')" by fastforce
  note cs = send_messages_Cons_step [OF run step]
  show ?case
  proof (cases "put_outcome r")
    case (Inl e)
    with cs run show ?thesis by simp
  next
    case (Inr tok')
    with cs run Cons.IH [of tok' st1] show ?thesis by (auto split: if_splits)
  qed
qed

text \<open>C17. The type of the handler's result: when it returns, it returns \<open>None\<close> or
  \<open>False\<close> (the spec's "boolean-like" return value), never another value.\<close>

theorem lambda_handler_result_type:
  "case fst (lambda_handler cw event st) of Inl e \<Rightarrow> True | Inr v \<Rightarrow> v = PyNone \<or> v = PyBool False"
  unfolding lambda_handler_def forward_events_def
  by (intro bindE_result) (auto intro!: bindE_result simp: send_messages_result)

section \<open>The group check\<close>

text \<open>C16. Equivalence with a reference: the loop of \<open>ifLogGroupExists\<close> over the
  groups of a response computes \<open>any(logGroupName in grp["logGroupName"] for grp in
  groups)\<close>, that is, whether the configured name is a contiguous substring
  (\<open>sublist\<close> of \<open>HOL-Library.Sublist\<close>) of the name of some listed group, whatever
  other fields the group records carry.\<close>

theorem scan_groups_any_sublist:
  "scan_groups g (map (\<lambda>(n, extra). PyDict ((''logGroupName'', PyStr n) # extra)) gs) =
     Inr (list_ex (\<lambda>(n, extra). sublist g n) gs)"
  by (induction gs) (auto simp: str_contains_sublist simp del: str_contains.simps)

section \<open>The handler keeps the service\<close>

text \<open>Every service invariant the client keeps, the handler keeps: the calls are its
  only effect on the service state.\<close>

lemma keeps_send_messages [keeps_intros]:
  "client_keeps P cw \<Longrightarrow> keeps_svc P (send_messages cw g s ms tok)"
  by (induction ms arbitrary: tok)
     (simp only: send_messages.simps putLogEvents_def; intro keeps_intros; assumption?)+

lemma keeps_lambda_handler:
  "client_keeps P cw \<Longrightarrow> keeps_svc P (lambda_handler cw event)"
  unfolding lambda_handler_def forward_events_def ensure_stream_def make_nonce_def
    ifLogGroupExists_def createLogGroup_def createLogStream_def
  by (intro keeps_intros)

end
