(* ===== verification/CloudWatch.thy ===== *)
theory CloudWatch
  imports Runtime "HOL-Library.AList"
begin

text \<open>
  A reference model of the CloudWatch Logs service behind the boto3 client, from the
  spec (section 3: groups, streams, sequence tokens) and the service's documented API
  rules: group names of 1 to 512 characters from \<open>[.\-_/#A-Za-z0-9]\<close>, stream names
  of 1 to 512 characters without \<open>:\<close> or \<open>*\<close>; \<open>describe_log_groups\<close> returns
  the groups in name order, at most 50 per page; \<open>put_log_events\<close> requires the
  stream's current sequence token (none before the first append), stores the events
  whose timestamps lie in the accepted window (at most 14 days old, at most 2 hours
  ahead of the service clock) and reports the others in \<open>rejectedLogEventsInfo\<close>.
  \<open>cwl_call\<close> is a client in the sense of theory \<open>Runtime\<close>.
\<close>

section \<open>State\<close>

record lstream =
  stored :: "log_event list"
  seq_no :: nat

record lgroup =
  tags_of :: "(string \<times> string) list"
  streams :: "(string \<times> lstream) list"

record cwl =
  groups :: "(string \<times> lgroup) list"
  now_ms :: int

section \<open>Responses and errors\<close>

definition meta_200 :: "(string \<times> pyval)" where
  "meta_200 = (''ResponseMetadata'', PyDict [(''HTTPStatusCode'', PyInt 200)])"

definition aws_error :: "string \<Rightarrow> string \<Rightarrow> py_exc + pyval" where
  "aws_error code operation = Inl (ClientError code operation)"

text \<open>The token the service hands out after the \<open>n\<close>-th accepted batch, and the one
  it expects on the next append.\<close>

definition seq_token :: "nat \<Rightarrow> pyval" where
  "seq_token n = PyStr (''4959'' @ dec_nat n)"

definition expected_token :: "lstream \<Rightarrow> pyval option" where
  "expected_token st = (if seq_no st = 0 then None else Some (seq_token (seq_no st)))"

section \<open>Name rules and the timestamp window\<close>

definition group_name_char :: "char \<Rightarrow> bool" where
  "group_name_char c \<longleftrightarrow>
     (CHR ''a'' \<le> c \<and> c \<le> CHR ''z'') \<or> (CHR ''A'' \<le> c \<and> c \<le> CHR ''Z'') \<or>
     (CHR ''0'' \<le> c \<and> c \<le> CHR ''9'') \<or> c \<in> set ''.-_/#''"

definition valid_group_name :: "string \<Rightarrow> bool" where
  "valid_group_name n \<longleftrightarrow> n \<noteq> [] \<and> length n \<le> 512 \<and> list_all group_name_char n"

definition valid_stream_name :: "string \<Rightarrow> bool" where
  "valid_stream_name n \<longleftrightarrow> n \<noteq> [] \<and> length n \<le> 512 \<and> CHR '':'' \<notin> set n \<and> CHR ''*'' \<notin> set n"

definition in_window :: "int \<Rightarrow> int \<Rightarrow> bool" where
  "in_window now ts \<longleftrightarrow> now - 1209600000 \<le> ts \<and> ts \<le> now + 7200000"

section \<open>Operations\<close>

definition page_size :: nat where
  "page_size = 50"

definition describe_groups :: "cwl \<Rightarrow> (py_exc + pyval) \<times> cwl" where
  "describe_groups \<sigma> =
     (let names = sort (map fst (groups \<sigma>))
      in (Inr (PyDict ([(''logGroups'', PyList (map (\<lambda>n. PyDict [(''logGroupName'', PyStr n)])
                                                  (take page_size names)))] @
                       (if page_size < length names then [(''nextToken'', PyStr ''page-2'')] else []) @
                       [meta_200])), \<sigma>))"

definition create_group :: "string \<Rightarrow> (string \<times> string) list \<Rightarrow> cwl \<Rightarrow> (py_exc + pyval) \<times> cwl" where
  "create_group n tags \<sigma> =
     (if \<not> valid_group_name n then (aws_error ''InvalidParameterException'' ''CreateLogGroup'', \<sigma>)
      else if map_of (groups \<sigma>) n \<noteq> None
      then (aws_error ''ResourceAlreadyExistsException'' ''CreateLogGroup'', \<sigma>)
      else (Inr (PyDict [meta_200]),
            \<sigma>\<lparr>groups := groups \<sigma> @ [(n, \<lparr>tags_of = tags, streams = []\<rparr>)]\<rparr>))"

definition create_stream :: "string \<Rightarrow> string \<Rightarrow> cwl \<Rightarrow> (py_exc + pyval) \<times> cwl" where
  "create_stream g s \<sigma> =
     (if \<not> valid_stream_name s then (aws_error ''InvalidParameterException'' ''CreateLogStream'', \<sigma>)
      else case map_of (groups \<sigma>) g of
        None \<Rightarrow> (aws_error ''ResourceNotFoundException'' ''CreateLogStream'', \<sigma>)
      | Some grp \<Rightarrow>
          (if map_of (streams grp) s \<noteq> None
           then (aws_error ''ResourceAlreadyExistsException'' ''CreateLogStream'', \<sigma>)
           else (Inr (PyDict [meta_200]),
                 \<sigma>\<lparr>groups := AList.update g
                      (grp\<lparr>streams := streams grp @ [(s, \<lparr>stored = [], seq_no = 0\<rparr>)]\<rparr>) (groups \<sigma>)\<rparr>)))"

definition put_events ::
  "string \<Rightarrow> string \<Rightarrow> log_event list \<Rightarrow> pyval option \<Rightarrow> cwl \<Rightarrow> (py_exc + pyval) \<times> cwl" where
  "put_events g s evs tok \<sigma> =
     (if \<not> valid_stream_name s \<or> evs = [] then (aws_error ''InvalidParameterException'' ''PutLogEvents'', \<sigma>)
      else case map_of (groups \<sigma>) g of
        None \<Rightarrow> (aws_error ''ResourceNotFoundException'' ''PutLogEvents'', \<sigma>)
      | Some grp \<Rightarrow>
          (case map_of (streams grp) s of
             None \<Rightarrow> (aws_error ''ResourceNotFoundException'' ''PutLogEvents'', \<sigma>)
           | Some str \<Rightarrow>
               (if tok \<noteq> expected_token str
                then (aws_error ''InvalidSequenceTokenException'' ''PutLogEvents'', \<sigma>)
                else
                  (let ok = filter (\<lambda>ev. in_window (now_ms \<sigma>) (timestamp ev)) evs;
                       str' = str\<lparr>stored := stored str @ ok, seq_no := Suc (seq_no str)\<rparr>
                   in (Inr (PyDict ([(''nextSequenceToken'', seq_token (Suc (seq_no str)))] @
                                    (if length ok = length evs then []
                                     else [(''rejectedLogEventsInfo'', PyDict [])]) @ [meta_200])),
                       \<sigma>\<lparr>groups := AList.update g
                            (grp\<lparr>streams := AList.update s str' (streams grp)\<rparr>) (groups \<sigma>)\<rparr>)))))"

fun cwl_call :: "cwl client" where
  "cwl_call DescribeLogGroups \<sigma> = describe_groups \<sigma>"
| "cwl_call (CreateLogGroup n tags) \<sigma> = create_group n tags \<sigma>"
| "cwl_call (CreateLogStream g s) \<sigma> = create_stream g s \<sigma>"
| "cwl_call (PutLogEvents g s evs tok) \<sigma> = put_events g s evs tok \<sigma>"

section \<open>Well-formedness\<close>

text \<open>Names are unique (groups in the service, streams in their group) and valid.\<close>

definition wf_group :: "string \<Rightarrow> lgroup \<Rightarrow> bool" where
  "wf_group n grp \<longleftrightarrow> valid_group_name n \<and> distinct (map fst (streams grp)) \<and>
     list_all (\<lambda>(s, _). valid_stream_name s) (streams grp)"

definition wf_cwl :: "cwl \<Rightarrow> bool" where
  "wf_cwl \<sigma> \<longleftrightarrow> distinct (map fst (groups \<sigma>)) \<and> list_all (\<lambda>(n, grp). wf_group n grp) (groups \<sigma>)"

text \<open>The stream \<open>s\<close> of group \<open>g\<close>.\<close>

definition stream_of :: "cwl \<Rightarrow> string \<Rightarrow> string \<Rightarrow> lstream option" where
  "stream_of \<sigma> g s = (case map_of (groups \<sigma>) g of None \<Rightarrow> None | Some grp \<Rightarrow> map_of (streams grp) s)"

section \<open>Lemmas\<close>

lemma list_all_update:
  "list_all P al \<Longrightarrow> P (k, v) \<Longrightarrow> list_all P (AList.update k v al)"
  by (induction al) auto

lemma list_all_mem:
  "list_all (\<lambda>(k, v). P k v) al \<Longrightarrow> (k, v) \<in> set al \<Longrightarrow> P k v"
  by (auto simp: list_all_iff)

lemma wf_group_add_stream:
  "wf_group n grp \<Longrightarrow> valid_stream_name s \<Longrightarrow> map_of (streams grp) s = None \<Longrightarrow>
   wf_group n (grp\<lparr>streams := streams grp @ [(s, str)]\<rparr>)"
  by (auto simp: wf_group_def map_of_eq_None_iff)

lemma wf_group_update_stream:
  "wf_group n grp \<Longrightarrow> valid_stream_name s \<Longrightarrow>
   wf_group n (grp\<lparr>streams := AList.update s str (streams grp)\<rparr>)"
  by (auto simp: wf_group_def distinct_update intro: list_all_update)

text \<open>The service keeps its names unique and valid whatever it is asked.\<close>

theorem cwl_call_wf:
  assumes "wf_cwl \<sigma>" and "cwl_call req \<sigma> = (r, \<sigma>')"
  shows "wf_cwl \<sigma>'"
proof (cases req)
  case DescribeLogGroups
  with assms show ?thesis by (auto simp: describe_groups_def Let_def)
next
  case (CreateLogGroup n tags)
  with assms show ?thesis
    by (auto simp: create_group_def wf_cwl_def wf_group_def map_of_eq_None_iff split: if_splits)
next
  case (CreateLogStream g s)
  with assms show ?thesis
    by (auto simp: create_stream_def wf_cwl_def distinct_update
             intro!: list_all_update wf_group_add_stream
             dest: map_of_SomeD list_all_mem [where P = wf_group]
             split: if_splits option.splits)
next
  case (PutLogEvents g s evs tok)
  with assms show ?thesis
    by (auto simp: put_events_def wf_cwl_def distinct_update Let_def
             intro!: list_all_update wf_group_update_stream
             dest: map_of_SomeD list_all_mem [where P = wf_group]
             split: if_splits option.splits)
qed


lemma cwl_call_keeps_wf: "client_keeps wf_cwl cwl_call"
  unfolding client_keeps_def by (metis cwl_call_wf prod.collapse)

end
