(* ===== verification/Delivery.thy ===== *)
theory Delivery
  imports Handler CloudWatch
begin

text \<open>
  The handler run against the reference service of theory \<open>CloudWatch\<close>. The
  service lemmas are stated as updates of the map \<open>stream_of\<close> (a frame: only the
  named stream changes); from them, the stream setup and the append loop succeed under
  the service's rules and the new stream ends up holding exactly the batch, one event
  per message, in order (C1), which refines the abstract operation \<open>deliver_batch\<close>
  on the store of stream contents (C15); a JSON array of plain strings ends up as the
  stream's messages, verbatim (C18). The two defects of the group check follow
  (C8: substring match, C9: first page only). \<open>window_ok\<close> says that the clock readings the loop
  will take fall inside the service's timestamp window.
\<close>

definition window_ok :: "'s rt \<Rightarrow> int \<Rightarrow> nat \<Rightarrow> bool" where
  "window_ok st now n \<longleftrightarrow> list_all (\<lambda>i. in_window now (epoch_ms (clock st (clock_pos st + i)))) [0..<n]"

text \<open>The contract of one invocation, on the abstract store of the service (the events
  of each stream, by group and stream name): the batch is written into one new stream and
  nothing else changes.\<close>

definition stream_store :: "cwl \<Rightarrow> string \<Rightarrow> string \<Rightarrow> log_event list option" where
  "stream_store \<sigma> g s = map_option stored (stream_of \<sigma> g s)"

definition deliver_batch ::
  "(string \<Rightarrow> string \<Rightarrow> log_event list option) \<Rightarrow> string \<Rightarrow> string \<Rightarrow> log_event list \<Rightarrow>
   (string \<Rightarrow> string \<Rightarrow> log_event list option)" where
  "deliver_batch A g s evs = A(g := (A g)(s := Some evs))"

lemma scan_groups_names:
  "scan_groups g (map (\<lambda>n. PyDict [(''logGroupName'', PyStr n)]) ns) = Inr (list_ex (\<lambda>n. str_contains n g) ns)"
  by (induction ns) auto

lemma exists_outcome_describe:
  "exists_outcome g (fst (describe_groups \<sigma>)) =
     Inr (list_ex (\<lambda>n. str_contains n g) (take page_size (sort (map fst (groups \<sigma>)))))"
  by (simp add: exists_outcome_def describe_groups_def Let_def scan_groups_names meta_200_def)

lemma put_events_accepts:
  assumes "stream_of \<sigma> g s = Some str" "valid_stream_name s" "in_window (now_ms \<sigma>) (timestamp ev)"
  shows "\<exists>\<sigma>'. put_events g s [ev] (expected_token str) \<sigma> =
            (Inr (PyDict [(''nextSequenceToken'', seq_token (Suc (seq_no str))), meta_200]), \<sigma>') \<and>
          stream_of \<sigma>' = (stream_of \<sigma>)(g := (stream_of \<sigma> g)(s :=
             Some (str\<lparr>stored := stored str @ [ev], seq_no := Suc (seq_no str)\<rparr>))) \<and>
          now_ms \<sigma>' = now_ms \<sigma>"
proof -
  from assms(1) obtain grp where g: "map_of (groups \<sigma>) g = Some grp" and s: "map_of (streams grp) s = Some str"
    by (auto simp: stream_of_def split: option.splits)
  let ?str' = "str\<lparr>stored := stored str @ [ev], seq_no := Suc (seq_no str)\<rparr>"
  let ?\<sigma>' = "\<sigma>\<lparr>groups := AList.update g (grp\<lparr>streams := AList.update s ?str' (streams grp)\<rparr>) (groups \<sigma>)\<rparr>"
  have "put_events g s [ev] (expected_token str) \<sigma> =
          (Inr (PyDict [(''nextSequenceToken'', seq_token (Suc (seq_no str))), meta_200]), ?\<sigma>')"
    using assms(2,3) g s by (simp add: put_events_def Let_def)
  moreover have "stream_of ?\<sigma>' = (stream_of \<sigma>)(g := (stream_of \<sigma> g)(s := Some ?str'))"
    using g by (auto simp: stream_of_def update_conv' fun_eq_iff)
  ultimately show ?thesis by auto
qed

lemma seq_token_truthy: "py_truthy (seq_token n)"
  by (simp add: seq_token_def)

lemma send_messages_delivers:
  assumes "stream_of (svc st) g s = Some str" "valid_stream_name s"
    and "tok_arg tok = expected_token str"
    and "window_ok st (now_ms (svc st)) (length ms)"
  shows "\<exists>st'. send_messages cwl_call g s ms tok st = (Inr PyNone, st') \<and>
           stream_of (svc st') = (stream_of (svc st))(g := (stream_of (svc st) g)(s :=
             Some (str\<lparr>stored := stored str @
                      map (\<lambda>i. \<lparr>timestamp = epoch_ms (clock st (clock_pos st + i)),
                                 message = py_str (ms ! i)\<rparr>) [0..<length ms],
                       seq_no := seq_no str + length ms\<rparr>))) \<and>
           now_ms (svc st') = now_ms (svc st) \<and> clock st' = clock st"
  using assms
proof (induction ms arbitrary: tok st str)
  case Nil
  then show ?case by (auto simp: fun_eq_iff)
next
  case (Cons m ms)
  let ?ev = "\<lparr>timestamp = epoch_ms (clock st (clock_pos st)), message = py_str m\<rparr>"
  from Cons.prems(4) have w: "in_window (now_ms (svc st)) (timestamp ?ev)"
    by (simp add: window_ok_def upt_conv_Cons del: upt_Suc)
  from put_events_accepts [OF Cons.prems(1,2) w] obtain \<sigma>' where
    pe: "put_events g s [?ev] (expected_token str) (svc st) =
            (Inr (PyDict [(''nextSequenceToken'', seq_token (Suc (seq_no str))), meta_200]), \<sigma>')"
    and so: "stream_of \<sigma>' = (stream_of (svc st))(g := (stream_of (svc st) g)(s :=
               Some (str\<lparr>stored := stored str @ [?ev], seq_no := Suc (seq_no str)\<rparr>)))"
    and nw: "now_ms \<sigma>' = now_ms (svc st)"
    by blast
  let ?tok' = "seq_token (Suc (seq_no str))"
  let ?resp = "PyDict [(''nextSequenceToken'', ?tok'), meta_200]"
  let ?str' = "str\<lparr>stored := stored str @ [?ev], seq_no := Suc (seq_no str)\<rparr>"
  obtain req r st1 where step: "put_step cwl_call g s m tok st = (req, r, st1)"
    by (cases "put_step cwl_call g s m tok st") auto
  from put_step_calls [OF step] have req: "req = PutLogEvents g s [?ev] (tok_arg tok)"
    and cp: "clock_pos st1 = Suc (clock_pos st)" "clock st1 = clock st"
    by auto
  from step req pe Cons.prems(3) have r: "r = Inr ?resp" and sv: "svc st1 = \<sigma>'"
    by (auto simp: put_step_def Let_def)
  have out: "put_outcome r = Inr ?tok'"
    using r by (simp add: put_outcome_def meta_200_def)
  have tokne: "?tok' \<noteq> PyNone" by (simp add: seq_token_def)
  obtain res st' where run: "send_messages cwl_call g s (m # ms) tok st = (res, st')"
    by fastforce
  from send_messages_Cons_step [OF run step] out tokne have
    rec: "send_messages cwl_call g s ms ?tok' st1 = (res, st')" by simp
  have "stream_of (svc st1) g s = Some ?str'" using so sv by simp
  moreover have "tok_arg ?tok' = expected_token ?str'"
    by (simp add: tok_arg_def expected_token_def seq_token_truthy)
  moreover have "window_ok st1 (now_ms (svc st1)) (length ms)"
    using Cons.prems(4) cp sv nw
    by (simp add: window_ok_def upt_conv_Cons map_Suc_upt [symmetric] list.pred_map comp_def
             del: upt_Suc)
  ultimately obtain st'' where
    ih: "send_messages cwl_call g s ms ?tok' st1 = (Inr PyNone, st'')"
        "stream_of (svc st'') = (stream_of (svc st1))(g := (stream_of (svc st1) g)(s :=
           Some (?str'\<lparr>stored := stored ?str' @
              map (\<lambda>i. \<lparr>timestamp = epoch_ms (clock st1 (clock_pos st1 + i)),
                         message = py_str (ms ! i)\<rparr>) [0..<length ms],
              seq_no := seq_no ?str' + length ms\<rparr>)))"
        "now_ms (svc st'') = now_ms (svc st1)" "clock st'' = clock st1"
    using Cons.IH [OF _ Cons.prems(2)] by blast
  from rec ih(1) have "res = Inr PyNone" "st' = st''" by simp_all
  moreover have "map (\<lambda>i. \<lparr>timestamp = epoch_ms (clock st (clock_pos st + i)),
                         message = py_str ((m # ms) ! i)\<rparr>) [0..<length (m # ms)] =
                 ?ev # map (\<lambda>i. \<lparr>timestamp = epoch_ms (clock st1 (clock_pos st1 + i)),
                         message = py_str (ms ! i)\<rparr>) [0..<length ms]"
    using cp by (simp add: upt_conv_Cons map_Suc_upt [symmetric] del: upt_Suc)
  ultimately show ?case using run ih cp sv nw so by (simp add: fun_eq_iff del: upt_Suc)
qed

lemma stream_outcome_ok: "stream_outcome name (Inr (PyDict [meta_200])) = Inr name"
  by (simp add: stream_outcome_def meta_200_def)

lemma create_stream_ok:
  assumes g: "map_of (groups \<sigma>) g = Some grp" and s: "map_of (streams grp) s = None"
    and v: "valid_stream_name s"
  shows "\<exists>\<sigma>'. create_stream g s \<sigma> = (Inr (PyDict [meta_200]), \<sigma>') \<and>
              stream_of \<sigma>' = (stream_of \<sigma>)(g := (stream_of \<sigma> g)(s := Some \<lparr>stored = [], seq_no = 0\<rparr>)) \<and>
              now_ms \<sigma>' = now_ms \<sigma>"
proof -
  let ?\<sigma>' = "\<sigma>\<lparr>groups := AList.update g
                 (grp\<lparr>streams := streams grp @ [(s, \<lparr>stored = [], seq_no = 0\<rparr>)]\<rparr>) (groups \<sigma>)\<rparr>"
  have "create_stream g s \<sigma> = (Inr (PyDict [meta_200]), ?\<sigma>')"
    using g s v by (simp add: create_stream_def)
  moreover have "stream_of ?\<sigma>' = (stream_of \<sigma>)(g := (stream_of \<sigma> g)(s := Some \<lparr>stored = [], seq_no = 0\<rparr>))"
    using g s by (auto simp: stream_of_def update_conv' fun_eq_iff map_add_def split: option.splits)
  ultimately show ?thesis by auto
qed

lemma create_group_stream_of:
  "map_of (groups \<sigma>) g = None \<Longrightarrow>
   stream_of (\<sigma>\<lparr>groups := groups \<sigma> @ [(g, \<lparr>tags_of = t, streams = []\<rparr>)]\<rparr>) = stream_of \<sigma>"
  by (auto simp: stream_of_def fun_eq_iff map_add_def split: option.splits)

lemma ensure_stream_cwl:
  assumes "valid_group_name g" "valid_stream_name name"
    and acc: "list_ex (\<lambda>n. str_contains n g) (take page_size (sort (map fst (groups (svc st))))) \<longleftrightarrow>
              map_of (groups (svc st)) g \<noteq> None"
    and fresh: "stream_of (svc st) g name = None"
  shows "\<exists>st'. ensure_stream cwl_call g name st = (Inr name, st') \<and>
           stream_of (svc st') = (stream_of (svc st))(g := (stream_of (svc st) g)(name :=
             Some \<lparr>stored = [], seq_no = 0\<rparr>)) \<and>
           now_ms (svc st') = now_ms (svc st) \<and> clock st' = clock st \<and> clock_pos st' = clock_pos st"
proof (cases "map_of (groups (svc st)) g")
  case (Some grp)
  with fresh have ns: "map_of (streams grp) name = None" by (simp add: stream_of_def)
  from create_stream_ok [OF Some ns assms(2)] obtain \<sigma>' where
    cs: "create_stream g name (svc st) = (Inr (PyDict [meta_200]), \<sigma>')"
        "stream_of \<sigma>' = (stream_of (svc st))(g := (stream_of (svc st) g)(name :=
           Some \<lparr>stored = [], seq_no = 0\<rparr>))"
        "now_ms \<sigma>' = now_ms (svc st)"
    by auto
  from acc Some have eo: "exists_outcome g (fst (describe_groups (svc st))) = Inr True"
    by (simp add: exists_outcome_describe)
  let ?st1 = "st\<lparr>svc := snd (describe_groups (svc st)),
                 calls := calls st @ [(DescribeLogGroups, fst (describe_groups (svc st)))]\<rparr>"
  have ie: "ifLogGroupExists cwl_call g st = (Inr True, ?st1)"
    using eo by (simp add: ifLogGroupExists_apply)
  have sv1: "svc ?st1 = svc st" by (simp add: describe_groups_def Let_def)
  obtain r st2 where cl: "createLogStream cwl_call g name ?st1 = (r, st2)" by fastforce
  from createLogStream_apply [OF cl] cs(1) sv1 have "r = Inr name"
    by (simp add: stream_outcome_ok)
  moreover have "svc st2 = \<sigma>'" "clock st2 = clock st" "clock_pos st2 = clock_pos st"
    using cl cs(1) sv1 by (auto simp: createLogStream_def run_simps split: sum.splits)
  ultimately show ?thesis using ie cl cs
    by (simp add: ensure_stream_def run_simps)
next
  case None
  from acc None have eo: "exists_outcome g (fst (describe_groups (svc st))) = Inr False"
    by (simp add: exists_outcome_describe)
  let ?st1 = "st\<lparr>svc := snd (describe_groups (svc st)),
                 calls := calls st @ [(DescribeLogGroups, fst (describe_groups (svc st)))]\<rparr>"
  have ie: "ifLogGroupExists cwl_call g st = (Inr False, ?st1)"
    using eo by (simp add: ifLogGroupExists_apply)
  have sv1: "svc ?st1 = svc st" by (simp add: describe_groups_def Let_def)
  let ?grp = "\<lparr>tags_of = group_tags g, streams = []\<rparr> :: lgroup"
  let ?\<sigma>g = "(svc st)\<lparr>groups := groups (svc st) @ [(g, ?grp)]\<rparr>"
  have cg: "create_group g (group_tags g) (svc st) = (Inr (PyDict [meta_200]), ?\<sigma>g)"
    using assms(1) None by (simp add: create_group_def)
  have so_g: "stream_of ?\<sigma>g = stream_of (svc st)" using None by (rule create_group_stream_of)
  obtain u st2 where cgr: "createLogGroup cwl_call g ?st1 = (u, st2)" by fastforce
  from createLogGroup_calls [OF cgr] cg sv1 have "u = Inr ()" by simp
  have st2: "svc st2 = ?\<sigma>g" "clock st2 = clock st" "clock_pos st2 = clock_pos st"
    using cgr cg sv1 by (auto simp: createLogGroup_def run_simps)
  have mg: "map_of (groups ?\<sigma>g) g = Some ?grp" using None by (simp add: map_add_def)
  from create_stream_ok [OF mg _ assms(2)] so_g obtain \<sigma>' where
    cs: "create_stream g name ?\<sigma>g = (Inr (PyDict [meta_200]), \<sigma>')"
        "stream_of \<sigma>' = (stream_of (svc st))(g := (stream_of (svc st) g)(name :=
           Some \<lparr>stored = [], seq_no = 0\<rparr>))"
        "now_ms \<sigma>' = now_ms (svc st)"
    by auto
  obtain r st3 where cl: "createLogStream cwl_call g name st2 = (r, st3)" by fastforce
  from createLogStream_apply [OF cl] cs(1) st2(1) have "r = Inr name"
    by (simp add: stream_outcome_ok)
  moreover have "svc st3 = \<sigma>'" "clock st3 = clock st" "clock_pos st3 = clock_pos st"
    using cl cs(1) st2 by (auto simp: createLogStream_def run_simps split: sum.splits)
  ultimately show ?thesis using ie cgr \<open>u = Inr ()\<close> cl cs
    by (simp add: ensure_stream_def run_simps)
qed

lemma valid_stream_name_nonce:
  assumes "CHR '':'' \<notin> set p" "CHR ''*'' \<notin> set p" "length p \<le> 503"
    and "length nonce = 8" "set nonce \<subseteq> set ''ABCDEFGHIJKLMNOPQRSTUVWXYZ0123456789''"
  shows "valid_stream_name (p @ ''-'' @ nonce)"
proof -
  have "CHR '':'' \<notin> set nonce" "CHR ''*'' \<notin> set nonce" using assms(5) by auto
  with assms show ?thesis by (simp add: valid_stream_name_def)
qed

lemma lambda_handler_delivers_store:
  assumes msg: "event_message event = Inr (PyStr doc)" and doc: "json_loads doc = Inr (PyList ms)"
    and ne: "ms \<noteq> []" and rnd: "random_contract st"
    and gv: "valid_group_name (config_str (environ st) ''CloudWatchLogGroupName'')"
    and pv: "CHR '':'' \<notin> set (config_str (environ st) ''CloudWatchLogStreamNamePrefix'')"
            "CHR ''*'' \<notin> set (config_str (environ st) ''CloudWatchLogStreamNamePrefix'')"
            "length (config_str (environ st) ''CloudWatchLogStreamNamePrefix'') \<le> 503"
    and acc: "list_ex (\<lambda>n. str_contains n (config_str (environ st) ''CloudWatchLogGroupName''))
                (take page_size (sort (map fst (groups (svc st))))) \<longleftrightarrow>
              map_of (groups (svc st)) (config_str (environ st) ''CloudWatchLogGroupName'') \<noteq> None"
    and fresh: "\<forall>x. stream_of (svc st) (config_str (environ st) ''CloudWatchLogGroupName'')
                   (config_str (environ st) ''CloudWatchLogStreamNamePrefix'' @ ''-'' @ x) = None"
    and win: "window_ok st (now_ms (svc st)) (length ms)"
  shows "\<exists>st' nonce. lambda_handler cwl_call event st = (Inr PyNone, st') \<and> length nonce = 8 \<and>
           stream_of (svc st') =
             (stream_of (svc st))(config_str (environ st) ''CloudWatchLogGroupName'' :=
               (stream_of (svc st) (config_str (environ st) ''CloudWatchLogGroupName''))
                 (config_str (environ st) ''CloudWatchLogStreamNamePrefix'' @ ''-'' @ nonce :=
                   Some \<lparr>stored = map (\<lambda>i. \<lparr>timestamp = epoch_ms (clock st (clock_pos st + i)),
                                            message = py_str (ms ! i)\<rparr>) [0..<length ms],
                         seq_no = length ms\<rparr>))"
proof -
  let ?g = "config_str (environ st) ''CloudWatchLogGroupName''"
  let ?p = "config_str (environ st) ''CloudWatchLogStreamNamePrefix''"
  from msg doc have ld: "bindS (event_message event) json_loads_value = Inr (PyList ms)"
    by (simp add: json_loads_value_def)
  from lambda_handler_unfold [OF rnd ld] obtain nonce where
    n: "length nonce = 8" "set nonce \<subseteq> set ''ABCDEFGHIJKLMNOPQRSTUVWXYZ0123456789''"
    and eq: "lambda_handler cwl_call event st =
               forward_events cwl_call ?g (?p @ ''-'' @ nonce) (PyList ms) (st\<lparr>rand_pos := rand_pos st + 8\<rparr>)"
    by blast
  let ?st0 = "st\<lparr>rand_pos := rand_pos st + 8\<rparr>"
  have sv: "valid_stream_name (?p @ ''-'' @ nonce)"
    using valid_stream_name_nonce [OF pv n] .
  from ensure_stream_cwl [OF gv sv, of ?st0] acc fresh obtain st1 where
    es: "ensure_stream cwl_call ?g (?p @ ''-'' @ nonce) ?st0 = (Inr (?p @ ''-'' @ nonce), st1)"
    and so: "stream_of (svc st1) = (stream_of (svc st))(?g := (stream_of (svc st) ?g)(?p @ ''-'' @ nonce :=
               Some \<lparr>stored = [], seq_no = 0\<rparr>))"
    and fr: "now_ms (svc st1) = now_ms (svc st)" "clock st1 = clock st" "clock_pos st1 = clock_pos st"
    by auto
  let ?st2 = "st1\<lparr>stdout := stdout st1 @ [?g @ '' - '' @ (?p @ ''-'' @ nonce)]\<rparr>"
  have tk: "tok_arg PyNone = expected_token \<lparr>stored = [], seq_no = 0\<rparr>"
    by (simp add: tok_arg_def expected_token_def)
  have w2: "window_ok ?st2 (now_ms (svc ?st2)) (length ms)"
    using win fr by (simp add: window_ok_def)
  have so1: "stream_of (svc ?st2) ?g (?p @ ''-'' @ nonce) = Some \<lparr>stored = [], seq_no = 0\<rparr>"
    using so by simp
  from send_messages_delivers [OF so1 sv tk w2] obtain st' where
    sm: "send_messages cwl_call ?g (?p @ ''-'' @ nonce) ms PyNone ?st2 = (Inr PyNone, st')"
    and out: "stream_of (svc st') = (stream_of (svc ?st2))(?g := (stream_of (svc ?st2) ?g)(?p @ ''-'' @ nonce :=
       Some (\<lparr>stored = [], seq_no = 0\<rparr>\<lparr>stored := stored \<lparr>stored = [], seq_no = 0\<rparr> @
          map (\<lambda>i. \<lparr>timestamp = epoch_ms (clock ?st2 (clock_pos ?st2 + i)),
                     message = py_str (ms ! i)\<rparr>) [0..<length ms],
          seq_no := seq_no \<lparr>stored = [], seq_no = 0\<rparr> + length ms\<rparr>)))"
    by blast
  have "lambda_handler cwl_call event st = (Inr PyNone, st')"
    using eq es sm ne by (simp add: forward_events_def run_simps)
  moreover have "stream_of (svc st') =
      (stream_of (svc st))(?g := (stream_of (svc st) ?g)(?p @ ''-'' @ nonce :=
         Some \<lparr>stored = map (\<lambda>i. \<lparr>timestamp = epoch_ms (clock st (clock_pos st + i)),
                                  message = py_str (ms ! i)\<rparr>) [0..<length ms],
               seq_no = length ms\<rparr>))"
    using out so fr by (simp add: fun_eq_iff)
  ultimately show ?thesis using n(1) by blast
qed


text \<open>C1. End to end: for a non-empty JSON array, a valid configuration, a first page of
  \<open>describe_log_groups\<close> that tells truly whether the group exists, a stream prefix
  not in use and clock readings inside the service's window, the handler returns
  \<open>None\<close> and the new stream \<open>prefix-NONCE\<close> holds exactly one event per message, in
  order: \<open>str(message)\<close> with the millisecond timestamp read before its append.\<close>

theorem lambda_handler_delivers:
  assumes msg: "event_message event = Inr (PyStr doc)" and doc: "json_loads doc = Inr (PyList ms)"
    and ne: "ms \<noteq> []" and rnd: "random_contract st"
    and gv: "valid_group_name (config_str (environ st) ''CloudWatchLogGroupName'')"
    and pv: "CHR '':'' \<notin> set (config_str (environ st) ''CloudWatchLogStreamNamePrefix'')"
            "CHR ''*'' \<notin> set (config_str (environ st) ''CloudWatchLogStreamNamePrefix'')"
            "length (config_str (environ st) ''CloudWatchLogStreamNamePrefix'') \<le> 503"
    and acc: "list_ex (\<lambda>n. str_contains n (config_str (environ st) ''CloudWatchLogGroupName''))
                (take page_size (sort (map fst (groups (svc st))))) \<longleftrightarrow>
              map_of (groups (svc st)) (config_str (environ st) ''CloudWatchLogGroupName'') \<noteq> None"
    and fresh: "\<forall>x. stream_of (svc st) (config_str (environ st) ''CloudWatchLogGroupName'')
                   (config_str (environ st) ''CloudWatchLogStreamNamePrefix'' @ ''-'' @ x) = None"
    and win: "window_ok st (now_ms (svc st)) (length ms)"
  shows "\<exists>st' nonce. lambda_handler cwl_call event st = (Inr PyNone, st') \<and> length nonce = 8 \<and>
           map_option stored (stream_of (svc st') (config_str (environ st) ''CloudWatchLogGroupName'')
              (config_str (environ st) ''CloudWatchLogStreamNamePrefix'' @ ''-'' @ nonce)) =
           Some (map (\<lambda>i. \<lparr>timestamp = epoch_ms (clock st (clock_pos st + i)),
                           message = py_str (ms ! i)\<rparr>) [0..<length ms])"
  using lambda_handler_delivers_store [OF assms] by fastforce

text \<open>C15. Refinement: under the hypotheses of C1, the handler implements the abstract
  operation \<open>deliver_batch\<close> on the store of the service: the stream it writes to did
  not exist before, afterwards it holds the batch, and every other stream of every group
  is unchanged.\<close>

theorem lambda_handler_refines_deliver:
  assumes msg: "event_message event = Inr (PyStr doc)" and doc: "json_loads doc = Inr (PyList ms)"
    and ne: "ms \<noteq> []" and rnd: "random_contract st"
    and gv: "valid_group_name (config_str (environ st) ''CloudWatchLogGroupName'')"
    and pv: "CHR '':'' \<notin> set (config_str (environ st) ''CloudWatchLogStreamNamePrefix'')"
            "CHR ''*'' \<notin> set (config_str (environ st) ''CloudWatchLogStreamNamePrefix'')"
            "length (config_str (environ st) ''CloudWatchLogStreamNamePrefix'') \<le> 503"
    and acc: "list_ex (\<lambda>n. str_contains n (config_str (environ st) ''CloudWatchLogGroupName''))
                (take page_size (sort (map fst (groups (svc st))))) \<longleftrightarrow>
              map_of (groups (svc st)) (config_str (environ st) ''CloudWatchLogGroupName'') \<noteq> None"
    and fresh: "\<forall>x. stream_of (svc st) (config_str (environ st) ''CloudWatchLogGroupName'')
                   (config_str (environ st) ''CloudWatchLogStreamNamePrefix'' @ ''-'' @ x) = None"
    and win: "window_ok st (now_ms (svc st)) (length ms)"
  shows "\<exists>st' nonce. lambda_handler cwl_call event st = (Inr PyNone, st') \<and>
           stream_store (svc st) (config_str (environ st) ''CloudWatchLogGroupName'')
             (config_str (environ st) ''CloudWatchLogStreamNamePrefix'' @ ''-'' @ nonce) = None \<and>
           stream_store (svc st') =
             deliver_batch (stream_store (svc st)) (config_str (environ st) ''CloudWatchLogGroupName'')
               (config_str (environ st) ''CloudWatchLogStreamNamePrefix'' @ ''-'' @ nonce)
               (map (\<lambda>i. \<lparr>timestamp = epoch_ms (clock st (clock_pos st + i)),
                          message = py_str (ms ! i)\<rparr>) [0..<length ms])"
proof -
  from lambda_handler_delivers_store [OF assms] obtain st' nonce where
    run: "lambda_handler cwl_call event st = (Inr PyNone, st')" and
    so: "stream_of (svc st') =
             (stream_of (svc st))(config_str (environ st) ''CloudWatchLogGroupName'' :=
               (stream_of (svc st) (config_str (environ st) ''CloudWatchLogGroupName''))
                 (config_str (environ st) ''CloudWatchLogStreamNamePrefix'' @ ''-'' @ nonce :=
                   Some \<lparr>stored = map (\<lambda>i. \<lparr>timestamp = epoch_ms (clock st (clock_pos st + i)),
                                            message = py_str (ms ! i)\<rparr>) [0..<length ms],
                         seq_no = length ms\<rparr>))"
    by blast
  moreover have "stream_store (svc st) (config_str (environ st) ''CloudWatchLogGroupName'')
             (config_str (environ st) ''CloudWatchLogStreamNamePrefix'' @ ''-'' @ nonce) = None"
    using fresh by (simp add: stream_store_def)
  moreover have "stream_store (svc st') =
             deliver_batch (stream_store (svc st)) (config_str (environ st) ''CloudWatchLogGroupName'')
               (config_str (environ st) ''CloudWatchLogStreamNamePrefix'' @ ''-'' @ nonce)
               (map (\<lambda>i. \<lparr>timestamp = epoch_ms (clock st (clock_pos st + i)),
                          message = py_str (ms ! i)\<rparr>) [0..<length ms])"
    using so by (simp add: stream_store_def deliver_batch_def fun_eq_iff)
  ultimately show ?thesis by blast
qed

lemma messages_of_strs:
  "map message (map (\<lambda>i. \<lparr>timestamp = t i, message = py_str (map PyStr ss ! i)\<rparr>) [0..<length (map PyStr ss)]) = ss"
  by (simp add: comp_def map_upt_eqI)

text \<open>C18. Round trip through the system: when the SNS message is a JSON array of
  strings that need no escape (as \<open>json.dumps\<close> of a list of such strings writes it),
  under the hypotheses of C1, the new stream holds exactly those strings as its
  messages, in order.\<close>

theorem lambda_handler_stores_strings:
  assumes msg: "event_message event =
      Inr (PyStr (CHR ''['' # join_str '', '' (map (\<lambda>s. CHR 0x22 # s @ [CHR 0x22]) ss) @ '']''))"
    and plain: "list_all (list_all plain_char) ss" and ne: "ss \<noteq> []" and rnd: "random_contract st"
    and gv: "valid_group_name (config_str (environ st) ''CloudWatchLogGroupName'')"
    and pv: "CHR '':'' \<notin> set (config_str (environ st) ''CloudWatchLogStreamNamePrefix'')"
            "CHR ''*'' \<notin> set (config_str (environ st) ''CloudWatchLogStreamNamePrefix'')"
            "length (config_str (environ st) ''CloudWatchLogStreamNamePrefix'') \<le> 503"
    and acc: "list_ex (\<lambda>n. str_contains n (config_str (environ st) ''CloudWatchLogGroupName''))
                (take page_size (sort (map fst (groups (svc st))))) \<longleftrightarrow>
              map_of (groups (svc st)) (config_str (environ st) ''CloudWatchLogGroupName'') \<noteq> None"
    and fresh: "\<forall>x. stream_of (svc st) (config_str (environ st) ''CloudWatchLogGroupName'')
                   (config_str (environ st) ''CloudWatchLogStreamNamePrefix'' @ ''-'' @ x) = None"
    and win: "window_ok st (now_ms (svc st)) (length ss)"
  shows "\<exists>st' nonce. lambda_handler cwl_call event st = (Inr PyNone, st') \<and>
           map_option (map message \<circ> stored)
             (stream_of (svc st') (config_str (environ st) ''CloudWatchLogGroupName'')
                (config_str (environ st) ''CloudWatchLogStreamNamePrefix'' @ ''-'' @ nonce)) = Some ss"
proof -
  have doc: "json_loads (CHR ''['' # join_str '', '' (map (\<lambda>s. CHR 0x22 # s @ [CHR 0x22]) ss) @ '']'') =
      Inr (PyList (map PyStr ss))"
    using plain by (rule json_loads_str_list)
  have ne': "map PyStr ss \<noteq> []" using ne by simp
  have win': "window_ok st (now_ms (svc st)) (length (map PyStr ss))" using win by simp
  from lambda_handler_delivers_store [OF msg doc ne' rnd gv pv acc fresh win'] obtain st' nonce where
    run: "lambda_handler cwl_call event st = (Inr PyNone, st')" and
    so: "stream_of (svc st') =
             (stream_of (svc st))(config_str (environ st) ''CloudWatchLogGroupName'' :=
               (stream_of (svc st) (config_str (environ st) ''CloudWatchLogGroupName''))
                 (config_str (environ st) ''CloudWatchLogStreamNamePrefix'' @ ''-'' @ nonce :=
                   Some \<lparr>stored = map (\<lambda>i. \<lparr>timestamp = epoch_ms (clock st (clock_pos st + i)),
                                            message = py_str (map PyStr ss ! i)\<rparr>) [0..<length (map PyStr ss)],
                         seq_no = length (map PyStr ss)\<rparr>))"
    by blast
  have "map_option (map message \<circ> stored)
          (stream_of (svc st') (config_str (environ st) ''CloudWatchLogGroupName'')
             (config_str (environ st) ''CloudWatchLogStreamNamePrefix'' @ ''-'' @ nonce)) = Some ss"
    using messages_of_strs [of "\<lambda>i. epoch_ms (clock st (clock_pos st + i))" ss] by (simp add: so)
  with run show ?thesis by blast
qed

lemma forward_events_setup_fails:
  assumes "ensure_stream cw g name st = (Inl e, st1)" "ms \<noteq> []"
  shows "forward_events cw g name (PyList ms) st = (Inl e, st1)"
  using assms by (simp add: forward_events_def)

text \<open>C8. The group check is a substring test (\<open>logGroupName in logGroup["logGroupName"]\<close>):
  when the configured group does not exist but the first page of \<open>describe_log_groups\<close>
  lists a group whose name contains it, the handler skips \<open>create_log_group\<close>,
  \<open>create_log_stream\<close> then fails with \<open>ResourceNotFoundException\<close>, and nothing is
  appended.\<close>

theorem lambda_handler_substring_false_positive:
  assumes msg: "event_message event = Inr (PyStr doc)" and doc: "json_loads doc = Inr (PyList ms)"
    and ne: "ms \<noteq> []" and rnd: "random_contract st"
    and pv: "CHR '':'' \<notin> set (config_str (environ st) ''CloudWatchLogStreamNamePrefix'')"
            "CHR ''*'' \<notin> set (config_str (environ st) ''CloudWatchLogStreamNamePrefix'')"
            "length (config_str (environ st) ''CloudWatchLogStreamNamePrefix'') \<le> 503"
    and absent: "map_of (groups (svc st)) (config_str (environ st) ''CloudWatchLogGroupName'') = None"
    and similar: "list_ex (\<lambda>n. str_contains n (config_str (environ st) ''CloudWatchLogGroupName''))
                    (take page_size (sort (map fst (groups (svc st)))))"
  shows "\<exists>st' nonce. lambda_handler cwl_call event st =
           (Inl (ClientError ''ResourceNotFoundException'' ''CreateLogStream''), st') \<and>
         map fst (calls st') = map fst (calls st) @
           [DescribeLogGroups,
            CreateLogStream (config_str (environ st) ''CloudWatchLogGroupName'')
              (config_str (environ st) ''CloudWatchLogStreamNamePrefix'' @ ''-'' @ nonce)]"
proof -
  let ?g = "config_str (environ st) ''CloudWatchLogGroupName''"
  let ?p = "config_str (environ st) ''CloudWatchLogStreamNamePrefix''"
  from msg doc have ld: "bindS (event_message event) json_loads_value = Inr (PyList ms)"
    by (simp add: json_loads_value_def)
  from lambda_handler_unfold [OF rnd ld] obtain nonce where
    n: "length nonce = 8" "set nonce \<subseteq> set ''ABCDEFGHIJKLMNOPQRSTUVWXYZ0123456789''"
    and eq: "lambda_handler cwl_call event st =
               forward_events cwl_call ?g (?p @ ''-'' @ nonce) (PyList ms) (st\<lparr>rand_pos := rand_pos st + 8\<rparr>)"
    by blast
  let ?st0 = "st\<lparr>rand_pos := rand_pos st + 8\<rparr>"
  have sv: "valid_stream_name (?p @ ''-'' @ nonce)"
    using valid_stream_name_nonce [OF pv n] .
  have eo: "exists_outcome ?g (fst (describe_groups (svc ?st0))) = Inr True"
    using similar by (simp add: exists_outcome_describe)
  let ?st1 = "?st0\<lparr>svc := snd (describe_groups (svc ?st0)),
                 calls := calls ?st0 @ [(DescribeLogGroups, fst (describe_groups (svc ?st0)))]\<rparr>"
  have ie: "ifLogGroupExists cwl_call ?g ?st0 = (Inr True, ?st1)"
    using eo by (simp add: ifLogGroupExists_apply)
  have cs: "create_stream ?g (?p @ ''-'' @ nonce) (svc ?st1) =
              (Inl (ClientError ''ResourceNotFoundException'' ''CreateLogStream''), svc ?st1)"
    using sv absent by (simp add: create_stream_def aws_error_def describe_groups_def Let_def)
  obtain r st2 where cl: "createLogStream cwl_call ?g (?p @ ''-'' @ nonce) ?st1 = (r, st2)" by fastforce
  from createLogStream_apply [OF cl] cs have
    r: "r = Inl (ClientError ''ResourceNotFoundException'' ''CreateLogStream'')"
    and c2: "calls st2 = calls ?st1 @ [(CreateLogStream ?g (?p @ ''-'' @ nonce),
                                Inl (ClientError ''ResourceNotFoundException'' ''CreateLogStream''))]"
    by (simp_all add: stream_outcome_def)
  have "ensure_stream cwl_call ?g (?p @ ''-'' @ nonce) ?st0 = (r, st2)"
    using ie cl by (simp add: ensure_stream_def run_simps)
  with r eq forward_events_setup_fails [OF _ ne] have
    "lambda_handler cwl_call event st = (Inl (ClientError ''ResourceNotFoundException'' ''CreateLogStream''), st2)"
    by simp
  with c2 show ?thesis by (intro exI [of _ st2] exI [of _ nonce]) simp
qed

text \<open>C9. The group check reads only the first page of \<open>describe_log_groups\<close>
  (no \<open>nextToken\<close> loop): when the configured group exists but does not appear on
  that page (nor any name containing it), the handler calls \<open>create_log_group\<close>,
  which fails with \<open>ResourceAlreadyExistsException\<close>, and nothing is appended.\<close>

theorem lambda_handler_group_beyond_first_page:
  assumes msg: "event_message event = Inr (PyStr doc)" and doc: "json_loads doc = Inr (PyList ms)"
    and ne: "ms \<noteq> []" and rnd: "random_contract st"
    and gv: "valid_group_name (config_str (environ st) ''CloudWatchLogGroupName'')"
    and present: "map_of (groups (svc st)) (config_str (environ st) ''CloudWatchLogGroupName'') \<noteq> None"
    and unseen: "\<not> list_ex (\<lambda>n. str_contains n (config_str (environ st) ''CloudWatchLogGroupName''))
                    (take page_size (sort (map fst (groups (svc st)))))"
  shows "\<exists>st'. lambda_handler cwl_call event st =
           (Inl (ClientError ''ResourceAlreadyExistsException'' ''CreateLogGroup''), st') \<and>
         map fst (calls st') = map fst (calls st) @
           [DescribeLogGroups,
            CreateLogGroup (config_str (environ st) ''CloudWatchLogGroupName'')
              (group_tags (config_str (environ st) ''CloudWatchLogGroupName''))]"
proof -
  let ?g = "config_str (environ st) ''CloudWatchLogGroupName''"
  let ?p = "config_str (environ st) ''CloudWatchLogStreamNamePrefix''"
  from msg doc have ld: "bindS (event_message event) json_loads_value = Inr (PyList ms)"
    by (simp add: json_loads_value_def)
  from lambda_handler_unfold [OF rnd ld] obtain nonce where
    eq: "lambda_handler cwl_call event st =
               forward_events cwl_call ?g (?p @ ''-'' @ nonce) (PyList ms) (st\<lparr>rand_pos := rand_pos st + 8\<rparr>)"
    by blast
  let ?st0 = "st\<lparr>rand_pos := rand_pos st + 8\<rparr>"
  have eo: "exists_outcome ?g (fst (describe_groups (svc ?st0))) = Inr False"
    using unseen by (simp add: exists_outcome_describe)
  let ?st1 = "?st0\<lparr>svc := snd (describe_groups (svc ?st0)),
                 calls := calls ?st0 @ [(DescribeLogGroups, fst (describe_groups (svc ?st0)))]\<rparr>"
  have ie: "ifLogGroupExists cwl_call ?g ?st0 = (Inr False, ?st1)"
    using eo by (simp add: ifLogGroupExists_apply)
  have cg: "create_group ?g (group_tags ?g) (svc ?st1) =
              (Inl (ClientError ''ResourceAlreadyExistsException'' ''CreateLogGroup''), svc ?st1)"
    using gv present by (simp add: create_group_def aws_error_def describe_groups_def Let_def)
  obtain u st2 where cgr: "createLogGroup cwl_call ?g ?st1 = (u, st2)" by fastforce
  from createLogGroup_calls [OF cgr] cg have
    u: "u = Inl (ClientError ''ResourceAlreadyExistsException'' ''CreateLogGroup'')"
    and c2: "calls st2 = calls ?st1 @ [(CreateLogGroup ?g (group_tags ?g),
                                Inl (ClientError ''ResourceAlreadyExistsException'' ''CreateLogGroup''))]"
    by simp_all
  from u have "ensure_stream cwl_call ?g (?p @ ''-'' @ nonce) ?st0 =
      (Inl (ClientError ''ResourceAlreadyExistsException'' ''CreateLogGroup''), st2)"
    using ie cgr by (simp add: ensure_stream_def run_simps)
  with eq forward_events_setup_fails [OF _ ne] have
    "lambda_handler cwl_call event st = (Inl (ClientError ''ResourceAlreadyExistsException'' ''CreateLogGroup''), st2)"
    by simp
  with c2 show ?thesis by (intro exI [of _ st2]) simp
qed


end
