(* ===== verification/Steps.thy ===== *)
theory Steps
  imports Forwarder
begin

text \<open>
  The append loop of \<open>lambda_handler\<close> (lines 92 to 103 of
  src/push-sns-messages-to-cloudwatch-logs.py) as a small-step machine, in the style of
  the small-step semantics of IMP: a state is the loop's control point
  (\<open>loop_phase\<close>: still iterating, returned a value, or raised), the messages not
  yet sent, the token in \<open>nextSequenceToken\<close> and the runtime. \<open>loop_step\<close> is one
  iteration: read the clock, call \<open>putLogEvents\<close> (\<open>put_step\<close>), then raise, return
  \<open>False\<close> or go round again with the new token; the exhausted loop falls through to
  the implicit \<open>return None\<close>. The lemmas show that the machine is deterministic,
  that every step preserves the value the function \<open>send_messages\<close> gives the state,
  that every run reaches a final state within one step per message plus one
  (liveness), that the final state it reaches is the function's result, and an
  invariant of every reachable state proved by rule induction: the calls made so far
  are one \<open>PutLogEvents\<close> per consumed message, stamped with successive clock readings
  (C21). Last, what the loop prints (\<open>put_prints\<close>): one line per call that returned
  (C22).
\<close>

section \<open>The loop as a step relation\<close>

text \<open>Where the loop is: inside the \<open>for\<close>, after \<open>return False\<close>, or after an
  exception escaped \<open>putLogEvents\<close>.\<close>

datatype loop_phase = Sending | Returned pyval | Raised py_exc

type_synonym 's loop_state = "loop_phase \<times> pyval list \<times> pyval \<times> 's rt"

text \<open>One iteration of \<open>for message in logEvents\<close>.\<close>

inductive loop_step :: "'s client \<Rightarrow> string \<Rightarrow> string \<Rightarrow> 's loop_state \<Rightarrow> 's loop_state \<Rightarrow> bool"
  for cw g s where
  ls_done: "loop_step cw g s (Sending, [], tok, st) (Returned PyNone, [], tok, st)"
| ls_raised: "put_step cw g s m tok st = (req, r, st1) \<Longrightarrow> put_outcome r = Inl e \<Longrightarrow>
     loop_step cw g s (Sending, m # ms, tok, st) (Raised e, ms, tok, st1)"
| ls_rejected: "put_step cw g s m tok st = (req, r, st1) \<Longrightarrow> put_outcome r = Inr PyNone \<Longrightarrow>
     loop_step cw g s (Sending, m # ms, tok, st) (Returned (PyBool False), ms, tok, st1)"
| ls_accepted: "put_step cw g s m tok st = (req, r, st1) \<Longrightarrow> put_outcome r = Inr tok' \<Longrightarrow> tok' \<noteq> PyNone \<Longrightarrow>
     loop_step cw g s (Sending, m # ms, tok, st) (Sending, ms, tok', st1)"

code_pred loop_step .

text \<open>The value a final state hands back to the handler.\<close>

fun loop_result :: "'s loop_state \<Rightarrow> ((py_exc + pyval) \<times> 's rt) option" where
  "loop_result (Returned v, _, _, st) = Some (Inr v, st)"
| "loop_result (Raised e, _, _, st) = Some (Inl e, st)"
| "loop_result (Sending, _, _, _) = None"

text \<open>The value the function model \<open>send_messages\<close> assigns to a state.\<close>

fun loop_value :: "'s client \<Rightarrow> string \<Rightarrow> string \<Rightarrow> 's loop_state \<Rightarrow> (py_exc + pyval) \<times> 's rt" where
  "loop_value cw g s (Sending, ms, tok, st) = send_messages cw g s ms tok st"
| "loop_value cw g s (Returned v, _, _, st) = (Inr v, st)"
| "loop_value cw g s (Raised e, _, _, st) = (Inl e, st)"

text \<open>The lines \<open>putLogEvents\<close> prints for a sequence of its exchanges: the line of
  line 61 for every call that returned a response, none for a call that raised.\<close>

fun put_prints :: "exchange list \<Rightarrow> string list" where
  "put_prints [] = []"
| "put_prints ((_, Inl _) # tr) = put_prints tr"
| "put_prints ((_, Inr resp) # tr) = (''putLogEventsResponse - '' @ py_str resp) # put_prints tr"

section \<open>Lemmas: the machine and the function\<close>

inductive_cases loop_step_SendingE: "loop_step cw g s (Sending, ms, tok, st) t"
inductive_cases loop_step_ReturnedE [elim!]: "loop_step cw g s (Returned v, ms, tok, st) t"
inductive_cases loop_step_RaisedE [elim!]: "loop_step cw g s (Raised e, ms, tok, st) t"

lemma loop_step_deterministic: "loop_step cw g s x y \<Longrightarrow> loop_step cw g s x z \<Longrightarrow> z = y"
  by (induction rule: loop_step.induct) (auto elim: loop_step_SendingE)

lemma loop_final_no_step: "loop_result x \<noteq> None \<Longrightarrow> \<not> loop_step cw g s x y"
  by (cases x rule: loop_result.cases) auto

lemma send_messages_put_step:
  assumes "put_step cw g s m tok st = (req, r, st1)"
  shows "send_messages cw g s (m # ms) tok st =
           (case put_outcome r of Inl e \<Rightarrow> (Inl e, st1)
            | Inr t \<Rightarrow> if t = PyNone then (Inr (PyBool False), st1) else send_messages cw g s ms t st1)"
proof -
  obtain res st' where eq: "send_messages cw g s (m # ms) tok st = (res, st')" by fastforce
  show ?thesis using send_messages_Cons_step [OF eq assms] eq by (auto split: sum.splits if_splits)
qed

lemma loop_step_value: "loop_step cw g s x y \<Longrightarrow> loop_value cw g s y = loop_value cw g s x"
  by (induction rule: loop_step.induct) (simp_all add: send_messages_put_step run_simps del: send_messages.simps(2))

lemma loop_steps_value:
  "(loop_step cw g s)\<^sup>*\<^sup>* x y \<Longrightarrow> loop_value cw g s y = loop_value cw g s x"
  by (induction rule: rtranclp_induct) (auto dest: loop_step_value)

lemma loop_result_value: "loop_result x \<noteq> None \<Longrightarrow> loop_result x = Some (loop_value cw g s x)"
  by (cases x rule: loop_result.cases) auto

lemma loop_step_progress:
  "\<exists>y. loop_step cw g s (Sending, ms, tok, st) y \<and> (loop_result y \<noteq> None \<or> (\<exists>tok' st'. y = (Sending, tl ms, tok', st')))"
proof (cases ms)
  case Nil
  then show ?thesis using ls_done by fastforce
next
  case (Cons m ms')
  obtain req r st1 where step: "put_step cw g s m tok st = (req, r, st1)" by (cases "put_step cw g s m tok st") auto
  show ?thesis
  proof (cases "put_outcome r")
    case (Inl e) then show ?thesis using Cons ls_raised [OF step] by fastforce
  next
    case (Inr t)
    then show ?thesis using Cons ls_rejected [OF step] ls_accepted [OF step] by (cases "t = PyNone") fastforce+
  qed
qed

lemma loop_terminates:
  "\<exists>n t. n \<le> Suc (length ms) \<and> (loop_step cw g s ^^ n) (Sending, ms, tok, st) t \<and> loop_result t \<noteq> None"
proof (induction ms arbitrary: tok st)
  case Nil
  have "(loop_step cw g s ^^ 1) (Sending, [], tok, st) (Returned PyNone, [], tok, st)"
    unfolding relpowp_1 by (rule ls_done)
  moreover have "(1::nat) \<le> Suc (length ([] :: pyval list))" by simp
  moreover have "loop_result (Returned PyNone, [], tok, st) \<noteq> None" by simp
  ultimately show ?case by blast
next
  case (Cons m ms)
  obtain y where y: "loop_step cw g s (Sending, m # ms, tok, st) y"
    and cases: "loop_result y \<noteq> None \<or> (\<exists>tok' st'. y = (Sending, ms, tok', st'))"
    using loop_step_progress [of cw g s "m # ms" tok st] by auto
  from cases show ?case
  proof
    assume "loop_result y \<noteq> None"
    moreover have "(loop_step cw g s ^^ 1) (Sending, m # ms, tok, st) y" using y unfolding relpowp_1 .
    moreover have "(1::nat) \<le> Suc (length (m # ms))" by simp
    ultimately show ?thesis by blast
  next
    assume "\<exists>tok' st'. y = (Sending, ms, tok', st')"
    then obtain tok' st' where "y = (Sending, ms, tok', st')" by blast
    with Cons.IH [of tok' st'] obtain n t where "n \<le> Suc (length ms)"
      "(loop_step cw g s ^^ n) y t" "loop_result t \<noteq> None" by blast
    moreover have "(loop_step cw g s ^^ Suc n) (Sending, m # ms, tok, st) t"
      using y \<open>(loop_step cw g s ^^ n) y t\<close> by (rule relpowp_Suc_I2)
    moreover have "Suc n \<le> Suc (length (m # ms))" using \<open>n \<le> Suc (length ms)\<close> by simp
    ultimately show ?thesis using \<open>loop_result t \<noteq> None\<close> by blast
  qed
qed

text \<open>Every run of the machine reaches a final state within one step per message
  plus one, and that state carries the result of \<open>send_messages\<close>: the machine and
  the function are two models of the same loop.\<close>

lemma loop_eventually_returns:
  "\<exists>n t. n \<le> Suc (length ms) \<and> (loop_step cw g s ^^ n) (Sending, ms, tok, st) t \<and>
         loop_result t = Some (send_messages cw g s ms tok st)"
proof -
  obtain n t where n: "n \<le> Suc (length ms)" and run: "(loop_step cw g s ^^ n) (Sending, ms, tok, st) t"
    and fin: "loop_result t \<noteq> None" using loop_terminates by blast
  have "loop_value cw g s t = send_messages cw g s ms tok st"
    using loop_steps_value [OF relpowp_imp_rtranclp [OF run]] by simp
  then have "loop_result t = Some (send_messages cw g s ms tok st)"
    using loop_result_value [OF fin, of cw g s] by simp
  then show ?thesis using n run by blast
qed

text \<open>Every final state reachable from the start carries the result and runtime of
  \<open>send_messages\<close>.\<close>

lemma loop_final_agrees:
  assumes "(loop_step cw g s)\<^sup>*\<^sup>* (Sending, ms, tok, st) t" and "loop_result t = Some r"
  shows "r = send_messages cw g s ms tok st"
  using loop_steps_value [OF assms(1)] loop_result_value [of t cw g s] assms(2) by simp

text \<open>A step starts inside the loop and either leaves the exhausted loop unchanged or
  consumes the first message with one call.\<close>

lemma loop_step_shape:
  "loop_step cw g s (p, ms, tk, st) (p', ms', tk', st') \<Longrightarrow>
   p = Sending \<and> (ms = [] \<and> ms' = [] \<and> st' = st \<or> (\<exists>m req r. ms = m # ms' \<and> put_step cw g s m tk st = (req, r, st')))"
  by (cases rule: loop_step.cases) auto

text \<open>C21. Invariant of every reachable state, by rule induction on the steps: the
  messages consumed so far are a prefix of the batch, and the calls made since the
  start are one \<open>PutLogEvents\<close> to the handler's group and stream per consumed
  message, the \<open>i\<close>-th carrying that message and the \<open>i\<close>-th clock reading since
  the start.\<close>

theorem loop_reachable_calls:
  assumes "(loop_step cw g s)\<^sup>*\<^sup>* (Sending, ms, tok, st) (p, rest, tok', st')"
  shows "\<exists>pre tr. ms = pre @ rest \<and> calls st' = calls st @ tr \<and> length tr = length pre \<and>
           clock_pos st' = clock_pos st + length pre \<and> clock st' = clock st \<and>
           (\<forall>i < length tr. \<exists>tk. fst (tr ! i) =
              PutLogEvents g s [\<lparr>timestamp = epoch_ms (clock st (clock_pos st + i)), message = py_str (pre ! i)\<rparr>] tk)"
  using assms
proof (induction "(p, rest, tok', st')" arbitrary: p rest tok' st' rule: rtranclp_induct)
  case base
  then show ?case by auto
next
  case (step y p rest tok' st')
  obtain p1 rest1 tk1 st1 where y: "y = (p1, rest1, tk1, st1)" by (cases y)
  from step(3) [OF y] obtain pre tr where
    inv: "ms = pre @ rest1" "calls st1 = calls st @ tr" "length tr = length pre"
         "clock_pos st1 = clock_pos st + length pre" "clock st1 = clock st"
    and reqs: "\<forall>i < length tr. \<exists>tk. fst (tr ! i) =
              PutLogEvents g s [\<lparr>timestamp = epoch_ms (clock st (clock_pos st + i)), message = py_str (pre ! i)\<rparr>] tk"
    by blast
  from loop_step_shape [OF step(2) [unfolded y]]
  have "rest1 = [] \<and> rest = [] \<and> st' = st1 \<or> (\<exists>m req r. rest1 = m # rest \<and> put_step cw g s m tk1 st1 = (req, r, st'))"
    by blast
  then show ?case
  proof
    assume "rest1 = [] \<and> rest = [] \<and> st' = st1"
    then show ?thesis using inv reqs by blast
  next
    assume "\<exists>m req r. rest1 = m # rest \<and> put_step cw g s m tk1 st1 = (req, r, st')"
    then obtain m req r where m: "rest1 = m # rest" and ps: "put_step cw g s m tk1 st1 = (req, r, st')" by blast
    note c = put_step_calls [OF ps]
    have "\<forall>i < length (tr @ [(req, r)]). \<exists>tk. fst ((tr @ [(req, r)]) ! i) =
              PutLogEvents g s [\<lparr>timestamp = epoch_ms (clock st (clock_pos st + i)),
                                 message = py_str ((pre @ [m]) ! i)\<rparr>] tk"
      using reqs c inv by (auto simp: nth_append less_Suc_eq)
    moreover have "ms = (pre @ [m]) @ rest" using inv m by simp
    moreover have "calls st' = calls st @ (tr @ [(req, r)])" using inv c by simp
    moreover have "clock_pos st' = clock_pos st + length (pre @ [m])" using inv c by simp
    ultimately show ?thesis using inv c by (intro exI [of _ "pre @ [m]"] exI [of _ "tr @ [(req, r)]"]) simp
  qed
qed


section \<open>Lemmas: what the loop prints\<close>

lemma put_step_prints: "put_step cw g s m tok st = (req, r, st1) \<Longrightarrow>
    calls st1 = calls st @ [(req, r)] \<and> stdout st1 = stdout st @ put_prints [(req, r)]"
  by (auto simp: put_step_def Let_def split: sum.splits)

lemma put_prints_Cons: "put_prints (x # tr) = put_prints [x] @ put_prints tr"
proof (cases x)
  case (Pair q r)
  then show ?thesis by (cases r) simp_all
qed

text \<open>C22. Output of the loop: whatever the client answers, the lines the loop
  prints are exactly one \<open>putLogEventsResponse - \<close> line per call that returned a
  response, with the response's \<open>str\<close>, in the order of the calls; a call that raises
  prints nothing, because the exception leaves \<open>putLogEvents\<close> before its
  \<open>print\<close>.\<close>

theorem send_messages_prints:
  assumes "send_messages cw g s ms tok st = (res, st')"
  shows "\<exists>tr. calls st' = calls st @ tr \<and> stdout st' = stdout st @ put_prints tr"
  using assms
proof (induction ms arbitrary: tok st)
  case Nil
  then show ?case by (simp add: run_simps)
next
  case (Cons m ms)
  obtain req r st1 where step: "put_step cw g s m tok st = (req, r, st1)"
    by (cases "put_step cw g s m tok st") auto
  note one = put_step_prints [OF step]
  note run = Cons.prems [unfolded send_messages_put_step [OF step]]
  show ?case
  proof (cases "\<exists>t. put_outcome r = Inr t \<and> t \<noteq> PyNone")
    case True
    then obtain t where "put_outcome r = Inr t" "t \<noteq> PyNone" by blast
    with run have "send_messages cw g s ms t st1 = (res, st')" by simp
    from Cons.IH [OF this] obtain tr where
      "calls st' = calls st1 @ tr" "stdout st' = stdout st1 @ put_prints tr" by blast
    then show ?thesis using one put_prints_Cons [of "(req, r)" tr]
      by (intro exI [of _ "(req, r) # tr"]) simp
  next
    case False
    with run have "st' = st1" by (auto split: sum.splits if_splits)
    then show ?thesis using one by (intro exI [of _ "[(req, r)]"]) simp
  qed
qed

end
