(* ===== verification/Spec2Isabelle.thy ===== *)
theory Spec2Isabelle
  imports Delivery Steps
begin

text \<open>
  \<^bold>\<open>Verification of the SNS-to-CloudWatch-Logs forwarder.\<close>

  The program (\<^verbatim>\<open>src/push-sns-messages-to-cloudwatch-logs.py\<close>) is an AWS
  Lambda handler. On each invocation it reads the log group name and the stream-name
  prefix from the environment, draws an 8-character nonce with \<open>random.choices\<close>,
  decodes the SNS message of the event with \<open>json.loads\<close>, and, when the decoded
  value is non-empty, checks whether the group exists (\<open>ifLogGroupExists\<close>: one
  \<open>describe_log_groups\<close> call and a substring test), creates it if not
  (\<open>createLogGroup\<close>), creates a fresh stream \<open>prefix-NONCE\<close>
  (\<open>createLogStream\<close>) and appends every message as a single-record batch
  (\<open>putLogEvents\<close>), threading the sequence token returned by each append into the
  next and returning \<open>False\<close> at the first rejected append.

  \<^bold>\<open>Theories.\<close>
  \<^item> \<open>Prelude\<close>: the state-and-exception monad (\<open>returnE\<close>, \<open>raiseE\<close>,
    \<open>bindE\<close>, \<open>liftE\<close>, \<open>bindS\<close>) in which Python code that may raise is
    modelled, string helpers (\<open>join_str\<close>, \<open>str_contains\<close>, \<open>dec_nat\<close>), and the
    shared lemmas on the monad and on lists.
  \<^item> \<open>PyValue\<close>: Python values (\<open>pyval\<close>) and exceptions (\<open>py_exc\<close>),
    and the builtins the source applies to them: \<open>str\<close>/\<open>repr\<close> (\<open>py_str\<close>,
    \<open>py_repr\<close>, \<open>float_repr\<close>), truth value, \<open>len\<close>, iteration, subscription,
    \<open>in\<close>, \<open>==\<close>.
  \<^item> \<open>Json\<close>: \<open>json.loads\<close> (CPython's scanner) as a fuel-bounded
    recursive-descent parser \<open>json_loads\<close>; the lemmas that the fuel always
    suffices and that arrays of plain strings are read back.
  \<^item> \<open>Runtime\<close>: the effects of the handler on one record \<open>rt\<close>: environment,
    \<open>random.random\<close>, \<open>time.time\<close>, \<open>print\<close>, and the boto3 client as a parameter
    \<open>cw :: 's client\<close> (request and service state to response and new state); every
    call is recorded with its outcome in \<open>calls\<close>. \<open>stub_client\<close> models
    botocore's \<open>Stubber\<close> (queued responses). The interface \<open>client_keeps\<close> /
    \<open>keeps_svc\<close> says that a client, or a computation, keeps an invariant of the
    service state. Python's \<open>round\<close> rounds to the nearest integer, ties to even.
  \<^item> \<open>Forwarder\<close>: the five functions of the source (\<open>createLogGroup\<close>,
    \<open>ifLogGroupExists\<close> with its loop \<open>scan_groups\<close>, \<open>createLogStream\<close>,
    \<open>putLogEvents\<close>, \<open>lambda_handler\<close> with the blocks \<open>ensure_stream\<close> and
    \<open>forward_events\<close>, its loop \<open>send_messages\<close> and \<open>make_nonce\<close>), the
    contracts \<open>appends\<close> (append loop) and \<open>setup_calls\<close> (stream setup) as
    inductive relations, the refinement lemma \<open>send_messages_appends\<close>, the loop's
    properties C2 to C4, the millisecond timestamp of line 94 (C19), the ordering of
    the timestamps the loop sends (C20) and the nonce's C6.
  \<^item> \<open>Steps\<close>: the same loop (lines 92 to 103) as a small-step machine
    \<open>loop_step\<close> over states (control point \<open>loop_phase\<close>, messages left, token,
    runtime). Supporting lemmas tie it to \<open>send_messages\<close>: every run ends within one
    step per message plus one, in a state carrying the function's result. The claims:
    every reachable state satisfies the call invariant, by rule induction (C21), and
    the loop prints one line per call that returned a response (C22).
  \<^item> \<open>Handler\<close>: the invocation over any client: the call sequence (C5) and its
    consequences for a JSON string message (C10, one append per character), an unset
    group name (C11, every call names the group \<open>"None"\<close>) and a stream creation
    answered with a status other than 200 (C14, appends go to the stream \<open>""\<close>);
    the empty batch (C7), the error paths before any call (C12, C13), the result type
    (C17), the group check against the reference \<open>sublist\<close> (C16), and that the
    handler keeps every service invariant its client keeps.
  \<^item> \<open>CloudWatch\<close>: a reference model of the service (groups and streams as
    association lists, token protocol, name rules, timestamp window, first page of 50
    groups) with the client \<open>cwl_call\<close> and its invariant \<open>wf_cwl\<close>.
  \<^item> \<open>Delivery\<close>: the handler against \<open>cwl_call\<close>: end-to-end delivery (C1) and
    its refinement of the abstract \<open>deliver_batch\<close> (C15), the strings of a JSON
    array stored verbatim (C18), and the defects of the group check (C8 substring
    match, C9 first page only).
  \<^item> this theory: the fixtures (\<open>demo_rt\<close>, stubbed responses, service states) and
    a witness for every claim with hypotheses, each applying the claim to a concrete
    invocation.

  \<^bold>\<open>What is proved.\<close> For every client: the loop appends one single-record batch
  per message in order when it completes (C2), threads the sequence tokens (C3), and
  stops at the first rejected append with result \<open>False\<close> (C4); the handler's calls
  follow the spec's order (C5), also when the message is a JSON string (C10), the
  group name is unset (C11) or the stream creation answers a status other than 200
  (C14); the nonce is 8 characters of \<open>[A-Z0-9]\<close> (C6); an undecodable message or a
  value without length raises before any call (C12, C13); the result is \<open>None\<close> or
  \<open>False\<close> (C17); each timestamp is the millisecond nearest to the clock reading
  (C19), and when the clock is monotone the appended records carry non-decreasing
  timestamps (C20); every state of the loop satisfies the call invariant (C21) and
  the loop prints one line per answered call (C22). Against the reference service:
  end-to-end delivery with a frame condition (C1, C15), the round trip of a JSON array
  of plain strings into the stream's messages (C18), and the two defects of the group
  check (C8, C9).

  \<^bold>\<open>Bounds and fuel.\<close> \<open>json_loads\<close> gives the parser \<open>2 * n + 2\<close> units for a
  document of \<open>n\<close> characters: each value costs one unit and each element or member
  of an array or object one more, and every element after the first is preceded by a
  comma, so the fuel is never exhausted (lemma \<open>json_loads_total\<close>). The witnesses use
  8 random draws and at most three clock readings, which \<open>demo_rt\<close> supplies as total
  functions.

  \<^bold>\<open>Not modelled.\<close> Floating-point rounding (floats keep their decimal value, and
  \<open>time.time() * 1000\<close> and \<open>random() * n\<close> are exact products, which can differ
  from the double result by one unit on rare near-ties; \<open>float_repr\<close> is exact for
  literals of at most 15 significant digits within the double range); the limit of
  4300 digits that CPython 3.11 and later put on integer-string conversion; code
  points above U+00FF (\<open>Unmodelled\<close>); Python's recursion limit on deeply nested
  JSON; the \<open>context\<close> argument; the boto3 client's own retries and its
  module-level construction (\<open>cwlogs = boto3.client('logs')\<close>, modelled as the
  parameter \<open>cw\<close>); printing is kept as the list \<open>stdout\<close> of printed lines;
  deployment (IAM, the SNS subscription) is outside the source.
\<close>

section \<open>Fixtures for the witnesses\<close>

definition ok_resp :: "string \<Rightarrow> py_exc + pyval" where
  "ok_resp t = Inr (PyDict [(''nextSequenceToken'', PyStr t),
      (''ResponseMetadata'', PyDict [(''HTTPStatusCode'', PyInt 200)])])"

definition rej_resp :: "py_exc + pyval" where
  "rej_resp = Inr (PyDict [(''rejectedLogEventsInfo'', PyDict [(''tooOldLogEventEndIndex'', PyInt 0)]),
      (''nextSequenceToken'', PyStr ''T2'')])"

definition demo_rt :: "'s \<Rightarrow> 's rt" where
  "demo_rt q = \<lparr>environ = [''CloudWatchLogGroupName'' \<mapsto> ''workload-security'',
                           ''CloudWatchLogStreamNamePrefix'' \<mapsto> ''sns''],
                rand_src = (\<lambda>i. of_nat (i mod 100) / 100), rand_pos = 0,
                clock = (\<lambda>i. 1700000000 + of_nat i / 10), clock_pos = 0,
                svc = q, calls = [], stdout = []\<rparr>"

definition demo_msgs :: "pyval list" where
  "demo_msgs = [PyStr ''alpha'', PyInt 42, PyStr ''gamma'']"

definition demo_ok :: "(py_exc + pyval) list rt" where
  "demo_ok = demo_rt [ok_resp ''T1'', ok_resp ''T2'', ok_resp ''T3'']"

definition demo_rej :: "(py_exc + pyval) list rt" where
  "demo_rej = demo_rt [ok_resp ''T1'', rej_resp, ok_resp ''T3'']"

definition demo_event :: "string \<Rightarrow> pyval" where
  "demo_event doc = PyDict [(''Records'', PyList [PyDict [(''Sns'', PyDict [(''Message'', PyStr doc)])]])]"

definition meta_ok :: "py_exc + pyval" where
  "meta_ok = Inr (PyDict [(''ResponseMetadata'', PyDict [(''HTTPStatusCode'', PyInt 200)])])"

definition no_groups :: "py_exc + pyval" where
  "no_groups = Inr (PyDict [(''logGroups'', PyList [])])"

definition demo_fresh :: "(py_exc + pyval) list rt" where
  "demo_fresh = demo_rt [no_groups, meta_ok, meta_ok, ok_resp ''T1'', ok_resp ''T2'']"

definition demo_cwl :: cwl where
  "demo_cwl = \<lparr>groups = [], now_ms = 1700000000000\<rparr>"

definition empty_group :: lgroup where
  "empty_group = \<lparr>tags_of = [], streams = []\<rparr>"

definition cwl_similar :: cwl where
  "cwl_similar = \<lparr>groups = [(''workload-security-old'', empty_group)], now_ms = 1700000000000\<rparr>"

definition cwl_many :: cwl where
  "cwl_many = \<lparr>groups = map (\<lambda>i. (''app-'' @ dec_nat i, empty_group)) [0..<50] @
                         [(''workload-security'', empty_group)], now_ms = 1700000000000\<rparr>"

definition groups_with_g :: "py_exc + pyval" where
  "groups_with_g = Inr (PyDict [(''logGroups'', PyList [PyDict [(''logGroupName'', PyStr ''workload-security'')]])])"


definition demo_strs_doc :: string where
  "demo_strs_doc = CHR ''['' # join_str '', '' (map (\<lambda>s. CHR 0x22 # s @ [CHR 0x22]) [''alpha'', ''beta'']) @ '']''"

text \<open>The two states the step machine passes through on the batch
  \<open>[\<open>"alpha"\<close>, 42]\<close> against \<open>demo_rej\<close>: accepted, then rejected.\<close>

definition demo_loop_mid :: "(py_exc + pyval) list rt" where
  "demo_loop_mid = snd (snd (put_step stub_client ''g'' ''s'' (PyStr ''alpha'') PyNone demo_rej))"

definition demo_loop_end :: "(py_exc + pyval) list rt" where
  "demo_loop_end = snd (snd (put_step stub_client ''g'' ''s'' (PyInt 42) (PyStr ''T1'') demo_loop_mid))"

lemma demo_rt_random: "random_contract (demo_rt q)"
  by (simp add: random_contract_def demo_rt_def)

lemma demo_rt_config:
  "valid_group_name (config_str (environ (demo_rt q)) ''CloudWatchLogGroupName'') \<and>
   CHR '':'' \<notin> set (config_str (environ (demo_rt q)) ''CloudWatchLogStreamNamePrefix'') \<and>
   CHR ''*'' \<notin> set (config_str (environ (demo_rt q)) ''CloudWatchLogStreamNamePrefix'') \<and>
   length (config_str (environ (demo_rt q)) ''CloudWatchLogStreamNamePrefix'') \<le> 503"
proof -
  have "config_str (environ (demo_rt q)) ''CloudWatchLogGroupName'' = ''workload-security''"
       "config_str (environ (demo_rt q)) ''CloudWatchLogStreamNamePrefix'' = ''sns''"
    by (simp_all add: demo_rt_def config_str_def)
  moreover have "valid_group_name ''workload-security''" by code_simp
  ultimately show ?thesis by simp
qed

lemma demo_alpha_msg: "event_message (demo_event ''[\"alpha\", 42]'') = Inr (PyStr ''[\"alpha\", 42]'')"
  by code_simp

lemma demo_alpha_doc: "json_loads ''[\"alpha\", 42]'' = Inr (PyList [PyStr ''alpha'', PyInt 42])"
  by code_simp

lemma demo_loop_run:
  "(loop_step stub_client ''g'' ''s'')\<^sup>*\<^sup>* (Sending, [PyStr ''alpha'', PyInt 42], PyNone, demo_rej)
     (Returned (PyBool False), [], PyStr ''T1'', demo_loop_end)"
proof -
  have s1: "put_step stub_client ''g'' ''s'' (PyStr ''alpha'') PyNone demo_rej =
      (fst (put_step stub_client ''g'' ''s'' (PyStr ''alpha'') PyNone demo_rej), ok_resp ''T1'', demo_loop_mid)"
    by (simp add: demo_loop_mid_def put_step_def stub_client_def demo_rej_def demo_rt_def Let_def)
  have mid: "svc demo_loop_mid = [rej_resp, ok_resp ''T3'']"
    by (simp add: demo_loop_mid_def put_step_def stub_client_def demo_rej_def demo_rt_def Let_def split: sum.splits)
  have s2: "put_step stub_client ''g'' ''s'' (PyInt 42) (PyStr ''T1'') demo_loop_mid =
      (fst (put_step stub_client ''g'' ''s'' (PyInt 42) (PyStr ''T1'') demo_loop_mid), rej_resp, demo_loop_end)"
    by (simp add: demo_loop_end_def put_step_def stub_client_def mid Let_def)
  have o1: "put_outcome (ok_resp ''T1'') = Inr (PyStr ''T1'')" by code_simp
  have o2: "put_outcome rej_resp = Inr PyNone" by code_simp
  have "loop_step stub_client ''g'' ''s'' (Sending, [PyStr ''alpha'', PyInt 42], PyNone, demo_rej)
          (Sending, [PyInt 42], PyStr ''T1'', demo_loop_mid)"
    by (rule ls_accepted [OF s1 o1]) simp
  moreover have "loop_step stub_client ''g'' ''s'' (Sending, [PyInt 42], PyStr ''T1'', demo_loop_mid)
          (Returned (PyBool False), [], PyStr ''T1'', demo_loop_end)"
    by (rule ls_rejected [OF s2 o2])
  ultimately show ?thesis by (rule converse_rtranclp_into_rtranclp [OF _ r_into_rtranclp])
qed

section \<open>Witnesses of the loop properties\<close>

theorem send_messages_complete_witness:
  "send_messages stub_client ''g'' ''s'' demo_msgs PyNone demo_ok =
     (Inr PyNone, snd (send_messages stub_client ''g'' ''s'' demo_msgs PyNone demo_ok)) \<and>
   (\<exists>tr. calls (snd (send_messages stub_client ''g'' ''s'' demo_msgs PyNone demo_ok)) = calls demo_ok @ tr \<and>
        length tr = length demo_msgs \<and>
        (\<forall>i < length tr. \<exists>tk. fst (tr ! i) =
           PutLogEvents ''g'' ''s''
             [\<lparr>timestamp = epoch_ms (clock demo_ok (clock_pos demo_ok + i)),
               message = py_str (demo_msgs ! i)\<rparr>] tk))"
proof -
  have "fst (send_messages stub_client ''g'' ''s'' demo_msgs PyNone demo_ok) = Inr PyNone"
    by code_simp
  then have run: "send_messages stub_client ''g'' ''s'' demo_msgs PyNone demo_ok =
     (Inr PyNone, snd (send_messages stub_client ''g'' ''s'' demo_msgs PyNone demo_ok))"
    by (metis prod.collapse)
  show ?thesis using run Forwarder.send_messages_complete [OF run] by blast
qed

theorem send_messages_threads_tokens_witness:
  "send_messages stub_client ''g'' ''s'' demo_msgs PyNone demo_ok =
     (fst (send_messages stub_client ''g'' ''s'' demo_msgs PyNone demo_ok),
      snd (send_messages stub_client ''g'' ''s'' demo_msgs PyNone demo_ok)) \<and>
   calls (snd (send_messages stub_client ''g'' ''s'' demo_msgs PyNone demo_ok)) =
     calls demo_ok @ calls (snd (send_messages stub_client ''g'' ''s'' demo_msgs PyNone demo_ok)) \<and>
   (let tr = calls (snd (send_messages stub_client ''g'' ''s'' demo_msgs PyNone demo_ok)) in
    (tr \<noteq> [] \<longrightarrow> req_token (fst (hd tr)) = None) \<and>
    (\<forall>i. Suc i < length tr \<longrightarrow>
       (\<exists>resp t. snd (tr ! i) = Inr resp \<and>
          py_getitem resp (PyStr ''nextSequenceToken'') = Inr t \<and>
          req_token (fst (tr ! Suc i)) = (if py_truthy t then Some t else None))))"
proof -
  have run: "send_messages stub_client ''g'' ''s'' demo_msgs PyNone demo_ok =
     (fst (send_messages stub_client ''g'' ''s'' demo_msgs PyNone demo_ok),
      snd (send_messages stub_client ''g'' ''s'' demo_msgs PyNone demo_ok))"
    by simp
  have nil: "calls (snd (send_messages stub_client ''g'' ''s'' demo_msgs PyNone demo_ok)) =
     calls demo_ok @ calls (snd (send_messages stub_client ''g'' ''s'' demo_msgs PyNone demo_ok))"
    by (simp add: demo_ok_def demo_rt_def)
  show ?thesis using run nil Forwarder.send_messages_threads_tokens [OF run nil] by (simp add: Let_def)
qed

theorem send_messages_stops_at_rejection_witness:
  "send_messages stub_client ''g'' ''s'' demo_msgs PyNone demo_rej =
     (fst (send_messages stub_client ''g'' ''s'' demo_msgs PyNone demo_rej),
      snd (send_messages stub_client ''g'' ''s'' demo_msgs PyNone demo_rej)) \<and>
   calls (snd (send_messages stub_client ''g'' ''s'' demo_msgs PyNone demo_rej)) =
     calls demo_rej @ calls (snd (send_messages stub_client ''g'' ''s'' demo_msgs PyNone demo_rej)) \<and>
   1 < length (calls (snd (send_messages stub_client ''g'' ''s'' demo_msgs PyNone demo_rej))) \<and>
   snd (calls (snd (send_messages stub_client ''g'' ''s'' demo_msgs PyNone demo_rej)) ! 1) = rej_resp \<and>
   py_contains (projr rej_resp) (PyStr ''rejectedLogEventsInfo'') = Inr True \<and>
   length (calls (snd (send_messages stub_client ''g'' ''s'' demo_msgs PyNone demo_rej))) = Suc 1 \<and>
   fst (send_messages stub_client ''g'' ''s'' demo_msgs PyNone demo_rej) = Inr (PyBool False)"
proof -
  have run: "send_messages stub_client ''g'' ''s'' demo_msgs PyNone demo_rej =
     (fst (send_messages stub_client ''g'' ''s'' demo_msgs PyNone demo_rej),
      snd (send_messages stub_client ''g'' ''s'' demo_msgs PyNone demo_rej))"
    by simp
  have nil: "calls (snd (send_messages stub_client ''g'' ''s'' demo_msgs PyNone demo_rej)) =
     calls demo_rej @ calls (snd (send_messages stub_client ''g'' ''s'' demo_msgs PyNone demo_rej))"
    by (simp add: demo_rej_def demo_rt_def)
  have k: "1 < length (calls (snd (send_messages stub_client ''g'' ''s'' demo_msgs PyNone demo_rej)))"
    by code_simp
  have r: "snd (calls (snd (send_messages stub_client ''g'' ''s'' demo_msgs PyNone demo_rej)) ! 1) =
           Inr (projr rej_resp)"
    by code_simp
  have c: "py_contains (projr rej_resp) (PyStr ''rejectedLogEventsInfo'') = Inr True"
    by code_simp
  from Forwarder.send_messages_stops_at_rejection [OF run nil k r c]
  show ?thesis using run nil k r c by (simp add: rej_resp_def)
qed

theorem make_nonce_format_witness:
  "random_contract demo_ok \<and>
   (\<exists>nonce. make_nonce demo_ok = (Inr nonce, demo_ok\<lparr>rand_pos := rand_pos demo_ok + 8\<rparr>) \<and>
      length nonce = 8 \<and> set nonce \<subseteq> set ''ABCDEFGHIJKLMNOPQRSTUVWXYZ0123456789'')"
proof -
  have rc: "random_contract demo_ok" by (simp add: demo_ok_def demo_rt_random)
  show ?thesis using rc Forwarder.make_nonce_format [OF rc] by blast
qed

theorem lambda_handler_empty_batch_witness:
  "event_message (demo_event ''[]'') = Inr (PyStr ''[]'') \<and> json_loads ''[]'' = Inr (PyList []) \<and>
   random_contract demo_ok \<and>
   (\<exists>st'. lambda_handler stub_client (demo_event ''[]'') demo_ok = (Inr PyNone, st') \<and>
          calls st' = calls demo_ok)"
proof -
  have m: "event_message (demo_event ''[]'') = Inr (PyStr ''[]'')" by code_simp
  have d: "json_loads ''[]'' = Inr (PyList [])" by code_simp
  have rc: "random_contract demo_ok" by (simp add: demo_ok_def demo_rt_random)
  show ?thesis using m d rc Handler.lambda_handler_empty_batch [OF m d rc] by blast
qed
theorem lambda_handler_call_sequence_witness:
  "lambda_handler stub_client (demo_event ''[\"alpha\", 42]'') demo_fresh =
     (fst (lambda_handler stub_client (demo_event ''[\"alpha\", 42]'') demo_fresh),
      snd (lambda_handler stub_client (demo_event ''[\"alpha\", 42]'') demo_fresh)) \<and>
   event_message (demo_event ''[\"alpha\", 42]'') = Inr (PyStr ''[\"alpha\", 42]'') \<and>
   json_loads ''[\"alpha\", 42]'' = Inr (PyList [PyStr ''alpha'', PyInt 42]) \<and>
   [PyStr ''alpha'', PyInt 42] \<noteq> [] \<and> random_contract demo_fresh \<and>
   (\<exists>nonce pre tr r.
      length nonce = 8 \<and> set nonce \<subseteq> set ''ABCDEFGHIJKLMNOPQRSTUVWXYZ0123456789'' \<and>
      calls (snd (lambda_handler stub_client (demo_event ''[\"alpha\", 42]'') demo_fresh)) =
        calls demo_fresh @ pre @ tr \<and>
      setup_calls (config_str (environ demo_fresh) ''CloudWatchLogGroupName'')
        (config_str (environ demo_fresh) ''CloudWatchLogStreamNamePrefix'' @ ''-'' @ nonce) pre r \<and>
      (case r of Inl e \<Rightarrow> tr = [] \<and>
                   fst (lambda_handler stub_client (demo_event ''[\"alpha\", 42]'') demo_fresh) = Inl e
               | Inr s \<Rightarrow> appends (config_str (environ demo_fresh) ''CloudWatchLogGroupName'') s
                    (clock demo_fresh) (clock_pos demo_fresh) [PyStr ''alpha'', PyInt 42] None tr
                    (fst (lambda_handler stub_client (demo_event ''[\"alpha\", 42]'') demo_fresh))))"
proof -
  have run: "lambda_handler stub_client (demo_event ''[\"alpha\", 42]'') demo_fresh =
     (fst (lambda_handler stub_client (demo_event ''[\"alpha\", 42]'') demo_fresh),
      snd (lambda_handler stub_client (demo_event ''[\"alpha\", 42]'') demo_fresh))"
    by simp
  note m = demo_alpha_msg and d = demo_alpha_doc
  have ne: "[PyStr ''alpha'', PyInt 42] \<noteq> []" by simp
  have rc: "random_contract demo_fresh" by (simp add: demo_fresh_def demo_rt_random)
  show ?thesis using run m d ne rc Handler.lambda_handler_call_sequence [OF run m d ne rc] by blast
qed

theorem lambda_handler_delivers_witness:
  "event_message (demo_event ''[\"alpha\", 42]'') = Inr (PyStr ''[\"alpha\", 42]'') \<and>
   json_loads ''[\"alpha\", 42]'' = Inr (PyList [PyStr ''alpha'', PyInt 42]) \<and>
   [PyStr ''alpha'', PyInt 42] \<noteq> [] \<and> random_contract (demo_rt demo_cwl) \<and>
   valid_group_name (config_str (environ (demo_rt demo_cwl)) ''CloudWatchLogGroupName'') \<and>
   CHR '':'' \<notin> set (config_str (environ (demo_rt demo_cwl)) ''CloudWatchLogStreamNamePrefix'') \<and>
   CHR ''*'' \<notin> set (config_str (environ (demo_rt demo_cwl)) ''CloudWatchLogStreamNamePrefix'') \<and>
   length (config_str (environ (demo_rt demo_cwl)) ''CloudWatchLogStreamNamePrefix'') \<le> 503 \<and>
   (list_ex (\<lambda>n. str_contains n (config_str (environ (demo_rt demo_cwl)) ''CloudWatchLogGroupName''))
      (take page_size (sort (map fst (groups (svc (demo_rt demo_cwl)))))) \<longleftrightarrow>
    map_of (groups (svc (demo_rt demo_cwl))) (config_str (environ (demo_rt demo_cwl)) ''CloudWatchLogGroupName'') \<noteq> None) \<and>
   (\<forall>x. stream_of (svc (demo_rt demo_cwl)) (config_str (environ (demo_rt demo_cwl)) ''CloudWatchLogGroupName'')
          (config_str (environ (demo_rt demo_cwl)) ''CloudWatchLogStreamNamePrefix'' @ ''-'' @ x) = None) \<and>
   window_ok (demo_rt demo_cwl) (now_ms (svc (demo_rt demo_cwl))) (length [PyStr ''alpha'', PyInt 42]) \<and>
   (\<exists>st' nonce. lambda_handler cwl_call (demo_event ''[\"alpha\", 42]'') (demo_rt demo_cwl) = (Inr PyNone, st') \<and>
      length nonce = 8 \<and>
      map_option stored (stream_of (svc st') (config_str (environ (demo_rt demo_cwl)) ''CloudWatchLogGroupName'')
         (config_str (environ (demo_rt demo_cwl)) ''CloudWatchLogStreamNamePrefix'' @ ''-'' @ nonce)) =
      Some (map (\<lambda>i. \<lparr>timestamp = epoch_ms (clock (demo_rt demo_cwl) (clock_pos (demo_rt demo_cwl) + i)),
                      message = py_str ([PyStr ''alpha'', PyInt 42] ! i)\<rparr>) [0..<length [PyStr ''alpha'', PyInt 42]]))"
proof -
  note m = demo_alpha_msg and d = demo_alpha_doc
  have ne: "[PyStr ''alpha'', PyInt 42] \<noteq> []" by simp
  have rc: "random_contract (demo_rt demo_cwl)" by (rule demo_rt_random)
  have gv: "valid_group_name (config_str (environ (demo_rt demo_cwl)) ''CloudWatchLogGroupName'')"
    using demo_rt_config [of demo_cwl] by simp
  have p1: "CHR '':'' \<notin> set (config_str (environ (demo_rt demo_cwl)) ''CloudWatchLogStreamNamePrefix'')"
    using demo_rt_config [of demo_cwl] by simp
  have p2: "CHR ''*'' \<notin> set (config_str (environ (demo_rt demo_cwl)) ''CloudWatchLogStreamNamePrefix'')"
    using demo_rt_config [of demo_cwl] by simp
  have p3: "length (config_str (environ (demo_rt demo_cwl)) ''CloudWatchLogStreamNamePrefix'') \<le> 503"
    using demo_rt_config [of demo_cwl] by simp
  have acc: "list_ex (\<lambda>n. str_contains n (config_str (environ (demo_rt demo_cwl)) ''CloudWatchLogGroupName''))
      (take page_size (sort (map fst (groups (svc (demo_rt demo_cwl)))))) \<longleftrightarrow>
    map_of (groups (svc (demo_rt demo_cwl))) (config_str (environ (demo_rt demo_cwl)) ''CloudWatchLogGroupName'') \<noteq> None"
    by (simp add: demo_rt_def demo_cwl_def)
  have fr: "\<forall>x. stream_of (svc (demo_rt demo_cwl)) (config_str (environ (demo_rt demo_cwl)) ''CloudWatchLogGroupName'')
          (config_str (environ (demo_rt demo_cwl)) ''CloudWatchLogStreamNamePrefix'' @ ''-'' @ x) = None"
    by (simp add: demo_rt_def demo_cwl_def stream_of_def)
  have w: "window_ok (demo_rt demo_cwl) (now_ms (svc (demo_rt demo_cwl))) (length [PyStr ''alpha'', PyInt 42])"
    by code_simp
  show ?thesis using m d ne rc gv p1 p2 p3 acc fr w
    Delivery.lambda_handler_delivers [OF m d ne rc gv p1 p2 p3 acc fr w] by blast
qed

theorem lambda_handler_substring_false_positive_witness:
  "event_message (demo_event ''[\"alpha\", 42]'') = Inr (PyStr ''[\"alpha\", 42]'') \<and>
   json_loads ''[\"alpha\", 42]'' = Inr (PyList [PyStr ''alpha'', PyInt 42]) \<and>
   [PyStr ''alpha'', PyInt 42] \<noteq> [] \<and> random_contract (demo_rt cwl_similar) \<and>
   CHR '':'' \<notin> set (config_str (environ (demo_rt cwl_similar)) ''CloudWatchLogStreamNamePrefix'') \<and>
   CHR ''*'' \<notin> set (config_str (environ (demo_rt cwl_similar)) ''CloudWatchLogStreamNamePrefix'') \<and>
   length (config_str (environ (demo_rt cwl_similar)) ''CloudWatchLogStreamNamePrefix'') \<le> 503 \<and>
   map_of (groups (svc (demo_rt cwl_similar))) (config_str (environ (demo_rt cwl_similar)) ''CloudWatchLogGroupName'') = None \<and>
   list_ex (\<lambda>n. str_contains n (config_str (environ (demo_rt cwl_similar)) ''CloudWatchLogGroupName''))
     (take page_size (sort (map fst (groups (svc (demo_rt cwl_similar)))))) \<and>
   (\<exists>st' nonce. lambda_handler cwl_call (demo_event ''[\"alpha\", 42]'') (demo_rt cwl_similar) =
       (Inl (ClientError ''ResourceNotFoundException'' ''CreateLogStream''), st') \<and>
     map fst (calls st') = map fst (calls (demo_rt cwl_similar)) @
       [DescribeLogGroups,
        CreateLogStream (config_str (environ (demo_rt cwl_similar)) ''CloudWatchLogGroupName'')
          (config_str (environ (demo_rt cwl_similar)) ''CloudWatchLogStreamNamePrefix'' @ ''-'' @ nonce)])"
proof -
  note m = demo_alpha_msg and d = demo_alpha_doc
  have ne: "[PyStr ''alpha'', PyInt 42] \<noteq> []" by simp
  have rc: "random_contract (demo_rt cwl_similar)" by (rule demo_rt_random)
  have p1: "CHR '':'' \<notin> set (config_str (environ (demo_rt cwl_similar)) ''CloudWatchLogStreamNamePrefix'')"
    using demo_rt_config [of cwl_similar] by simp
  have p2: "CHR ''*'' \<notin> set (config_str (environ (demo_rt cwl_similar)) ''CloudWatchLogStreamNamePrefix'')"
    using demo_rt_config [of cwl_similar] by simp
  have p3: "length (config_str (environ (demo_rt cwl_similar)) ''CloudWatchLogStreamNamePrefix'') \<le> 503"
    using demo_rt_config [of cwl_similar] by simp
  have ab: "map_of (groups (svc (demo_rt cwl_similar)))
              (config_str (environ (demo_rt cwl_similar)) ''CloudWatchLogGroupName'') = None"
    by code_simp
  have sim: "list_ex (\<lambda>n. str_contains n (config_str (environ (demo_rt cwl_similar)) ''CloudWatchLogGroupName''))
     (take page_size (sort (map fst (groups (svc (demo_rt cwl_similar))))))"
    by code_simp
  show ?thesis using m d ne rc p1 p2 p3 ab sim
    Delivery.lambda_handler_substring_false_positive [OF m d ne rc p1 p2 p3 ab sim] by blast
qed

theorem lambda_handler_group_beyond_first_page_witness:
  "event_message (demo_event ''[\"alpha\", 42]'') = Inr (PyStr ''[\"alpha\", 42]'') \<and>
   json_loads ''[\"alpha\", 42]'' = Inr (PyList [PyStr ''alpha'', PyInt 42]) \<and>
   [PyStr ''alpha'', PyInt 42] \<noteq> [] \<and> random_contract (demo_rt cwl_many) \<and>
   valid_group_name (config_str (environ (demo_rt cwl_many)) ''CloudWatchLogGroupName'') \<and>
   map_of (groups (svc (demo_rt cwl_many))) (config_str (environ (demo_rt cwl_many)) ''CloudWatchLogGroupName'') \<noteq> None \<and>
   \<not> list_ex (\<lambda>n. str_contains n (config_str (environ (demo_rt cwl_many)) ''CloudWatchLogGroupName''))
     (take page_size (sort (map fst (groups (svc (demo_rt cwl_many)))))) \<and>
   (\<exists>st'. lambda_handler cwl_call (demo_event ''[\"alpha\", 42]'') (demo_rt cwl_many) =
       (Inl (ClientError ''ResourceAlreadyExistsException'' ''CreateLogGroup''), st') \<and>
     map fst (calls st') = map fst (calls (demo_rt cwl_many)) @
       [DescribeLogGroups,
        CreateLogGroup (config_str (environ (demo_rt cwl_many)) ''CloudWatchLogGroupName'')
          (group_tags (config_str (environ (demo_rt cwl_many)) ''CloudWatchLogGroupName''))])"
proof -
  note m = demo_alpha_msg and d = demo_alpha_doc
  have ne: "[PyStr ''alpha'', PyInt 42] \<noteq> []" by simp
  have rc: "random_contract (demo_rt cwl_many)" by (rule demo_rt_random)
  have gv: "valid_group_name (config_str (environ (demo_rt cwl_many)) ''CloudWatchLogGroupName'')"
    using demo_rt_config [of cwl_many] by simp
  have pr: "map_of (groups (svc (demo_rt cwl_many)))
              (config_str (environ (demo_rt cwl_many)) ''CloudWatchLogGroupName'') \<noteq> None"
    by code_simp
  have un: "\<not> list_ex (\<lambda>n. str_contains n (config_str (environ (demo_rt cwl_many)) ''CloudWatchLogGroupName''))
     (take page_size (sort (map fst (groups (svc (demo_rt cwl_many))))))"
    by code_simp
  show ?thesis using m d ne rc gv pr un
    Delivery.lambda_handler_group_beyond_first_page [OF m d ne rc gv pr un] by blast
qed

theorem lambda_handler_bad_message_witness:
  "bindS (event_message (demo_event ''[1,'')) json_loads_value = Inl (JSONDecodeError ''Expecting value'' 3) \<and>
   random_contract (demo_rt [groups_with_g]) \<and>
   (\<exists>st'. lambda_handler stub_client (demo_event ''[1,'') (demo_rt [groups_with_g]) =
      (Inl (JSONDecodeError ''Expecting value'' 3), st') \<and>
      calls st' = calls (demo_rt [groups_with_g]) \<and> svc st' = svc (demo_rt [groups_with_g]))"
proof -
  have d: "bindS (event_message (demo_event ''[1,'')) json_loads_value = Inl (JSONDecodeError ''Expecting value'' 3)"
    by code_simp
  show ?thesis by (intro conjI d demo_rt_random lambda_handler_bad_message [OF d demo_rt_random])
qed

theorem lambda_handler_no_len_witness:
  "bindS (event_message (demo_event ''42'')) json_loads_value = Inr (PyInt 42) \<and>
   py_len (PyInt 42) = Inl (TypeError ''object of type 'int' has no len()'') \<and>
   random_contract (demo_rt [groups_with_g]) \<and>
   (\<exists>st'. lambda_handler stub_client (demo_event ''42'') (demo_rt [groups_with_g]) =
      (Inl (TypeError ''object of type 'int' has no len()''), st') \<and>
      calls st' = calls (demo_rt [groups_with_g]) \<and> svc st' = svc (demo_rt [groups_with_g]))"
proof -
  have d: "bindS (event_message (demo_event ''42'')) json_loads_value = Inr (PyInt 42)" by code_simp
  have l: "py_len (PyInt 42) = Inl (TypeError ''object of type 'int' has no len()'')" by code_simp
  show ?thesis by (intro conjI d l demo_rt_random lambda_handler_no_len [OF d l demo_rt_random])
qed

theorem lambda_handler_refines_deliver_witness:
  "event_message (demo_event ''[\"alpha\", 42]'') = Inr (PyStr ''[\"alpha\", 42]'') \<and>
   json_loads ''[\"alpha\", 42]'' = Inr (PyList [PyStr ''alpha'', PyInt 42]) \<and>
   [PyStr ''alpha'', PyInt 42] \<noteq> [] \<and> random_contract (demo_rt demo_cwl) \<and>
   valid_group_name (config_str (environ (demo_rt demo_cwl)) ''CloudWatchLogGroupName'') \<and>
   CHR '':'' \<notin> set (config_str (environ (demo_rt demo_cwl)) ''CloudWatchLogStreamNamePrefix'') \<and>
   CHR ''*'' \<notin> set (config_str (environ (demo_rt demo_cwl)) ''CloudWatchLogStreamNamePrefix'') \<and>
   length (config_str (environ (demo_rt demo_cwl)) ''CloudWatchLogStreamNamePrefix'') \<le> 503 \<and>
   (list_ex (\<lambda>n. str_contains n (config_str (environ (demo_rt demo_cwl)) ''CloudWatchLogGroupName''))
      (take page_size (sort (map fst (groups (svc (demo_rt demo_cwl)))))) \<longleftrightarrow>
    map_of (groups (svc (demo_rt demo_cwl))) (config_str (environ (demo_rt demo_cwl)) ''CloudWatchLogGroupName'') \<noteq> None) \<and>
   (\<forall>x. stream_of (svc (demo_rt demo_cwl)) (config_str (environ (demo_rt demo_cwl)) ''CloudWatchLogGroupName'')
          (config_str (environ (demo_rt demo_cwl)) ''CloudWatchLogStreamNamePrefix'' @ ''-'' @ x) = None) \<and>
   window_ok (demo_rt demo_cwl) (now_ms (svc (demo_rt demo_cwl))) (length [PyStr ''alpha'', PyInt 42]) \<and>
   (\<exists>st' nonce. lambda_handler cwl_call (demo_event ''[\"alpha\", 42]'') (demo_rt demo_cwl) = (Inr PyNone, st') \<and>
      stream_store (svc (demo_rt demo_cwl)) (config_str (environ (demo_rt demo_cwl)) ''CloudWatchLogGroupName'')
        (config_str (environ (demo_rt demo_cwl)) ''CloudWatchLogStreamNamePrefix'' @ ''-'' @ nonce) = None \<and>
      stream_store (svc st') =
        deliver_batch (stream_store (svc (demo_rt demo_cwl)))
          (config_str (environ (demo_rt demo_cwl)) ''CloudWatchLogGroupName'')
          (config_str (environ (demo_rt demo_cwl)) ''CloudWatchLogStreamNamePrefix'' @ ''-'' @ nonce)
          (map (\<lambda>i. \<lparr>timestamp = epoch_ms (clock (demo_rt demo_cwl) (clock_pos (demo_rt demo_cwl) + i)),
                     message = py_str ([PyStr ''alpha'', PyInt 42] ! i)\<rparr>) [0..<length [PyStr ''alpha'', PyInt 42]]))"
proof -
  note m = demo_alpha_msg and d = demo_alpha_doc
  have ne: "[PyStr ''alpha'', PyInt 42] \<noteq> []" by simp
  have rc: "random_contract (demo_rt demo_cwl)" by (rule demo_rt_random)
  have gv: "valid_group_name (config_str (environ (demo_rt demo_cwl)) ''CloudWatchLogGroupName'')"
    using demo_rt_config [of demo_cwl] by simp
  have p1: "CHR '':'' \<notin> set (config_str (environ (demo_rt demo_cwl)) ''CloudWatchLogStreamNamePrefix'')"
    using demo_rt_config [of demo_cwl] by simp
  have p2: "CHR ''*'' \<notin> set (config_str (environ (demo_rt demo_cwl)) ''CloudWatchLogStreamNamePrefix'')"
    using demo_rt_config [of demo_cwl] by simp
  have p3: "length (config_str (environ (demo_rt demo_cwl)) ''CloudWatchLogStreamNamePrefix'') \<le> 503"
    using demo_rt_config [of demo_cwl] by simp
  have acc: "list_ex (\<lambda>n. str_contains n (config_str (environ (demo_rt demo_cwl)) ''CloudWatchLogGroupName''))
      (take page_size (sort (map fst (groups (svc (demo_rt demo_cwl)))))) \<longleftrightarrow>
    map_of (groups (svc (demo_rt demo_cwl))) (config_str (environ (demo_rt demo_cwl)) ''CloudWatchLogGroupName'') \<noteq> None"
    by (simp add: demo_rt_def demo_cwl_def)
  have fr: "\<forall>x. stream_of (svc (demo_rt demo_cwl)) (config_str (environ (demo_rt demo_cwl)) ''CloudWatchLogGroupName'')
          (config_str (environ (demo_rt demo_cwl)) ''CloudWatchLogStreamNamePrefix'' @ ''-'' @ x) = None"
    by (simp add: demo_rt_def demo_cwl_def stream_of_def)
  have w: "window_ok (demo_rt demo_cwl) (now_ms (svc (demo_rt demo_cwl))) (length [PyStr ''alpha'', PyInt 42])"
    by code_simp
  show ?thesis using m d ne rc gv p1 p2 p3 acc fr w
    Delivery.lambda_handler_refines_deliver [OF m d ne rc gv p1 p2 p3 acc fr w] by blast
qed

theorem lambda_handler_stores_strings_witness:
  "event_message (demo_event demo_strs_doc) =
     Inr (PyStr (CHR ''['' # join_str '', '' (map (\<lambda>s. CHR 0x22 # s @ [CHR 0x22]) [''alpha'', ''beta'']) @ '']'')) \<and>
   list_all (list_all plain_char) [''alpha'', ''beta''] \<and> [''alpha'', ''beta''] \<noteq> [] \<and>
   random_contract (demo_rt demo_cwl) \<and> valid_group_name (config_str (environ (demo_rt demo_cwl)) ''CloudWatchLogGroupName'') \<and>
   CHR '':'' \<notin> set (config_str (environ (demo_rt demo_cwl)) ''CloudWatchLogStreamNamePrefix'') \<and> CHR ''*'' \<notin> set (config_str (environ (demo_rt demo_cwl)) ''CloudWatchLogStreamNamePrefix'') \<and> length (config_str (environ (demo_rt demo_cwl)) ''CloudWatchLogStreamNamePrefix'') \<le> 503 \<and>
   (list_ex (\<lambda>n. str_contains n (config_str (environ (demo_rt demo_cwl)) ''CloudWatchLogGroupName'')) (take page_size (sort (map fst (groups (svc (demo_rt demo_cwl)))))) \<longleftrightarrow>
    map_of (groups (svc (demo_rt demo_cwl))) (config_str (environ (demo_rt demo_cwl)) ''CloudWatchLogGroupName'') \<noteq> None) \<and>
   (\<forall>x. stream_of (svc (demo_rt demo_cwl)) (config_str (environ (demo_rt demo_cwl)) ''CloudWatchLogGroupName'') ((config_str (environ (demo_rt demo_cwl)) ''CloudWatchLogStreamNamePrefix'') @ ''-'' @ x) = None) \<and>
   window_ok (demo_rt demo_cwl) (now_ms (svc (demo_rt demo_cwl))) (length [''alpha'', ''beta'']) \<and>
   (\<exists>st' nonce. lambda_handler cwl_call (demo_event demo_strs_doc) (demo_rt demo_cwl) = (Inr PyNone, st') \<and>
      map_option (map message \<circ> stored) (stream_of (svc st') (config_str (environ (demo_rt demo_cwl)) ''CloudWatchLogGroupName'') ((config_str (environ (demo_rt demo_cwl)) ''CloudWatchLogStreamNamePrefix'') @ ''-'' @ nonce)) =
        Some [''alpha'', ''beta''])"
proof -
  have m: "event_message (demo_event demo_strs_doc) = Inr (PyStr (CHR ''['' # join_str '', '' (map (\<lambda>s. CHR 0x22 # s @ [CHR 0x22]) [''alpha'', ''beta'']) @ '']''))"
    by code_simp
  have pl: "list_all (list_all plain_char) [''alpha'', ''beta'']" by code_simp
  have ne: "[''alpha'', ''beta''] \<noteq> []" by simp
  have rc: "random_contract (demo_rt demo_cwl)" by (rule demo_rt_random)
  have cfg: "valid_group_name (config_str (environ (demo_rt demo_cwl)) ''CloudWatchLogGroupName'') \<and> CHR '':'' \<notin> set (config_str (environ (demo_rt demo_cwl)) ''CloudWatchLogStreamNamePrefix'') \<and> CHR ''*'' \<notin> set (config_str (environ (demo_rt demo_cwl)) ''CloudWatchLogStreamNamePrefix'') \<and> length (config_str (environ (demo_rt demo_cwl)) ''CloudWatchLogStreamNamePrefix'') \<le> 503"
    by (rule demo_rt_config)
  have acc: "list_ex (\<lambda>n. str_contains n (config_str (environ (demo_rt demo_cwl)) ''CloudWatchLogGroupName'')) (take page_size (sort (map fst (groups (svc (demo_rt demo_cwl)))))) \<longleftrightarrow>
    map_of (groups (svc (demo_rt demo_cwl))) (config_str (environ (demo_rt demo_cwl)) ''CloudWatchLogGroupName'') \<noteq> None"
    by (simp add: demo_rt_def demo_cwl_def)
  have fr: "\<forall>x. stream_of (svc (demo_rt demo_cwl)) (config_str (environ (demo_rt demo_cwl)) ''CloudWatchLogGroupName'') ((config_str (environ (demo_rt demo_cwl)) ''CloudWatchLogStreamNamePrefix'') @ ''-'' @ x) = None"
    by (simp add: demo_rt_def demo_cwl_def stream_of_def)
  have w: "window_ok (demo_rt demo_cwl) (now_ms (svc (demo_rt demo_cwl))) (length [''alpha'', ''beta''])"
    by code_simp
  from cfg have gv: "valid_group_name (config_str (environ (demo_rt demo_cwl)) ''CloudWatchLogGroupName'')" and p1: "CHR '':'' \<notin> set (config_str (environ (demo_rt demo_cwl)) ''CloudWatchLogStreamNamePrefix'')" and p2: "CHR ''*'' \<notin> set (config_str (environ (demo_rt demo_cwl)) ''CloudWatchLogStreamNamePrefix'')"
    and p3: "length (config_str (environ (demo_rt demo_cwl)) ''CloudWatchLogStreamNamePrefix'') \<le> 503" by simp_all
  show ?thesis using m pl ne rc gv p1 p2 p3 acc fr w
    Delivery.lambda_handler_stores_strings [OF m pl ne rc gv p1 p2 p3 acc fr w] by blast
qed

theorem send_messages_timestamps_sorted_witness:
  "mono (clock demo_ok) \<and>
   (\<exists>tr. calls (snd (send_messages stub_client ''workload-security'' ''sns-A'' demo_msgs PyNone demo_ok)) =
           calls demo_ok @ tr \<and> sorted (put_timestamps tr))"
proof -
  have m: "mono (clock demo_ok)"
    by (auto simp: mono_def demo_ok_def demo_rt_def intro: divide_right_mono)
  obtain res st' where run: "send_messages stub_client ''workload-security'' ''sns-A'' demo_msgs PyNone demo_ok = (res, st')"
    by fastforce
  show ?thesis using m run Forwarder.send_messages_timestamps_sorted [OF run m] by simp
qed

theorem loop_reachable_calls_witness:
  "(loop_step stub_client ''g'' ''s'')\<^sup>*\<^sup>* (Sending, [PyStr ''alpha'', PyInt 42], PyNone, demo_rej)
     (Returned (PyBool False), [], PyStr ''T1'', demo_loop_end) \<and>
   (\<exists>pre tr. [PyStr ''alpha'', PyInt 42] = pre @ [] \<and> calls demo_loop_end = calls demo_rej @ tr \<and>
      length tr = length pre \<and> clock_pos demo_loop_end = clock_pos demo_rej + length pre \<and>
      clock demo_loop_end = clock demo_rej \<and>
      (\<forall>i < length tr. \<exists>tk. fst (tr ! i) =
         PutLogEvents ''g'' ''s'' [\<lparr>timestamp = epoch_ms (clock demo_rej (clock_pos demo_rej + i)),
                                    message = py_str (pre ! i)\<rparr>] tk))"
  by (rule conjI [OF demo_loop_run Steps.loop_reachable_calls [OF demo_loop_run]])

theorem send_messages_prints_witness:
  "\<exists>tr. calls (snd (send_messages stub_client ''g'' ''s'' demo_msgs PyNone demo_rej)) = calls demo_rej @ tr \<and>
        stdout (snd (send_messages stub_client ''g'' ''s'' demo_msgs PyNone demo_rej)) =
          stdout demo_rej @ put_prints tr"
proof -
  obtain res st' where run: "send_messages stub_client ''g'' ''s'' demo_msgs PyNone demo_rej = (res, st')"
    by fastforce
  show ?thesis using run Steps.send_messages_prints [OF run] by simp
qed

theorem lambda_handler_iterates_string_message_witness:
  "event_message (demo_event ''\"ab\"'') = Inr (PyStr ''\"ab\"'') \<and>
   json_loads ''\"ab\"'' = Inr (PyStr ''ab'') \<and> ''ab'' \<noteq> [] \<and>
   random_contract (demo_rt [groups_with_g, meta_ok, ok_resp ''T1'', ok_resp ''T2'']) \<and>
   (\<exists>name pre tr r.
      calls (snd (lambda_handler stub_client (demo_event ''\"ab\"'') (demo_rt [groups_with_g, meta_ok, ok_resp ''T1'', ok_resp ''T2'']))) =
        calls (demo_rt [groups_with_g, meta_ok, ok_resp ''T1'', ok_resp ''T2'']) @ pre @ tr \<and>
      setup_calls (config_str (environ (demo_rt [groups_with_g, meta_ok, ok_resp ''T1'', ok_resp ''T2''])) ''CloudWatchLogGroupName'') name pre r \<and>
      (case r of Inl e \<Rightarrow> tr = [] \<and> fst (lambda_handler stub_client (demo_event ''\"ab\"'') (demo_rt [groups_with_g, meta_ok, ok_resp ''T1'', ok_resp ''T2''])) = Inl e
       | Inr s \<Rightarrow> appends (config_str (environ (demo_rt [groups_with_g, meta_ok, ok_resp ''T1'', ok_resp ''T2''])) ''CloudWatchLogGroupName'') s
            (clock (demo_rt [groups_with_g, meta_ok, ok_resp ''T1'', ok_resp ''T2'']))
            (clock_pos (demo_rt [groups_with_g, meta_ok, ok_resp ''T1'', ok_resp ''T2'']))
            (map (\<lambda>c. PyStr [c]) ''ab'') None tr
            (fst (lambda_handler stub_client (demo_event ''\"ab\"'') (demo_rt [groups_with_g, meta_ok, ok_resp ''T1'', ok_resp ''T2''])))))"
proof -
  have m: "event_message (demo_event ''\"ab\"'') = Inr (PyStr ''\"ab\"'')" by code_simp
  have d: "json_loads ''\"ab\"'' = Inr (PyStr ''ab'')" by code_simp
  have ne: "''ab'' \<noteq> []" by simp
  have run: "lambda_handler stub_client (demo_event ''\"ab\"'') (demo_rt [groups_with_g, meta_ok, ok_resp ''T1'', ok_resp ''T2'']) =
     (fst (lambda_handler stub_client (demo_event ''\"ab\"'') (demo_rt [groups_with_g, meta_ok, ok_resp ''T1'', ok_resp ''T2''])),
      snd (lambda_handler stub_client (demo_event ''\"ab\"'') (demo_rt [groups_with_g, meta_ok, ok_resp ''T1'', ok_resp ''T2''])))"
    by simp
  show ?thesis
    by (intro conjI m d ne demo_rt_random Handler.lambda_handler_iterates_string_message [OF run m d ne demo_rt_random])
qed

theorem lambda_handler_unset_config_witness:
  "event_message (demo_event ''[\"x\"]'') = Inr (PyStr ''[\"x\"]'') \<and>
   json_loads ''[\"x\"]'' = Inr (PyList [PyStr ''x'']) \<and> [PyStr ''x''] \<noteq> [] \<and>
   random_contract ((demo_rt demo_cwl)\<lparr>environ := Map.empty\<rparr>) \<and>
   environ ((demo_rt demo_cwl)\<lparr>environ := Map.empty\<rparr>) ''CloudWatchLogGroupName'' = None \<and>
   (\<exists>name pre tr r.
      calls (snd (lambda_handler cwl_call (demo_event ''[\"x\"]'') ((demo_rt demo_cwl)\<lparr>environ := Map.empty\<rparr>))) =
        calls ((demo_rt demo_cwl)\<lparr>environ := Map.empty\<rparr>) @ pre @ tr \<and>
      setup_calls ''None'' name pre r \<and>
      (case r of Inl e \<Rightarrow> tr = [] \<and> fst (lambda_handler cwl_call (demo_event ''[\"x\"]'') ((demo_rt demo_cwl)\<lparr>environ := Map.empty\<rparr>)) = Inl e
       | Inr s \<Rightarrow> appends ''None'' s (clock ((demo_rt demo_cwl)\<lparr>environ := Map.empty\<rparr>))
            (clock_pos ((demo_rt demo_cwl)\<lparr>environ := Map.empty\<rparr>)) [PyStr ''x''] None tr
            (fst (lambda_handler cwl_call (demo_event ''[\"x\"]'') ((demo_rt demo_cwl)\<lparr>environ := Map.empty\<rparr>)))))"
proof -
  have m: "event_message (demo_event ''[\"x\"]'') = Inr (PyStr ''[\"x\"]'')" by code_simp
  have d: "json_loads ''[\"x\"]'' = Inr (PyList [PyStr ''x''])" by code_simp
  have ne: "[PyStr ''x''] \<noteq> []" by simp
  have rc: "random_contract ((demo_rt demo_cwl)\<lparr>environ := Map.empty\<rparr>)"
    by (simp add: random_contract_def demo_rt_def)
  have un: "environ ((demo_rt demo_cwl)\<lparr>environ := Map.empty\<rparr>) ''CloudWatchLogGroupName'' = None" by simp
  have run: "lambda_handler cwl_call (demo_event ''[\"x\"]'') ((demo_rt demo_cwl)\<lparr>environ := Map.empty\<rparr>) =
     (fst (lambda_handler cwl_call (demo_event ''[\"x\"]'') ((demo_rt demo_cwl)\<lparr>environ := Map.empty\<rparr>)),
      snd (lambda_handler cwl_call (demo_event ''[\"x\"]'') ((demo_rt demo_cwl)\<lparr>environ := Map.empty\<rparr>)))"
    by simp
  show ?thesis by (intro conjI m d ne rc un Handler.lambda_handler_unset_config [OF run m d ne rc un])
qed


end
